theory Spec2Isabelle
  imports Complex_Main "HOL-Library.Char_ord" "HOL-Library.List_Lexorder" "HOL-Library.Multiset"
begin

section \<open>Values, rows and exceptions\<close>

text \<open>
  A database row is a Python dict from column name to cell value, kept here as an
  association list in column order. Python floats are read as real numbers throughout:
  rounding is not modelled.
\<close>

datatype cell = CInt int | CNum real | CStr string | CNull

type_synonym row = "(string \<times> cell) list"

text \<open>Python truthiness of a cell, as \<open>if comparison_result['passed']\<close> reads it.\<close>

fun truthy :: "cell \<Rightarrow> bool" where
  "truthy (CInt n) = (n \<noteq> 0)"
| "truthy (CNum x) = (x \<noteq> 0)"
| "truthy (CStr s) = (s \<noteq> [])"
| "truthy CNull = False"

text \<open>
  The exceptions the modelled code can meet. \<open>QueryError\<close> stands for whatever the
  database layer raises (SQLAlchemyError and the ValueError of an unknown connection),
  \<open>OSError\<close> for a failed write of the rules or results file.
  \<open>OverflowError\<close> is what the arithmetic of \<open>datetime\<close> raises outside its range.
\<close>

datatype exn =
    KeyError string
  | ValueError string
  | TypeError string
  | AttributeError string
  | ValidationError string
  | QueryError string
  | OSError string
  | ZeroDivisionError string
  | OverflowError string

text \<open>\<open>str(e)\<close>: a KeyError prints the repr of its key, the others their message.\<close>

fun exn_str :: "exn \<Rightarrow> string" where
  "exn_str (KeyError k) = [CHR 0x27] @ k @ [CHR 0x27]"
| "exn_str (ValueError m) = m"
| "exn_str (TypeError m) = m"
| "exn_str (AttributeError m) = m"
| "exn_str (ValidationError m) = m"
| "exn_str (QueryError m) = m"
| "exn_str (OSError m) = m"
| "exn_str (ZeroDivisionError m) = m"
| "exn_str (OverflowError m) = m"

section \<open>RuleExecutionResult (core/engine.py)\<close>

record RuleExecutionResult =
  rule_name :: string
  rule_id :: string
  start_time :: real
  end_time :: "real option"
  total_records :: int
  passed_records :: int
  failed_records :: int
  pass_rate :: real
  execution_time :: real
  passed :: bool
  error :: "string option"
  failed_samples :: "row list"

text \<open>\<open>__init__\<close>; the reading of \<open>time.time()\<close> is the argument \<open>t\<close>.\<close>

definition RuleExecutionResult_init :: "string \<Rightarrow> string \<Rightarrow> real \<Rightarrow> RuleExecutionResult" where
  "RuleExecutionResult_init nm i t =
     \<lparr> rule_name = nm, rule_id = i, start_time = t, end_time = None,
       total_records = 0, passed_records = 0, failed_records = 0,
       pass_rate = 0, execution_time = 0, passed = False,
       error = None, failed_samples = [] \<rparr>"

text \<open>\<open>finish\<close>; \<open>t\<close> is the reading of \<open>time.time()\<close> at the call.\<close>

definition finish :: "real \<Rightarrow> RuleExecutionResult \<Rightarrow> RuleExecutionResult" where
  "finish t r =
     (let r1 = r\<lparr> end_time := Some t \<rparr>;
          r2 = r1\<lparr> execution_time := t - start_time r1 \<rparr>
      in if total_records r2 > 0
         then (let r3 = r2\<lparr> pass_rate :=
                           (real_of_int (passed_records r2) / real_of_int (total_records r2)) * 100 \<rparr>
               in r3\<lparr> passed := (pass_rate r3 \<ge> 100) \<rparr>)
         else r2\<lparr> pass_rate := 0, passed := False \<rparr>)"

section \<open>Python strings and parameter values\<close>

text \<open>
  Strings are byte lists. \<open>str.strip()\<close> removes the whitespace at both ends;
  \<open>upper\<close> and \<open>lower\<close> act on the ASCII letters.
\<close>

definition is_space :: "char \<Rightarrow> bool" where
  "is_space c = (c \<in> set [CHR '' '', CHR ''\<newline>'', CHR 0x09, CHR 0x0D, CHR 0x0B, CHR 0x0C])"

definition py_strip :: "string \<Rightarrow> string" where
  "py_strip s = rev (dropWhile is_space (rev (dropWhile is_space s)))"

definition upper_char :: "char \<Rightarrow> char" where
  "upper_char c =
     (let n = of_char c :: nat in if 97 \<le> n \<and> n \<le> 122 then char_of (n - 32) else c)"

definition lower_char :: "char \<Rightarrow> char" where
  "lower_char c =
     (let n = of_char c :: nat in if 65 \<le> n \<and> n \<le> 90 then char_of (n + 32) else c)"

definition upper :: "string \<Rightarrow> string" where
  "upper s = map upper_char s"

definition lower :: "string \<Rightarrow> string" where
  "lower s = map lower_char s"

text \<open>\<open>sub in s\<close> on strings.\<close>

fun contains :: "string \<Rightarrow> string \<Rightarrow> bool" where
  "contains sub [] = (sub = [])"
| "contains sub (c # cs) = (take (length sub) (c # cs) = sub \<or> contains sub cs)"

text \<open>Decimal printing of an integer, as \<open>str\<close> gives it.\<close>

function digits :: "nat \<Rightarrow> string" where
  "digits n = (if n < 10 then [char_of (48 + n)] else digits (n div 10) @ [char_of (48 + n mod 10)])"
  by pat_completeness auto
termination
  by (relation "measure (\<lambda>n. n)") auto

declare digits.simps [simp del]

definition str_int :: "int \<Rightarrow> string" where
  "str_int i = (if i < 0 then CHR ''-'' # digits (nat (- i)) else digits (nat i))"

text \<open>
  A parameter value of a rule (\<open>Dict[str, Any]\<close>). The generator only ever prints
  these values into the query text, so a float is carried by its printed form.
\<close>

datatype pyval = PInt int | PFloat string | PStr string | PBool bool | PNone

fun py_str :: "pyval \<Rightarrow> string" where
  "py_str (PInt i) = str_int i"
| "py_str (PFloat s) = s"
| "py_str (PStr s) = s"
| "py_str (PBool b) = (if b then ''True'' else ''False'')"
| "py_str PNone = ''None''"

text \<open>An f-string field holding an \<open>Optional[str]\<close>.\<close>

fun str_opt :: "string option \<Rightarrow> string" where
  "str_opt None = ''None''"
| "str_opt (Some s) = s"

section \<open>Rules (rules/manager.py)\<close>

record RuleConfig =
  table :: string
  column :: "string option"
  cfg_rule_type :: string
  parameters :: "string \<rightharpoonup> pyval"

record Rule =
  rid :: string
  name :: string
  description :: string
  rule_type :: string
  config :: RuleConfig
  status :: string
  created_at :: real
  updated_at :: real
  last_run :: "real option"
  tags :: "string list"

section \<open>SQLGenerator (parsers/sql_generator.py)\<close>

text \<open>\<open>params[key]\<close>: a missing key raises KeyError.\<close>

definition param :: "(string \<rightharpoonup> pyval) \<Rightarrow> string \<Rightarrow> exn + pyval" where
  "param params k = (case params k of None \<Rightarrow> Inl (KeyError k) | Some v \<Rightarrow> Inr v)"

text \<open>\<open>params.get(key, default)\<close>.\<close>

definition param_get :: "(string \<rightharpoonup> pyval) \<Rightarrow> string \<Rightarrow> pyval \<Rightarrow> pyval" where
  "param_get params k d = (case params k of None \<Rightarrow> d | Some v \<Rightarrow> v)"

definition value_range_validation_sql :: "string \<Rightarrow> string \<Rightarrow> string \<Rightarrow> string \<Rightarrow> string" where
  "value_range_validation_sql tbl col min_val max_val =
       ''\<newline>            SELECT *'' @
       ''\<newline>            FROM '' @ tbl @
       ''\<newline>            WHERE '' @ col @ '' IS NOT NULL '' @
       ''\<newline>            AND ('' @ col @ '' < '' @ min_val @ '' OR '' @ col @ '' > '' @ max_val @ '')'' @
       ''\<newline>            LIMIT 1000'' @
       ''\<newline>        ''"

definition not_null_count_sql :: "string \<Rightarrow> string \<Rightarrow> string" where
  "not_null_count_sql tbl col =
       ''\<newline>            SELECT COUNT('' @ ''*) as total_count'' @
       ''\<newline>            FROM '' @ tbl @
       ''\<newline>            WHERE '' @ col @ '' IS NOT NULL'' @
       ''\<newline>        ''"

definition generate_value_range_sql :: "Rule \<Rightarrow> exn + (string \<times> string)" where
  "generate_value_range_sql rule =
     (let tbl = table (config rule);
          col = str_opt (column (config rule));
          params = parameters (config rule)
      in case param params ''min_value'' of Inl e \<Rightarrow> Inl e | Inr min_val \<Rightarrow>
        (case param params ''max_value'' of Inl e \<Rightarrow> Inl e | Inr max_val \<Rightarrow>
           Inr (py_strip (value_range_validation_sql tbl col (py_str min_val) (py_str max_val)),
                py_strip (not_null_count_sql tbl col))))"

definition email_like_condition :: "string \<Rightarrow> string" where
  "email_like_condition col =
       ''('' @ col @ '' NOT LIKE '' @ [CHR 0x27] @ ''%@%.%'' @ [CHR 0x27] @ '' '' @
       ''\<newline>                                      OR '' @ col @ '' LIKE '' @ [CHR 0x27] @ ''%@%@%'' @ [CHR 0x27] @ '' '' @
       ''\<newline>                                      OR '' @ col @ '' LIKE '' @ [CHR 0x27] @ ''@%'' @ [CHR 0x27] @ '' '' @
       ''\<newline>                                      OR '' @ col @ '' LIKE '' @ [CHR 0x27] @ ''%@'' @ [CHR 0x27] @ '' '' @
       ''\<newline>                                      OR '' @ col @ '' LIKE '' @ [CHR 0x27] @ ''% %'' @ [CHR 0x27] @ '')''"

definition value_template_validation_sql :: "string \<Rightarrow> string \<Rightarrow> string \<Rightarrow> string" where
  "value_template_validation_sql tbl col regex_condition =
       ''\<newline>            SELECT id, name, '' @ col @
       ''\<newline>            FROM '' @ tbl @
       ''\<newline>            WHERE '' @ col @ '' IS NOT NULL '' @
       ''\<newline>            AND '' @ regex_condition @
       ''\<newline>            LIMIT 1000'' @
       ''\<newline>        ''"

text \<open>
  The condition on the pattern, by dialect. \<open>pattern.lower()\<close> exists on strings
  only; on any other value it raises AttributeError.
\<close>

definition regex_condition_of :: "string \<Rightarrow> string \<Rightarrow> pyval \<Rightarrow> exn + string" where
  "regex_condition_of database_type col pattern =
     (if database_type = ''postgresql''
        then Inr (col @ '' !~ '' @ [CHR 0x27] @ py_str pattern @ [CHR 0x27])
      else if database_type = ''mysql''
        then Inr (col @ '' NOT REGEXP '' @ [CHR 0x27] @ py_str pattern @ [CHR 0x27])
      else (case pattern of
              PStr p \<Rightarrow>
                if contains ''email'' (lower p) \<or> contains ''@'' p
                then Inr (email_like_condition col)
                else Inr (col @ '' NOT GLOB '' @ [CHR 0x27] @ ''*@*.*'' @ [CHR 0x27])
            | _ \<Rightarrow> Inl (AttributeError ''object has no attribute lower'')))"

definition generate_value_template_sql :: "string \<Rightarrow> Rule \<Rightarrow> exn + (string \<times> string)" where
  "generate_value_template_sql database_type rule =
     (let tbl = table (config rule);
          col = str_opt (column (config rule))
      in case param (parameters (config rule)) ''pattern'' of Inl e \<Rightarrow> Inl e | Inr pattern \<Rightarrow>
        (case regex_condition_of database_type col pattern of Inl e \<Rightarrow> Inl e | Inr regex_condition \<Rightarrow>
           Inr (py_strip (value_template_validation_sql tbl col regex_condition),
                py_strip (not_null_count_sql tbl col))))"

definition sequence_gaps_sql :: "string \<Rightarrow> string \<Rightarrow> string" where
  "sequence_gaps_sql tbl col =
       ''\<newline>                WITH sequence_check AS ('' @
       ''\<newline>                    SELECT '' @ col @ '', '' @
       ''\<newline>                           LAG('' @ col @ '') OVER (ORDER BY '' @ col @ '') as prev_value'' @
       ''\<newline>                    FROM '' @ tbl @
       ''\<newline>                    WHERE '' @ col @ '' IS NOT NULL'' @
       ''\<newline>                    ORDER BY '' @ col @
       ''\<newline>                )'' @
       ''\<newline>                SELECT *'' @
       ''\<newline>                FROM sequence_check'' @
       ''\<newline>                WHERE prev_value IS NOT NULL '' @
       ''\<newline>                AND '' @ col @ '' - prev_value > 1'' @
       ''\<newline>                LIMIT 1000'' @
       ''\<newline>            ''"

definition null_values_sql :: "string \<Rightarrow> string \<Rightarrow> string" where
  "null_values_sql tbl col =
       ''\<newline>                SELECT *'' @
       ''\<newline>                FROM '' @ tbl @
       ''\<newline>                WHERE '' @ col @ '' IS NULL'' @
       ''\<newline>                LIMIT 1000'' @
       ''\<newline>            ''"

definition all_rows_count_sql :: "string \<Rightarrow> string" where
  "all_rows_count_sql tbl =
       ''\<newline>            SELECT COUNT('' @ ''*) as total_count'' @
       ''\<newline>            FROM '' @ tbl @
       ''\<newline>        ''"

definition generate_data_continuity_sql :: "Rule \<Rightarrow> exn + (string \<times> string)" where
  "generate_data_continuity_sql rule =
     (let tbl = table (config rule);
          col = str_opt (column (config rule));
          params = parameters (config rule);
          validation_sql =
            (if params ''check_type'' = Some (PStr ''sequence_gaps'')
             then sequence_gaps_sql tbl col else null_values_sql tbl col)
      in Inr (py_strip validation_sql, py_strip (all_rows_count_sql tbl)))"

definition statistical_comparison_validation_sql ::
  "string \<Rightarrow> string \<Rightarrow> string \<Rightarrow> string \<Rightarrow> string \<Rightarrow> string \<Rightarrow> string" where
  "statistical_comparison_validation_sql tbl col operation compare_table compare_column threshold =
       ''\<newline>            WITH stats1 AS ('' @
       ''\<newline>                SELECT '' @ operation @ ''('' @ col @ '') as value1'' @
       ''\<newline>                FROM '' @ tbl @
       ''\<newline>                WHERE '' @ col @ '' IS NOT NULL'' @
       ''\<newline>            ),'' @
       ''\<newline>            stats2 AS ('' @
       ''\<newline>                SELECT '' @ operation @ ''('' @ compare_column @ '') as value2'' @
       ''\<newline>                FROM '' @ compare_table @
       ''\<newline>                WHERE '' @ compare_column @ '' IS NOT NULL'' @
       ''\<newline>            )'' @
       ''\<newline>            SELECT '' @
       ''\<newline>                stats1.value1,'' @
       ''\<newline>                stats2.value2,'' @
       ''\<newline>                ABS(stats1.value1 - stats2.value2) as difference,'' @
       ''\<newline>                CASE '' @
       ''\<newline>                    WHEN stats2.value2 = 0 THEN '' @
       ''\<newline>                        CASE WHEN stats1.value1 = 0 THEN 1 ELSE 0 END'' @
       ''\<newline>                    ELSE '' @
       ''\<newline>                        CASE WHEN ABS(stats1.value1 - stats2.value2) / stats2.value2 <= '' @ threshold @ '' THEN 1 ELSE 0 END'' @
       ''\<newline>                END as passed'' @
       ''\<newline>            FROM stats1, stats2'' @
       ''\<newline>        ''"

definition one_count_sql :: string where
  "one_count_sql =
       ''\<newline>            SELECT 1 as total_count'' @
       ''\<newline>        ''"

text \<open>\<open>params['operation'].upper()\<close>: only a string has \<open>upper\<close>.\<close>

definition upper_of :: "pyval \<Rightarrow> exn + string" where
  "upper_of v = (case v of PStr s \<Rightarrow> Inr (upper s) | _ \<Rightarrow> Inl (AttributeError ''object has no attribute upper''))"

definition generate_statistical_comparison_sql :: "Rule \<Rightarrow> exn + (string \<times> string)" where
  "generate_statistical_comparison_sql rule =
     (let tbl = table (config rule);
          col = str_opt (column (config rule));
          params = parameters (config rule)
      in case param params ''operation'' of Inl e \<Rightarrow> Inl e | Inr op_v \<Rightarrow>
        (case upper_of op_v of Inl e \<Rightarrow> Inl e | Inr operation \<Rightarrow>
        (case param params ''compare_table'' of Inl e \<Rightarrow> Inl e | Inr compare_table \<Rightarrow>
        (case param params ''compare_column'' of Inl e \<Rightarrow> Inl e | Inr compare_column \<Rightarrow>
           (let threshold = param_get params ''threshold'' (PFloat ''0.05'')
            in Inr (py_strip (statistical_comparison_validation_sql tbl col operation
                       (py_str compare_table) (py_str compare_column) (py_str threshold)),
                    py_strip one_count_sql))))))"

text \<open>
  The join keys of a cross-table rule: the branch on the two table names in
  \<open>_generate_cross_table_comparison_sql\<close>. The table of the rule is a string, the
  comparison table a parameter value.
\<close>

definition cross_table_keys :: "string \<Rightarrow> pyval \<Rightarrow> string \<Rightarrow> string \<times> string" where
  "cross_table_keys tbl compare_table join_key =
     (if tbl = ''orders'' \<and> compare_table = PStr ''order_items'' then (''id'', ''order_id'')
      else if tbl = ''order_items'' \<and> compare_table = PStr ''orders'' then (''order_id'', ''id'')
      else (join_key, join_key))"

definition cross_table_validation_sql ::
  "string \<Rightarrow> string \<Rightarrow> string \<Rightarrow> string \<Rightarrow> string \<Rightarrow> string \<Rightarrow> string \<Rightarrow> string" where
  "cross_table_validation_sql tbl col operation compare_table compare_column table1_key table2_key =
       ''\<newline>            WITH table1_agg AS ('' @
       ''\<newline>                SELECT '' @ table1_key @ '', '' @ operation @ ''('' @ col @ '') as agg_value1'' @
       ''\<newline>                FROM '' @ tbl @
       ''\<newline>                WHERE '' @ col @ '' IS NOT NULL'' @
       ''\<newline>                GROUP BY '' @ table1_key @
       ''\<newline>            ),'' @
       ''\<newline>            table2_agg AS ('' @
       ''\<newline>                SELECT '' @ table2_key @ '', '' @ operation @ ''('' @ compare_column @ '') as agg_value2'' @
       ''\<newline>                FROM '' @ compare_table @
       ''\<newline>                WHERE '' @ compare_column @ '' IS NOT NULL'' @
       ''\<newline>                GROUP BY '' @ table2_key @
       ''\<newline>            )'' @
       ''\<newline>            SELECT '' @
       ''\<newline>                t1.'' @ table1_key @ '' as join_id,'' @
       ''\<newline>                t1.agg_value1,'' @
       ''\<newline>                t2.agg_value2,'' @
       ''\<newline>                ABS(t1.agg_value1 - COALESCE(t2.agg_value2, 0)) as difference'' @
       ''\<newline>            FROM table1_agg t1'' @
       ''\<newline>            LEFT JOIN table2_agg t2 ON t1.'' @ table1_key @ '' = t2.'' @ table2_key @
       ''\<newline>            WHERE t1.agg_value1 != COALESCE(t2.agg_value2, 0)'' @
       ''\<newline>            LIMIT 1000'' @
       ''\<newline>        ''"

definition cross_table_count_sql :: "string \<Rightarrow> string \<Rightarrow> string \<Rightarrow> string" where
  "cross_table_count_sql tbl col table1_key =
       ''\<newline>            SELECT COUNT(DISTINCT '' @ table1_key @ '') as total_count'' @
       ''\<newline>            FROM '' @ tbl @
       ''\<newline>            WHERE '' @ col @ '' IS NOT NULL'' @
       ''\<newline>        ''"

definition generate_cross_table_comparison_sql :: "Rule \<Rightarrow> exn + (string \<times> string)" where
  "generate_cross_table_comparison_sql rule =
     (let tbl = table (config rule);
          col = str_opt (column (config rule));
          params = parameters (config rule)
      in case param params ''compare_table'' of Inl e \<Rightarrow> Inl e | Inr compare_table \<Rightarrow>
        (case param params ''compare_column'' of Inl e \<Rightarrow> Inl e | Inr compare_column \<Rightarrow>
           (let join_key = py_str (param_get params ''join_key'' (PStr ''id''));
                operation = py_str (param_get params ''operation'' (PStr ''SUM''));
                keys = cross_table_keys tbl compare_table join_key
            in Inr (py_strip (cross_table_validation_sql tbl col operation
                       (py_str compare_table) (py_str compare_column) (fst keys) (snd keys)),
                    py_strip (cross_table_count_sql tbl col (fst keys))))))"

text \<open>\<open>generate_validation_sql\<close>; \<open>database_type\<close> is the generator's dialect.\<close>

definition generate_validation_sql :: "string \<Rightarrow> Rule \<Rightarrow> exn + (string \<times> string)" where
  "generate_validation_sql database_type rule =
     (if rule_type rule = ''value_range'' then generate_value_range_sql rule
      else if rule_type rule = ''value_template'' then generate_value_template_sql database_type rule
      else if rule_type rule = ''data_continuity'' then generate_data_continuity_sql rule
      else if rule_type rule = ''statistical_comparison'' then generate_statistical_comparison_sql rule
      else if rule_type rule = ''cross_table_comparison'' then generate_cross_table_comparison_sql rule
      else Inl (ValueError (''Unsupported rule type: '' @ rule_type rule)))"

section \<open>RuleManager (rules/manager.py)\<close>

text \<open>
  \<open>RuleManager.rules\<close> is a dict from key to rule, kept as an association list in
  insertion order (\<open>get_rule\<close> by name returns the first match in that order).
\<close>

type_synonym rule_store = "(string \<times> Rule) list"

text \<open>\<open>self.rules[k] = r\<close>: an existing key keeps its place, a new one goes last.\<close>

fun dict_set :: "string \<Rightarrow> Rule \<Rightarrow> rule_store \<Rightarrow> rule_store" where
  "dict_set k r [] = [(k, r)]"
| "dict_set k r ((k', r') # rs) = (if k' = k then (k, r) # rs else (k', r') # dict_set k r rs)"

text \<open>The key under which \<open>get_rule\<close> finds a rule: the id first, then the name.\<close>

definition get_rule_key :: "rule_store \<Rightarrow> string \<Rightarrow> string option" where
  "get_rule_key rs rule_id' =
     (case map_of rs rule_id' of
        Some r \<Rightarrow> Some rule_id'
      | None \<Rightarrow> (case find (\<lambda>kr. name (snd kr) = rule_id') rs of
                   Some kr \<Rightarrow> Some (fst kr)
                 | None \<Rightarrow> None))"

definition get_rule :: "rule_store \<Rightarrow> string \<Rightarrow> Rule option" where
  "get_rule rs rule_id' = (case get_rule_key rs rule_id' of None \<Rightarrow> None | Some k \<Rightarrow> map_of rs k)"

definition get_rules_for_table :: "rule_store \<Rightarrow> string \<Rightarrow> Rule list" where
  "get_rules_for_table rs tbl =
     filter (\<lambda>r. table (config r) = tbl \<and> status r = ''active'') (map snd rs)"

definition get_rules_by_tag :: "rule_store \<Rightarrow> string \<Rightarrow> Rule list" where
  "get_rules_by_tag rs tag = filter (\<lambda>r. tag \<in> set (tags r) \<and> status r = ''active'') (map snd rs)"

definition valid_types :: "string list" where
  "valid_types = [''value_range'', ''value_template'', ''data_continuity'',
                  ''statistical_comparison'', ''cross_table_comparison'', ''boolean_combination'']"

text \<open>
  The pydantic validation of \<open>RuleConfig\<close>: \<open>table\<close> must be a string,
  \<open>column\<close> a string or None.
\<close>

definition make_rule_config :: "string \<Rightarrow> (string \<rightharpoonup> pyval) \<Rightarrow> exn + RuleConfig" where
  "make_rule_config rtype cfg =
     (case cfg ''table'' of
        None \<Rightarrow> Inl (KeyError ''table'')
      | Some (PStr t) \<Rightarrow>
          (case cfg ''column'' of
             None \<Rightarrow> Inr \<lparr> table = t, column = None, cfg_rule_type = rtype, parameters = cfg \<rparr>
           | Some PNone \<Rightarrow> Inr \<lparr> table = t, column = None, cfg_rule_type = rtype, parameters = cfg \<rparr>
           | Some (PStr c) \<Rightarrow> Inr \<lparr> table = t, column = Some c, cfg_rule_type = rtype, parameters = cfg \<rparr>
           | Some _ \<Rightarrow> Inl (ValidationError ''column: input should be a valid string''))
      | Some _ \<Rightarrow> Inl (ValidationError ''table: input should be a valid string''))"

text \<open>
  \<open>create_rule\<close>. \<open>new_id\<close> is the fresh id the \<open>Rule\<close> model draws (eight characters
  of a uuid), \<open>now\<close> the clock reading, \<open>save\<close> the outcome of writing the rules file
  (\<open>Some e\<close> when the write raises). The store is updated before the write, so a failed
  write leaves the rule in memory. Returns the outcome and the store.
\<close>

definition create_rule ::
  "(rule_store \<Rightarrow> exn option) \<Rightarrow> string \<Rightarrow> real \<Rightarrow> rule_store \<Rightarrow>
   string \<Rightarrow> string \<Rightarrow> (string \<rightharpoonup> pyval) \<Rightarrow> string \<Rightarrow> string list \<Rightarrow>
   (exn + string) \<times> rule_store" where
  "create_rule save new_id now rs nm rtype cfg descr tgs =
     (if rtype \<notin> set valid_types
      then (Inl (ValueError (''Invalid rule type: '' @ rtype)), rs)
      else case make_rule_config rtype cfg of
             Inl e \<Rightarrow> (Inl e, rs)
           | Inr rule_config \<Rightarrow>
               (let rule = \<lparr> rid = new_id, name = nm, description = descr, rule_type = rtype,
                             config = rule_config, status = ''active'', created_at = now,
                             updated_at = now, last_run = None, tags = tgs \<rparr>;
                    rs' = dict_set (rid rule) rule rs
                in case save rs' of
                     Some e \<Rightarrow> (Inl e, rs')
                   | None \<Rightarrow> (Inr (rid rule), rs')))"

text \<open>
  \<open>update_last_run\<close>: stamps the rule \<open>get_rule\<close> finds, then writes the rules file.
\<close>

definition update_last_run ::
  "(rule_store \<Rightarrow> exn option) \<Rightarrow> real \<Rightarrow> rule_store \<Rightarrow> string \<Rightarrow> exn option \<times> rule_store" where
  "update_last_run save now rs rule_id' =
     (case get_rule_key rs rule_id' of
        None \<Rightarrow> (None, rs)
      | Some k \<Rightarrow>
          (let rs' = map (\<lambda>kr. if fst kr = k then (fst kr, (snd kr)\<lparr> last_run := Some now \<rparr>) else kr) rs
           in (save rs', rs')))"

section \<open>RuleEngine (core/engine.py)\<close>

text \<open>\<open>to_dict\<close>, with the \<open>timestamp\<close> key the reporter adds when it records a result.\<close>

record result_dict =
  d_rule_name :: string
  d_rule_id :: string
  d_passed :: bool
  d_total_records :: int
  d_passed_records :: int
  d_failed_records :: int
  d_pass_rate :: real
  d_execution_time :: real
  d_error :: "string option"
  d_failed_samples :: "row list"
  d_timestamp :: "string option"

definition to_dict :: "RuleExecutionResult \<Rightarrow> result_dict" where
  "to_dict r =
     \<lparr> d_rule_name = rule_name r, d_rule_id = rule_id r, d_passed = passed r,
       d_total_records = total_records r, d_passed_records = passed_records r,
       d_failed_records = failed_records r, d_pass_rate = pass_rate r,
       d_execution_time = execution_time r, d_error = error r,
       d_failed_samples = failed_samples r, d_timestamp = None \<rparr>"

text \<open>
  The collaborators of the engine. \<open>execute_query db sql\<close> is
  \<open>DatabaseManager.execute_query\<close>: the rows, or the exception it raises.
  \<open>connection_names\<close> are the names \<open>list_connections\<close> returns, in order.
  \<open>save_rules\<close> and \<open>save_results\<close> are the writes of the rules file and of the results
  file: \<open>Some e\<close> when the write raises. \<open>clock n\<close> is the n-th reading of the wall
  clock and \<open>isoformat\<close> prints a reading as a timestamp.
\<close>

record env =
  execute_query :: "string \<Rightarrow> string \<Rightarrow> exn + row list"
  connection_names :: "string list"
  save_rules :: "rule_store \<Rightarrow> exn option"
  save_results :: "result_dict list \<Rightarrow> exn option"
  clock :: "nat \<Rightarrow> real"
  isoformat :: "real \<Rightarrow> string"

text \<open>What the engine changes: the rules, the recorded results, the clock readings taken.\<close>

record world =
  rules :: rule_store
  history :: "result_dict list"
  ticks :: nat

definition read_clock :: "env \<Rightarrow> world \<Rightarrow> real \<times> world" where
  "read_clock E w = (clock E (ticks w), w\<lparr> ticks := Suc (ticks w) \<rparr>)"

text \<open>
  \<open>Reporter.record_execution_result\<close>: stamps the dict, appends it, keeps the last 1000
  entries and writes the file. A failed write leaves the stored history as it was.
\<close>

definition record_execution_result :: "env \<Rightarrow> world \<Rightarrow> result_dict \<Rightarrow> exn option \<times> world" where
  "record_execution_result E w d =
     (let (now, w1) = read_clock E w;
          h = history w1 @ [d\<lparr> d_timestamp := Some (isoformat E now) \<rparr>];
          h' = (if length h > 1000 then drop (length h - 1000) h else h)
      in case save_results E h' of
           Some e \<Rightarrow> (Some e, w1)
         | None \<Rightarrow> (None, w1\<lparr> history := h' \<rparr>))"

definition process_value_range_result :: "row list \<Rightarrow> RuleExecutionResult \<Rightarrow> RuleExecutionResult" where
  "process_value_range_result query_result result =
     (if query_result \<noteq> []
      then (let r1 = result\<lparr> failed_records := int (length query_result) \<rparr>;
                r2 = r1\<lparr> passed_records := total_records r1 - failed_records r1 \<rparr>
            in r2\<lparr> failed_samples := take 5 query_result \<rparr>)
      else result)"

definition process_value_template_result :: "row list \<Rightarrow> RuleExecutionResult \<Rightarrow> RuleExecutionResult" where
  "process_value_template_result query_result result =
     (if query_result \<noteq> []
      then (let r1 = result\<lparr> failed_records := int (length query_result) \<rparr>;
                r2 = r1\<lparr> passed_records := total_records r1 - failed_records r1 \<rparr>
            in r2\<lparr> failed_samples := take 5 query_result \<rparr>)
      else result)"

definition process_data_continuity_result :: "row list \<Rightarrow> RuleExecutionResult \<Rightarrow> RuleExecutionResult" where
  "process_data_continuity_result query_result result =
     (if query_result \<noteq> []
      then (let r1 = result\<lparr> failed_records := int (length query_result) \<rparr>;
                r2 = r1\<lparr> passed_records := total_records r1 - failed_records r1 \<rparr>
            in r2\<lparr> failed_samples := take 5 query_result \<rparr>)
      else result)"

definition process_statistical_comparison_result ::
  "row list \<Rightarrow> RuleExecutionResult \<Rightarrow> RuleExecutionResult" where
  "process_statistical_comparison_result query_result result =
     (case query_result of
        [] \<Rightarrow> result
      | comparison_result # _ \<Rightarrow>
          (case map_of comparison_result ''passed'' of
             None \<Rightarrow> result
           | Some flag \<Rightarrow>
               if truthy flag
               then result\<lparr> passed_records := total_records result, failed_records := 0 \<rparr>
               else result\<lparr> passed_records := 0, failed_records := total_records result,
                            failed_samples := [comparison_result] \<rparr>))"

definition process_cross_table_comparison_result ::
  "row list \<Rightarrow> RuleExecutionResult \<Rightarrow> RuleExecutionResult" where
  "process_cross_table_comparison_result query_result result =
     (if query_result \<noteq> []
      then (let r1 = result\<lparr> failed_records := int (length query_result) \<rparr>;
                r2 = r1\<lparr> passed_records := total_records r1 - failed_records r1 \<rparr>
            in r2\<lparr> failed_samples := take 5 query_result \<rparr>)
      else result)"

definition process_rule_result :: "Rule \<Rightarrow> row list \<Rightarrow> RuleExecutionResult \<Rightarrow> exn + RuleExecutionResult" where
  "process_rule_result rule query_result result =
     (if rule_type rule = ''value_range'' then Inr (process_value_range_result query_result result)
      else if rule_type rule = ''value_template'' then Inr (process_value_template_result query_result result)
      else if rule_type rule = ''data_continuity'' then Inr (process_data_continuity_result query_result result)
      else if rule_type rule = ''statistical_comparison''
        then Inr (process_statistical_comparison_result query_result result)
      else if rule_type rule = ''cross_table_comparison''
        then Inr (process_cross_table_comparison_result query_result result)
      else Inl (ValueError (''Unsupported rule type: '' @ rule_type rule)))"

text \<open>
  \<open>count_result[0]['total_count'] if count_result else 0\<close>. Every count query the
  generator writes selects a COUNT or the literal 1, so the cell is an integer; the model
  does not follow a count of another type and raises a TypeError in its place.
\<close>

definition total_count_of :: "row list \<Rightarrow> exn + int" where
  "total_count_of count_result =
     (case count_result of
        [] \<Rightarrow> Inr 0
      | r # _ \<Rightarrow> (case map_of r ''total_count'' of
                    None \<Rightarrow> Inl (KeyError ''total_count'')
                  | Some (CInt n) \<Rightarrow> Inr n
                  | Some _ \<Rightarrow> Inl (TypeError ''total_count is not an integer'')))"

text \<open>
  The body of the \<open>try\<close> block of \<open>execute_rule\<close>: the exception it stops at, if any,
  with the result and the world as they stand at that point. The engine builds its
  generator with \<open>SQLGenerator()\<close>, so the dialect is the default, sqlite.
\<close>

definition execute_rule_try ::
  "env \<Rightarrow> world \<Rightarrow> Rule \<Rightarrow> string \<Rightarrow> RuleExecutionResult \<Rightarrow> exn option \<times> RuleExecutionResult \<times> world" where
  "execute_rule_try E w rule database result =
     (case generate_validation_sql ''sqlite'' rule of
        Inl e \<Rightarrow> (Some e, result, w)
      | Inr (sql_query, count_query) \<Rightarrow>
     (case execute_query E database count_query of
        Inl e \<Rightarrow> (Some e, result, w)
      | Inr count_result \<Rightarrow>
     (case total_count_of count_result of
        Inl e \<Rightarrow> (Some e, result, w)
      | Inr n \<Rightarrow>
     (let result1 = result\<lparr> total_records := n \<rparr>
      in case execute_query E database sql_query of
        Inl e \<Rightarrow> (Some e, result1, w)
      | Inr validation_result \<Rightarrow>
     (case process_rule_result rule validation_result result1 of
        Inl e \<Rightarrow> (Some e, result1, w)
      | Inr result2 \<Rightarrow>
     (let (now, w1) = read_clock E w;
          (err, rs') = update_last_run (save_rules E) now (rules w1) (rid rule)
      in (err, result2, w1\<lparr> rules := rs' \<rparr>)))))))"

text \<open>
  The connection \<open>execute_rule\<close> uses: the one named, or with none named
  (\<open>if not database\<close>) the first configured one.
\<close>

definition pick_database :: "env \<Rightarrow> string option \<Rightarrow> exn + string" where
  "pick_database E database =
     (if database = None \<or> database = Some []
      then (case connection_names E of
              [] \<Rightarrow> Inl (ValueError ''No database connections configured'')
            | c # _ \<Rightarrow> Inr c)
      else Inr (the database))"

text \<open>
  \<open>execute_rule\<close>. \<open>Inl\<close> is an exception that leaves the function: an unknown rule,
  no configured connection, or a failed write of the results file (the recording comes
  after the \<open>try\<close> block).
\<close>

definition execute_rule ::
  "env \<Rightarrow> world \<Rightarrow> string \<Rightarrow> string option \<Rightarrow> (exn + result_dict) \<times> world" where
  "execute_rule E w rule_id' database =
     (case get_rule (rules w) rule_id' of
        None \<Rightarrow> (Inl (ValueError (''Rule '' @ [CHR 0x27] @ rule_id' @ [CHR 0x27] @ '' not found'')), w)
      | Some rule \<Rightarrow>
     (case pick_database E database of
        Inl e \<Rightarrow> (Inl e, w)
      | Inr db \<Rightarrow>
     (let (t0, w0) = read_clock E w;
          result = RuleExecutionResult_init (name rule) (rid rule) t0;
          (err, result1, w1) = execute_rule_try E w0 rule db result;
          result2 = (case err of None \<Rightarrow> result1 | Some e \<Rightarrow> result1\<lparr> error := Some (exn_str e) \<rparr>);
          (t1, w2) = read_clock E w1;
          result3 = finish t1 result2;
          (rec_err, w3) = record_execution_result E w2 (to_dict result3)
      in case rec_err of
           Some e \<Rightarrow> (Inl e, w3)
         | None \<Rightarrow> (Inr (to_dict result3), w3))))"

text \<open>The failed result the batch loop builds when a future raises.\<close>

definition error_result :: "env \<Rightarrow> world \<Rightarrow> Rule \<Rightarrow> exn \<Rightarrow> result_dict \<times> world" where
  "error_result E w rule e =
     (let (t0, w0) = read_clock E w;
          r = (RuleExecutionResult_init (name rule) (rid rule) t0)\<lparr> error := Some (exn_str e) \<rparr>;
          (t1, w1) = read_clock E w0
      in (to_dict (finish t1 r), w1))"

text \<open>
  The loop over the completed futures, in the order in which they complete. The
  executions are run one after the other in that order: what one execution does to the
  world is seen by the next.
\<close>

fun run_futures :: "env \<Rightarrow> string option \<Rightarrow> world \<Rightarrow> Rule list \<Rightarrow> result_dict list \<times> world" where
  "run_futures E database w [] = ([], w)"
| "run_futures E database w (rule # rest) =
     (let (out, w1) = execute_rule E w (rid rule) database;
          (d, w2) = (case out of Inr res \<Rightarrow> (res, w1) | Inl e \<Rightarrow> error_result E w1 rule e);
          (ds, w3) = run_futures E database w2 rest
      in (d # ds, w3))"

text \<open>
  \<open>execute_batch_rules\<close>. \<open>sched\<close> gives the order in which the submitted rules
  complete. \<open>ThreadPoolExecutor\<close> refuses a pool of no workers with a ValueError.
\<close>

definition select_rules :: "world \<Rightarrow> string option \<Rightarrow> string option \<Rightarrow> Rule list" where
  "select_rules w tbl tag =
     (if tbl \<noteq> None \<and> tbl \<noteq> Some [] then get_rules_for_table (rules w) (the tbl)
      else if tag \<noteq> None \<and> tag \<noteq> Some [] then get_rules_by_tag (rules w) (the tag)
      else filter (\<lambda>r. status r = ''active'') (map snd (rules w)))"

definition execute_batch_rules ::
  "env \<Rightarrow> world \<Rightarrow> (Rule list \<Rightarrow> Rule list) \<Rightarrow> string option \<Rightarrow> string option \<Rightarrow> string option \<Rightarrow> int \<Rightarrow>
   (exn + result_dict list) \<times> world" where
  "execute_batch_rules E w sched tbl tag database max_workers =
     (let rs = select_rules w tbl tag
      in if rs = [] then (Inr [], w)
         else if max_workers \<le> 0 then (Inl (ValueError ''max_workers must be greater than 0''), w)
         else (let (results, w') = run_futures E database w (sched rs) in (Inr results, w')))"

section \<open>Reporter (core/reporter.py)\<close>

text \<open>
  The results history is what \<open>json.load\<close> reads from the results file: a list of
  JSON values. Numbers are read as real numbers.
\<close>

datatype json =
    JNull
  | JBool bool
  | JNum real
  | JStr string
  | JArr "json list"
  | JObj "(string \<times> json) list"

text \<open>
  An entry of the history. Of a JSON object only the keys the reports read are kept, each
  absent or holding a JSON value. An entry that is not an object has no \<open>get\<close>: both
  reports skip it, as they skip an object without a timestamp, and it is read as the
  entry with no key.
\<close>

record hist_entry =
  h_timestamp :: "json option"
  h_rule_id :: "json option"
  h_rule_name :: "json option"
  h_pass_rate :: "json option"
  h_passed :: "json option"
  h_total_records :: "json option"

text \<open>The entry a recorded result is read back as.\<close>

definition entry_of :: "result_dict \<Rightarrow> hist_entry" where
  "entry_of d =
     \<lparr> h_timestamp = map_option JStr (d_timestamp d), h_rule_id = Some (JStr (d_rule_id d)),
       h_rule_name = Some (JStr (d_rule_name d)), h_pass_rate = Some (JNum (d_pass_rate d)),
       h_passed = Some (JBool (d_passed d)),
       h_total_records = Some (JNum (real_of_int (d_total_records d))) \<rparr>"

text \<open>
  What Python makes of a JSON value. In an addition a number counts as itself and a bool
  as 1 or 0; every other value makes \<open>+\<close> raise a TypeError. \<open>not v\<close> is true of
  None, False, 0 and the empty string, list and dict. A list or a dict cannot be a key of
  a dict or a member of a set; among the keys True equals 1 and False equals 0.
\<close>

fun json_number :: "json \<Rightarrow> real option" where
  "json_number (JNum x) = Some x"
| "json_number (JBool b) = Some (if b then 1 else 0)"
| "json_number v = None"

fun py_truthy :: "json \<Rightarrow> bool" where
  "py_truthy JNull = False"
| "py_truthy (JBool b) = b"
| "py_truthy (JNum x) = (x \<noteq> 0)"
| "py_truthy (JStr s) = (s \<noteq> [])"
| "py_truthy (JArr xs) = (xs \<noteq> [])"
| "py_truthy (JObj kvs) = (kvs \<noteq> [])"

fun hashable :: "json \<Rightarrow> bool" where
  "hashable (JArr xs) = False"
| "hashable (JObj kvs) = False"
| "hashable v = True"

fun py_key :: "json \<Rightarrow> json" where
  "py_key (JBool b) = JNum (if b then 1 else 0)"
| "py_key v = v"

definition unhashable :: "json \<Rightarrow> exn" where
  "unhashable v =
     TypeError (''unhashable type: '' @ [CHR 0x27] @ (case v of JArr xs \<Rightarrow> ''list'' | _ \<Rightarrow> ''dict'')
                @ [CHR 0x27])"

text \<open>\<open>acc += result.get(key, 0.0)\<close>: the number added, or the TypeError of the addition.\<close>

definition number_or_zero :: "json option \<Rightarrow> exn + real" where
  "number_or_zero v =
     (case v of
        None \<Rightarrow> Inr 0
      | Some j \<Rightarrow> (case json_number j of
                     None \<Rightarrow> Inl (TypeError ''unsupported operand type(s) for +='')
                   | Some x \<Rightarrow> Inr x))"

text \<open>
  Clock readings and parsed timestamps are seconds since 0001-01-01T00:00:00, the
  smallest datetime; the largest one lies on the last day of the year 9999, which is day
  3652059. \<open>datetime.now() - timedelta(days=days)\<close>: a timedelta holds at most
  999999999 days in either direction, and the subtraction raises when its result is not
  a datetime.
\<close>

definition datetime_end :: real where
  "datetime_end = 3652059 * 86400"

definition cutoff_date :: "real \<Rightarrow> int \<Rightarrow> exn + real" where
  "cutoff_date now days =
     (if \<bar>days\<bar> > 999999999
      then Inl (OverflowError (''days='' @ str_int days @ ''; must have magnitude <= 999999999''))
      else (let c = now - real_of_int days * 86400
            in if 0 \<le> c \<and> c < datetime_end then Inr c
               else Inl (OverflowError ''date value out of range'')))"

text \<open>
  The filter of both reports, whose bare \<open>except\<close> skips an entry on any exception.
  \<open>fromisoformat\<close> stands for \<open>datetime.fromisoformat\<close> and the comparison with the
  cutoff that follows it: the reading of a timestamp that parses to a datetime without
  time zone, None where the parsing raises or where the comparison would (a datetime
  with a time zone). An absent timestamp is parsed as the empty string, which does not
  parse, and a timestamp that is not a string makes the parser raise.
\<close>

definition in_window :: "(string \<Rightarrow> real option) \<Rightarrow> real \<Rightarrow> hist_entry \<Rightarrow> bool" where
  "in_window fromisoformat cutoff result =
     (case h_timestamp result of
        Some (JStr ts) \<Rightarrow>
          (case fromisoformat ts of
             None \<Rightarrow> False
           | Some result_date \<Rightarrow> result_date \<ge> cutoff)
      | _ \<Rightarrow> False)"

record rule_stat =
  rs_rule_name :: json
  rs_total_executions :: nat
  rs_total_pass_rate :: real
  rs_failure_count :: nat

record summary_issue =
  i_rule_name :: json
  i_rule_id :: json
  i_avg_pass_rate :: real
  i_failure_rate :: real
  i_executions :: nat

record summary_report =
  overall_score :: real
  total_rules :: nat
  avg_pass_rate :: real
  total_executions :: nat
  top_issues :: "summary_issue list"
  period_days :: "int option"
  generated_at :: "real option"

text \<open>\<open>not result.get('passed', False)\<close>.\<close>

definition not_passed :: "hist_entry \<Rightarrow> bool" where
  "not_passed r = (case h_passed r of None \<Rightarrow> True | Some v \<Rightarrow> \<not> py_truthy v)"

text \<open>
  \<open>set(r['rule_id'] for r in filtered_results)\<close>: the ids in order, up to the first
  entry without the key (KeyError) or with an id that cannot be hashed (TypeError).
\<close>

fun rule_ids :: "hist_entry list \<Rightarrow> exn + json list" where
  "rule_ids [] = Inr []"
| "rule_ids (r # rs) =
     (case h_rule_id r of
        None \<Rightarrow> Inl (KeyError ''rule_id'')
      | Some k \<Rightarrow>
          if hashable k
          then (case rule_ids rs of Inl e \<Rightarrow> Inl e | Inr ks \<Rightarrow> Inr (k # ks))
          else Inl (unhashable k))"

text \<open>\<open>sum(pass_rates)\<close>: the additions from 0 on, left to right.\<close>

fun py_sum :: "real \<Rightarrow> json list \<Rightarrow> exn + real" where
  "py_sum acc [] = Inr acc"
| "py_sum acc (v # vs) =
     (case json_number v of
        None \<Rightarrow> Inl (TypeError ''unsupported operand type(s) for +'')
      | Some x \<Rightarrow> py_sum (acc + x) vs)"

text \<open>
  One round of the loop that fills \<open>rule_stats\<close>, a dict kept in insertion order: a new
  rule id gets a fresh entry with the name of this result, then the entry is counted up
  by the pass rate \<open>p\<close> and, when the result did not pass, by one failure.
\<close>

fun bump_rule_stats ::
  "json \<Rightarrow> json \<Rightarrow> real \<Rightarrow> bool \<Rightarrow> (json \<times> rule_stat) list \<Rightarrow> (json \<times> rule_stat) list" where
  "bump_rule_stats k nm p failed [] =
     [(k, \<lparr> rs_rule_name = nm, rs_total_executions = 1,
             rs_total_pass_rate = 0 + p,
             rs_failure_count = (if failed then 1 else 0) \<rparr>)]"
| "bump_rule_stats k nm p failed ((k', st) # rest) =
     (if py_key k' = py_key k
      then (k', st\<lparr> rs_total_executions := rs_total_executions st + 1,
                     rs_total_pass_rate := rs_total_pass_rate st + p,
                     rs_failure_count := rs_failure_count st + (if failed then 1 else 0) \<rparr>) # rest
      else (k', st) # bump_rule_stats k nm p failed rest)"

text \<open>
  The loop: \<open>result['rule_id']\<close> and \<open>result['rule_name']\<close> raise a KeyError on an
  absent key, the lookup of the id in the dict raises on an id that cannot be hashed, and
  the addition of the pass rate raises on a value that is not a number.
\<close>

fun collect_rule_stats :: "hist_entry list \<Rightarrow> (json \<times> rule_stat) list \<Rightarrow> exn + (json \<times> rule_stat) list" where
  "collect_rule_stats [] acc = Inr acc"
| "collect_rule_stats (r # rs) acc =
     (case h_rule_id r of
        None \<Rightarrow> Inl (KeyError ''rule_id'')
      | Some k \<Rightarrow>
          (case h_rule_name r of
             None \<Rightarrow> Inl (KeyError ''rule_name'')
           | Some nm \<Rightarrow>
               if \<not> hashable k then Inl (unhashable k)
               else (case number_or_zero (h_pass_rate r) of
                       Inl e \<Rightarrow> Inl e
                     | Inr p \<Rightarrow> collect_rule_stats rs (bump_rule_stats k nm p (not_passed r) acc))))"

definition issue_of :: "json \<times> rule_stat \<Rightarrow> summary_issue" where
  "issue_of kst =
     \<lparr> i_rule_name = rs_rule_name (snd kst), i_rule_id = fst kst,
       i_avg_pass_rate = rs_total_pass_rate (snd kst) / real (rs_total_executions (snd kst)),
       i_failure_rate = (real (rs_failure_count (snd kst)) / real (rs_total_executions (snd kst))) * 100,
       i_executions = rs_total_executions (snd kst) \<rparr>"

definition empty_summary :: summary_report where
  "empty_summary =
     \<lparr> overall_score = 0, total_rules = 0, avg_pass_rate = 0, total_executions = 0,
       top_issues = [], period_days = None, generated_at = None \<rparr>"

text \<open>
  \<open>generate_summary_report\<close>; \<open>now\<close> is the clock reading, and the parameter
  \<open>database\<close>, which the function never reads, is left out. The steps raise in the
  order of the code: the cutoff, the set of the rule ids, the sum of the pass rates, the
  division by \<open>days * 10\<close>, the loop over the entries. The variable \<open>avg_pass_rate\<close>
  is assigned again in the loop over the rules, so the value returned under that key is
  the average of the last rule of \<open>rule_stats\<close>; the overall score is computed before,
  from the mean over all entries. \<open>sort(key, reverse=True)\<close> is a stable sort, as
  \<open>sort_key\<close> on the negated key is.
\<close>

definition generate_summary_report ::
  "(string \<Rightarrow> real option) \<Rightarrow> real \<Rightarrow> hist_entry list \<Rightarrow> int \<Rightarrow> exn + summary_report" where
  "generate_summary_report fromisoformat now results_history days =
     (case cutoff_date now days of
        Inl e \<Rightarrow> Inl e
      | Inr cutoff \<Rightarrow>
     (let filtered_results = filter (in_window fromisoformat cutoff) results_history
      in if filtered_results = [] then Inr empty_summary
         else
     (case rule_ids filtered_results of
        Inl e \<Rightarrow> Inl e
      | Inr ids \<Rightarrow>
     (let n_executions = length filtered_results;
          n_rules = length (remdups (map py_key ids));
          pass_rates = List.map_filter h_pass_rate filtered_results
      in case py_sum 0 pass_rates of
           Inl e \<Rightarrow> Inl e
         | Inr summed \<Rightarrow>
     (let mean_pass_rate = (if pass_rates \<noteq> [] then summed / real (length pass_rates) else 0)
      in if days = 0 then Inl (ZeroDivisionError ''division by zero'')
         else
     (let score = min 100 (mean_pass_rate * 0.8
                             + (real n_executions / real_of_int (days * 10)) * 0.2)
      in case collect_rule_stats filtered_results [] of
           Inl e \<Rightarrow> Inl e
         | Inr rule_stats \<Rightarrow>
             (let issues = map issue_of rule_stats;
                  last_avg = (if issues = [] then mean_pass_rate
                              else i_avg_pass_rate (last issues))
              in Inr \<lparr> overall_score = score, total_rules = n_rules,
                       avg_pass_rate = last_avg, total_executions = n_executions,
                       top_issues = sort_key (\<lambda>i. - i_failure_rate i) issues,
                       period_days = Some days, generated_at = Some now \<rparr>)))))))"

record day_stat =
  ds_executions :: nat
  ds_total_pass_rate :: real
  ds_total_records :: real

record trend_point =
  tp_date :: string
  tp_pass_rate :: real
  tp_executions :: nat
  tp_total_records :: real

record trend_report =
  tr_rule_id :: string
  trend_data :: "trend_point list"
  average_pass_rate :: real
  trend_direction :: string
  tr_period_days :: "int option"

text \<open>\<open>result['timestamp'][:10]\<close>; a filtered entry has a timestamp that is a string.\<close>

definition date_str_of :: "hist_entry \<Rightarrow> string" where
  "date_str_of r = (case h_timestamp r of Some (JStr ts) \<Rightarrow> take 10 ts | _ \<Rightarrow> [])"

text \<open>
  One round of the loop that fills \<open>daily_stats\<close>: a new date gets a fresh entry, then
  the entry is counted up by the pass rate \<open>p\<close> and the record count \<open>n\<close> of the
  result. In the loop the two additions raise on a value that is not a number.
\<close>

fun bump_daily_stats ::
  "string \<Rightarrow> real \<Rightarrow> real \<Rightarrow> (string \<times> day_stat) list \<Rightarrow> (string \<times> day_stat) list" where
  "bump_daily_stats k p n [] =
     [(k, \<lparr> ds_executions = 1, ds_total_pass_rate = 0 + p, ds_total_records = 0 + n \<rparr>)]"
| "bump_daily_stats k p n ((k', st) # rest) =
     (if k' = k
      then (k', st\<lparr> ds_executions := ds_executions st + 1,
                     ds_total_pass_rate := ds_total_pass_rate st + p,
                     ds_total_records := ds_total_records st + n \<rparr>) # rest
      else (k', st) # bump_daily_stats k p n rest)"

fun collect_daily_stats ::
  "hist_entry list \<Rightarrow> (string \<times> day_stat) list \<Rightarrow> exn + (string \<times> day_stat) list" where
  "collect_daily_stats [] acc = Inr acc"
| "collect_daily_stats (r # rs) acc =
     (case number_or_zero (h_pass_rate r) of
        Inl e \<Rightarrow> Inl e
      | Inr p \<Rightarrow>
          (case number_or_zero (h_total_records r) of
             Inl e \<Rightarrow> Inl e
           | Inr n \<Rightarrow> collect_daily_stats rs (bump_daily_stats (date_str_of r) p n acc)))"

definition point_of :: "string \<times> day_stat \<Rightarrow> trend_point" where
  "point_of kst =
     \<lparr> tp_date = fst kst,
       tp_pass_rate = ds_total_pass_rate (snd kst) / real (ds_executions (snd kst)),
       tp_executions = ds_executions (snd kst),
       tp_total_records = ds_total_records (snd kst) \<rparr>"

text \<open>
  The trend of a series of daily points: \<open>trend_data[-7:]\<close> and \<open>trend_data[:-7]\<close>
  are the last seven points (all of them when there are fewer) and the points before
  them.
\<close>

definition direction_of :: "trend_point list \<Rightarrow> string" where
  "direction_of td =
     (if length td \<ge> 2
      then (let recent_avg = sum_list (map tp_pass_rate (drop (length td - 7) td))
                               / real (min 7 (length td));
                older_avg = sum_list (map tp_pass_rate (take (length td - 7) td))
                              / real (max 1 (length td - 7))
            in if recent_avg > older_avg + 1 then ''improving''
               else if recent_avg < older_avg - 1 then ''declining''
               else ''stable'')
      else ''insufficient_data'')"

text \<open>
  \<open>generate_trend_report\<close>. The days are sorted by their date string; the keys of
  \<open>daily_stats\<close> are distinct, so the sort of the items is a sort by key. An entry
  belongs to the rule when its \<open>rule_id\<close> equals the id asked for, a string.
\<close>

definition generate_trend_report ::
  "(string \<Rightarrow> real option) \<Rightarrow> real \<Rightarrow> hist_entry list \<Rightarrow> string \<Rightarrow> int \<Rightarrow> exn + trend_report" where
  "generate_trend_report fromisoformat now results_history rule_id' days =
     (case cutoff_date now days of
        Inl e \<Rightarrow> Inl e
      | Inr cutoff \<Rightarrow>
     (let rule_results = filter (\<lambda>r. in_window fromisoformat cutoff r
                                      \<and> h_rule_id r = Some (JStr rule_id')) results_history
      in if rule_results = []
         then Inr \<lparr> tr_rule_id = rule_id', trend_data = [], average_pass_rate = 0,
                    trend_direction = ''stable'', tr_period_days = None \<rparr>
         else
     (case collect_daily_stats rule_results [] of
        Inl e \<Rightarrow> Inl e
      | Inr daily_stats \<Rightarrow>
          (let td = map point_of (sort_key fst daily_stats);
               all_pass_rates = map tp_pass_rate td;
               avg = (if all_pass_rates \<noteq> [] then sum_list all_pass_rates / real (length all_pass_rates) else 0)
           in Inr \<lparr> tr_rule_id = rule_id', trend_data = td, average_pass_rate = avg,
                    trend_direction = direction_of td, tr_period_days = Some days \<rparr>))))"

section \<open>Outcomes of a batch\<close>

text \<open>
  What the batch loop makes of the future of one rule, when the execution of that rule
  starts from the world \<open>w\<close>: the dict the execution returned, or, when the execution
  raised, the failed result built from the exception, which carries the rule's name and
  id, the description of the exception as error, passed false and a pass rate of 0.
\<close>

definition rule_outcome :: "env \<Rightarrow> string option \<Rightarrow> world \<Rightarrow> Rule \<Rightarrow> result_dict \<Rightarrow> bool" where
  "rule_outcome E database w rule d =
     (case fst (execute_rule E w (rid rule) database) of
        Inr res \<Rightarrow> d = res
      | Inl e \<Rightarrow> d = fst (error_result E (snd (execute_rule E w (rid rule) database)) rule e)
                 \<and> d_error d = Some (exn_str e) \<and> \<not> d_passed d \<and> d_pass_rate d = 0
                 \<and> d_rule_id d = rid rule \<and> d_rule_name d = name rule)"

text \<open>
  The world one future leaves behind, and the world in which the i-th future of a batch
  starts: the one the futures completed before it have left.
\<close>

definition world_after :: "env \<Rightarrow> string option \<Rightarrow> world \<Rightarrow> Rule \<Rightarrow> world" where
  "world_after E database w rule =
     (case execute_rule E w (rid rule) database of
        (Inr res, w') \<Rightarrow> w'
      | (Inl e, w') \<Rightarrow> snd (error_result E w' rule e))"

definition world_before :: "env \<Rightarrow> string option \<Rightarrow> world \<Rightarrow> Rule list \<Rightarrow> nat \<Rightarrow> world" where
  "world_before E database w order i = foldl (world_after E database) w (take i order)"

text \<open>
  The store as \<open>create_rule\<close> and the rules file build it: a dict, so no key twice, in
  which every rule is kept under its own id. The index of a store lists, for every key,
  the id and the name of the rule kept under it.
\<close>

definition well_keyed :: "rule_store \<Rightarrow> bool" where
  "well_keyed rs = (distinct (map fst rs) \<and> (\<forall>kr\<in>set rs. rid (snd kr) = fst kr))"

definition rule_index :: "rule_store \<Rightarrow> (string \<times> string \<times> string) list" where
  "rule_index rs = map (\<lambda>kr. (fst kr, rid (snd kr), name (snd kr))) rs"

section \<open>Reading the generated queries\<close>

text \<open>
  The database is a collaborator outside the code, so what a generated query selects is
  stated through a reading of its text. The text is cut into tokens: words (letters,
  digits, underscore and dot), and every other character that is not white space as a
  token of its own.
\<close>

definition is_word_char :: "char \<Rightarrow> bool" where
  "is_word_char c =
     (let n = of_char c :: nat
      in (48 \<le> n \<and> n \<le> 57) \<or> (65 \<le> n \<and> n \<le> 90) \<or> (97 \<le> n \<and> n \<le> 122)
         \<or> c = CHR ''_'' \<or> c = CHR ''.'')"

fun sql_lex :: "string \<Rightarrow> string \<Rightarrow> string list" where
  "sql_lex w [] = (if w = [] then [] else [w])"
| "sql_lex w (c # cs) =
     (if is_word_char c then sql_lex (w @ [c]) cs
      else (if w = [] then [] else [w]) @ (if is_space c then [] else [[c]]) @ sql_lex [] cs)"

definition sql_tokens :: "string \<Rightarrow> string list" where
  "sql_tokens s = sql_lex [] s"

text \<open>
  The fragment of SQL the value-range queries and the pass flag of the statistical
  comparison are written in, and the tokens each construct prints as. The printing is
  read with the precedence of SQL: arithmetic before comparison, comparison before AND,
  and the one OR is written in parentheses.
\<close>

datatype sql_expr =
    Col string
  | Lit string
  | AbsE sql_expr
  | Minus sql_expr sql_expr
  | Divide sql_expr sql_expr
  | CaseWhen sql_cond sql_expr sql_expr
and sql_cond =
    IsNotNull sql_expr
  | Less sql_expr sql_expr
  | Greater sql_expr sql_expr
  | LessEq sql_expr sql_expr
  | Equals sql_expr sql_expr
  | Conj sql_cond sql_cond
  | Disj sql_cond sql_cond

fun expr_tokens :: "sql_expr \<Rightarrow> string list"
  and cond_tokens :: "sql_cond \<Rightarrow> string list" where
  "expr_tokens (Col c) = sql_tokens c"
| "expr_tokens (Lit s) = sql_tokens s"
| "expr_tokens (AbsE e) = [''ABS'', ''(''] @ expr_tokens e @ ['')'']"
| "expr_tokens (Minus a b) = expr_tokens a @ [''-''] @ expr_tokens b"
| "expr_tokens (Divide a b) = expr_tokens a @ [''/''] @ expr_tokens b"
| "expr_tokens (CaseWhen c a b) =
     [''CASE'', ''WHEN''] @ cond_tokens c @ [''THEN''] @ expr_tokens a @ [''ELSE''] @ expr_tokens b @ [''END'']"
| "cond_tokens (IsNotNull e) = expr_tokens e @ [''IS'', ''NOT'', ''NULL'']"
| "cond_tokens (Less a b) = expr_tokens a @ [''<''] @ expr_tokens b"
| "cond_tokens (Greater a b) = expr_tokens a @ [''>''] @ expr_tokens b"
| "cond_tokens (LessEq a b) = expr_tokens a @ [''<'', ''=''] @ expr_tokens b"
| "cond_tokens (Equals a b) = expr_tokens a @ [''=''] @ expr_tokens b"
| "cond_tokens (Conj p q) = cond_tokens p @ [''AND''] @ cond_tokens q"
| "cond_tokens (Disj p q) = [''(''] @ cond_tokens p @ [''OR''] @ cond_tokens q @ ['')'']"

datatype sql_query =
    SelectRows string sql_cond nat
  | SelectCount string sql_cond

fun query_tokens :: "sql_query \<Rightarrow> string list" where
  "query_tokens (SelectRows t c n) =
     [''SELECT'', ''*'', ''FROM''] @ sql_tokens t @ [''WHERE''] @ cond_tokens c @ [''LIMIT'', digits n]"
| "query_tokens (SelectCount t c) =
     [''SELECT'', ''COUNT'', ''('', ''*'', '')'', ''as'', ''total_count'', ''FROM''] @ sql_tokens t
       @ [''WHERE''] @ cond_tokens c"

text \<open>The number a literal denotes: digits with an optional sign and an optional fraction.\<close>

definition digit_of :: "char \<Rightarrow> nat option" where
  "digit_of c = (let n = of_char c :: nat in if 48 \<le> n \<and> n \<le> 57 then Some (n - 48) else None)"

fun nat_of_digits :: "nat \<Rightarrow> string \<Rightarrow> nat option" where
  "nat_of_digits acc [] = Some acc"
| "nat_of_digits acc (c # cs) =
     (case digit_of c of None \<Rightarrow> None | Some d \<Rightarrow> nat_of_digits (10 * acc + d) cs)"

definition unsigned_number :: "string \<Rightarrow> real option" where
  "unsigned_number s =
     (let ip = takeWhile (\<lambda>c. c \<noteq> CHR ''.'') s;
          rest = dropWhile (\<lambda>c. c \<noteq> CHR ''.'') s
      in if ip = [] then None
         else (case nat_of_digits 0 ip of
                 None \<Rightarrow> None
               | Some a \<Rightarrow>
                   (case rest of
                      [] \<Rightarrow> Some (real a)
                    | _ # fp \<Rightarrow>
                        (if fp = [] then None
                         else (case nat_of_digits 0 fp of
                                 None \<Rightarrow> None
                               | Some b \<Rightarrow> Some (real a + real b / 10 ^ length fp))))))"

definition sql_number :: "string \<Rightarrow> real option" where
  "sql_number s =
     (case s of
        [] \<Rightarrow> None
      | c # cs \<Rightarrow> if c = CHR ''-'' then map_option uminus (unsigned_number cs) else unsigned_number s)"

text \<open>
  A value of a numeric cell is an integer or a real number, and the two are kept apart:
  they compare by their numbers, but the quotient of two integers is an integer. A
  literal without a decimal point is an integer, one with a decimal point is a real
  number.
\<close>

datatype sql_value = VInt int | VReal real

fun num_of :: "sql_value \<Rightarrow> real" where
  "num_of (VInt n) = real_of_int n"
| "num_of (VReal x) = x"

definition unsigned_integer :: "string \<Rightarrow> nat option" where
  "unsigned_integer s = (if s = [] then None else nat_of_digits 0 s)"

definition sql_integer :: "string \<Rightarrow> int option" where
  "sql_integer s =
     (case s of
        [] \<Rightarrow> None
      | c # cs \<Rightarrow> if c = CHR ''-'' then map_option (\<lambda>n. - int n) (unsigned_integer cs)
                  else map_option int (unsigned_integer s))"

definition sql_literal :: "string \<Rightarrow> sql_value option" where
  "sql_literal s =
     (if CHR ''.'' \<in> set s then map_option VReal (sql_number s) else map_option VInt (sql_integer s))"

text \<open>
  The meaning of the fragment over rows of numeric cells, None for NULL, as sqlite, the
  dialect of the engine's generator, computes it: a comparison or an arithmetic
  operation with NULL is NULL (unknown), AND and OR follow the three-valued logic, a
  WHERE clause and a CASE branch take a condition only when it is true, and a division
  by zero yields NULL. A difference or an absolute value of integers is an integer, and
  the quotient of two integers is the integer quotient, cut towards zero (PostgreSQL
  divides two integers in the same way); as soon as one operand is a real number the
  operation is the one on real numbers.
\<close>

type_synonym sql_row = "string \<Rightarrow> sql_value option"

definition trunc_div :: "int \<Rightarrow> int \<Rightarrow> int" where
  "trunc_div a b = sgn a * sgn b * (\<bar>a\<bar> div \<bar>b\<bar>)"

fun sql_abs :: "sql_value \<Rightarrow> sql_value" where
  "sql_abs (VInt n) = VInt \<bar>n\<bar>"
| "sql_abs (VReal x) = VReal \<bar>x\<bar>"

fun sql_minus :: "sql_value \<Rightarrow> sql_value \<Rightarrow> sql_value option" where
  "sql_minus (VInt a) (VInt b) = Some (VInt (a - b))"
| "sql_minus a b = Some (VReal (num_of a - num_of b))"

fun sql_divide :: "sql_value \<Rightarrow> sql_value \<Rightarrow> sql_value option" where
  "sql_divide (VInt a) (VInt b) = (if b = 0 then None else Some (VInt (trunc_div a b)))"
| "sql_divide a b = (if num_of b = 0 then None else Some (VReal (num_of a / num_of b)))"

definition kleene_and :: "bool option \<Rightarrow> bool option \<Rightarrow> bool option" where
  "kleene_and p q =
     (if p = Some False \<or> q = Some False then Some False
      else if p = Some True \<and> q = Some True then Some True
      else None)"

definition kleene_or :: "bool option \<Rightarrow> bool option \<Rightarrow> bool option" where
  "kleene_or p q =
     (if p = Some True \<or> q = Some True then Some True
      else if p = Some False \<and> q = Some False then Some False
      else None)"

fun compare_values ::
  "(real \<Rightarrow> real \<Rightarrow> bool) \<Rightarrow> sql_value option \<Rightarrow> sql_value option \<Rightarrow> bool option" where
  "compare_values rel (Some x) (Some y) = Some (rel (num_of x) (num_of y))"
| "compare_values rel _ _ = None"

fun combine_values ::
  "(sql_value \<Rightarrow> sql_value \<Rightarrow> sql_value option) \<Rightarrow> sql_value option \<Rightarrow> sql_value option \<Rightarrow> sql_value option" where
  "combine_values f (Some x) (Some y) = f x y"
| "combine_values f _ _ = None"

fun eval_expr :: "sql_row \<Rightarrow> sql_expr \<Rightarrow> sql_value option"
  and eval_cond :: "sql_row \<Rightarrow> sql_cond \<Rightarrow> bool option" where
  "eval_expr r (Col c) = r c"
| "eval_expr r (Lit s) = sql_literal s"
| "eval_expr r (AbsE e) = map_option sql_abs (eval_expr r e)"
| "eval_expr r (Minus a b) = combine_values sql_minus (eval_expr r a) (eval_expr r b)"
| "eval_expr r (Divide a b) = combine_values sql_divide (eval_expr r a) (eval_expr r b)"
| "eval_expr r (CaseWhen c a b) = (if eval_cond r c = Some True then eval_expr r a else eval_expr r b)"
| "eval_cond r (IsNotNull e) = Some (eval_expr r e \<noteq> None)"
| "eval_cond r (Less a b) = compare_values (<) (eval_expr r a) (eval_expr r b)"
| "eval_cond r (Greater a b) = compare_values (>) (eval_expr r a) (eval_expr r b)"
| "eval_cond r (LessEq a b) = compare_values (\<le>) (eval_expr r a) (eval_expr r b)"
| "eval_cond r (Equals a b) = compare_values (=) (eval_expr r a) (eval_expr r b)"
| "eval_cond r (Conj p q) = kleene_and (eval_cond r p) (eval_cond r q)"
| "eval_cond r (Disj p q) = kleene_or (eval_cond r p) (eval_cond r q)"

definition selected :: "sql_cond \<Rightarrow> sql_row list \<Rightarrow> sql_row list" where
  "selected c rows = filter (\<lambda>r. eval_cond r c = Some True) rows"

fun run_rows :: "(string \<Rightarrow> sql_row list) \<Rightarrow> sql_query \<Rightarrow> sql_row list" where
  "run_rows db (SelectRows t c n) = take n (selected c (db t))"
| "run_rows db (SelectCount t c) = []"

fun run_count :: "(string \<Rightarrow> sql_row list) \<Rightarrow> sql_query \<Rightarrow> nat" where
  "run_count db (SelectCount t c) = length (selected c (db t))"
| "run_count db (SelectRows t c n) = length (take n (selected c (db t)))"

text \<open>The two queries of a value-range rule, and the pass flag of a statistical comparison.\<close>

definition value_range_failures :: "string \<Rightarrow> string \<Rightarrow> string \<Rightarrow> string \<Rightarrow> sql_query" where
  "value_range_failures tbl col lo hi =
     SelectRows tbl (Conj (IsNotNull (Col col)) (Disj (Less (Col col) (Lit lo)) (Greater (Col col) (Lit hi)))) 1000"

definition not_null_count :: "string \<Rightarrow> string \<Rightarrow> sql_query" where
  "not_null_count tbl col = SelectCount tbl (IsNotNull (Col col))"

definition pass_flag :: "string \<Rightarrow> sql_expr" where
  "pass_flag threshold =
     CaseWhen (Equals (Col ''stats2.value2'') (Lit ''0''))
       (CaseWhen (Equals (Col ''stats1.value1'') (Lit ''0'')) (Lit ''1'') (Lit ''0''))
       (CaseWhen (LessEq (Divide (AbsE (Minus (Col ''stats1.value1'') (Col ''stats2.value2'')))
                                 (Col ''stats2.value2''))
                         (Lit threshold))
          (Lit ''1'') (Lit ''0''))"

definition aggregates_tokens :: "string \<Rightarrow> string \<Rightarrow> string \<Rightarrow> string \<Rightarrow> string \<Rightarrow> string list" where
  "aggregates_tokens tbl col operation compare_table compare_column =
     [''WITH'', ''stats1'', ''AS'', ''('', ''SELECT''] @ sql_tokens operation @ [''(''] @ sql_tokens col
     @ ['')'', ''as'', ''value1'', ''FROM''] @ sql_tokens tbl @ [''WHERE''] @ sql_tokens col
     @ [''IS'', ''NOT'', ''NULL'', '')'', '','', ''stats2'', ''AS'', ''('', ''SELECT'']
     @ sql_tokens operation @ [''(''] @ sql_tokens compare_column
     @ ['')'', ''as'', ''value2'', ''FROM''] @ sql_tokens compare_table @ [''WHERE'']
     @ sql_tokens compare_column
     @ [''IS'', ''NOT'', ''NULL'', '')'', ''SELECT'', ''stats1.value1'', '','', ''stats2.value2'', '','',
        ''ABS'', ''('', ''stats1.value1'', ''-'', ''stats2.value2'', '')'', ''as'', ''difference'', '','']"

text \<open>
  The relative difference the claim speaks of, and what the query computes in its place
  from the two aggregates: the quotient of |a - b| by b as sqlite divides, which for two
  integers is cut towards zero. COUNT yields an integer on every table, and SUM, MIN and
  MAX yield integers on a column of integers.
\<close>

definition relative_difference :: "sql_value \<Rightarrow> sql_value \<Rightarrow> real" where
  "relative_difference a b = \<bar>num_of a - num_of b\<bar> / num_of b"

fun computed_ratio :: "sql_value \<Rightarrow> sql_value \<Rightarrow> real" where
  "computed_ratio (VInt a) (VInt b) = real_of_int (trunc_div \<bar>a - b\<bar> b)"
| "computed_ratio a b = \<bar>num_of a - num_of b\<bar> / num_of b"

text \<open>The cell a driver hands over for a value of the database.\<close>

fun cell_of :: "sql_value option \<Rightarrow> cell" where
  "cell_of None = CNull"
| "cell_of (Some (VInt n)) = CInt n"
| "cell_of (Some (VReal x)) = CNum x"

text \<open>
  The tokens of the two queries of a cross-table rule, written with the side each name
  belongs to: the rule's own table (the subject) with its column and key, and the
  comparison table with its column and key. Each side is a grouped aggregate, SELECT key,
  operation(column) as alias FROM table WHERE column IS NOT NULL GROUP BY key; the two
  are joined ON t1.subject key = t2.comparison key, and the select list starts with
  t1.subject key as join_id.
\<close>

definition grouped_aggregate_tokens ::
  "string \<Rightarrow> string \<Rightarrow> string \<Rightarrow> string \<Rightarrow> string \<Rightarrow> string list" where
  "grouped_aggregate_tokens tbl col operation key_column alias =
     [''SELECT''] @ sql_tokens key_column @ ['',''] @ sql_tokens operation @ [''(''] @ sql_tokens col
     @ ['')'', ''as'', alias, ''FROM''] @ sql_tokens tbl @ [''WHERE''] @ sql_tokens col
     @ [''IS'', ''NOT'', ''NULL'', ''GROUP'', ''BY''] @ sql_tokens key_column"

definition cross_table_tokens ::
  "string \<Rightarrow> string \<Rightarrow> string \<Rightarrow> string \<Rightarrow> string \<Rightarrow> string \<Rightarrow> string \<Rightarrow> string list" where
  "cross_table_tokens operation subject_table subject_column subject_key
       comparison_table comparison_column comparison_key =
     [''WITH'', ''table1_agg'', ''AS'', ''('']
     @ grouped_aggregate_tokens subject_table subject_column operation subject_key ''agg_value1''
     @ ['')'', '','', ''table2_agg'', ''AS'', ''('']
     @ grouped_aggregate_tokens comparison_table comparison_column operation comparison_key ''agg_value2''
     @ ['')'', ''SELECT''] @ sql_tokens (''t1.'' @ subject_key)
     @ [''as'', ''join_id'', '','', ''t1.agg_value1'', '','', ''t2.agg_value2'', '','',
        ''ABS'', ''('', ''t1.agg_value1'', ''-'', ''COALESCE'', ''('', ''t2.agg_value2'', '','', ''0'', '')'',
        '')'', ''as'', ''difference'', ''FROM'', ''table1_agg'', ''t1'',
        ''LEFT'', ''JOIN'', ''table2_agg'', ''t2'', ''ON'']
     @ sql_tokens (''t1.'' @ subject_key) @ [''=''] @ sql_tokens (''t2.'' @ comparison_key)
     @ [''WHERE'', ''t1.agg_value1'', ''!'', ''='', ''COALESCE'', ''('', ''t2.agg_value2'', '','', ''0'', '')'',
        ''LIMIT'', ''1000'']"

definition cross_table_count_tokens :: "string \<Rightarrow> string \<Rightarrow> string \<Rightarrow> string list" where
  "cross_table_count_tokens subject_table subject_column subject_key =
     [''SELECT'', ''COUNT'', ''('', ''DISTINCT''] @ sql_tokens subject_key
     @ ['')'', ''as'', ''total_count'', ''FROM''] @ sql_tokens subject_table
     @ [''WHERE''] @ sql_tokens subject_column @ [''IS'', ''NOT'', ''NULL'']"

section \<open>Statements about the reports\<close>

text \<open>
  The comparison of the specification: the mean of the most recent daily points against
  the mean of all earlier daily points, more than one percentage point apart or not.
\<close>

definition mean :: "real list \<Rightarrow> real" where
  "mean xs = sum_list xs / real (length xs)"

definition compared_direction :: "real list \<Rightarrow> real list \<Rightarrow> string" where
  "compared_direction recent earlier =
     (if mean recent > mean earlier + 1 then ''improving''
      else if mean recent < mean earlier - 1 then ''declining''
      else ''stable'')"

text \<open>
  The entries of a rule inside the window, which is the filter of the trend report; the
  pass rate an entry counts with; the days on which the entries fall, each once and in
  ascending order of the date, so that the last ones are the most recent; and the mean
  pass rate of the entries of one day.
\<close>

definition rule_window :: "(string \<Rightarrow> real option) \<Rightarrow> real \<Rightarrow> hist_entry list \<Rightarrow> string \<Rightarrow> hist_entry list" where
  "rule_window fromisoformat cutoff results_history rule_id' =
     filter (\<lambda>r. in_window fromisoformat cutoff r \<and> h_rule_id r = Some (JStr rule_id')) results_history"

definition number_of :: "json \<Rightarrow> real" where
  "number_of v = (case json_number v of None \<Rightarrow> 0 | Some x \<Rightarrow> x)"

definition pass_rate_or_zero :: "hist_entry \<Rightarrow> real" where
  "pass_rate_or_zero r = (case h_pass_rate r of None \<Rightarrow> 0 | Some v \<Rightarrow> number_of v)"

definition days_of :: "hist_entry list \<Rightarrow> string list" where
  "days_of W = sort (remdups (map date_str_of W))"

definition day_mean :: "hist_entry list \<Rightarrow> string \<Rightarrow> real" where
  "day_mean W d = mean (map pass_rate_or_zero (filter (\<lambda>r. date_str_of r = d) W))"

text \<open>
  An entry whose pass rate and record count are numbers where they are present, as the
  entries are that \<open>record_execution_result\<close> writes.
\<close>

definition numeric_or_absent :: "json option \<Rightarrow> bool" where
  "numeric_or_absent v = (case v of None \<Rightarrow> True | Some j \<Rightarrow> json_number j \<noteq> None)"

definition trend_entry :: "hist_entry \<Rightarrow> bool" where
  "trend_entry r = (numeric_or_absent (h_pass_rate r) \<and> numeric_or_absent (h_total_records r))"

text \<open>
  The entries inside the window of a summary, the mean of their pass rates (0.0 when none
  carries one), and per rule the number of its executions and of its failed executions.
  An entry of a summary carries a rule id that is a string, a rule name, and a pass rate
  that is a number when it is present.
\<close>

definition summary_window :: "(string \<Rightarrow> real option) \<Rightarrow> real \<Rightarrow> hist_entry list \<Rightarrow> hist_entry list" where
  "summary_window fromisoformat cutoff results_history =
     filter (in_window fromisoformat cutoff) results_history"

definition is_string :: "json option \<Rightarrow> bool" where
  "is_string v = (case v of Some (JStr s) \<Rightarrow> True | _ \<Rightarrow> False)"

definition summary_entry :: "hist_entry \<Rightarrow> bool" where
  "summary_entry r =
     (is_string (h_rule_id r) \<and> h_rule_name r \<noteq> None \<and> numeric_or_absent (h_pass_rate r))"

definition mean_pass_rate :: "hist_entry list \<Rightarrow> real" where
  "mean_pass_rate W =
     (if List.map_filter h_pass_rate W = [] then 0
      else mean (map number_of (List.map_filter h_pass_rate W)))"

definition executions_of :: "hist_entry list \<Rightarrow> json \<Rightarrow> nat" where
  "executions_of W k = length (filter (\<lambda>r. h_rule_id r = Some k) W)"

definition failures_of :: "hist_entry list \<Rightarrow> json \<Rightarrow> nat" where
  "failures_of W k = length (filter (\<lambda>r. h_rule_id r = Some k \<and> not_passed r) W)"

text \<open>
  The invariant of the loop that fills \<open>rule_stats\<close>: one entry for each rule id seen
  so far, holding the counts of that rule over the entries seen.
\<close>

definition stats_agree :: "(json \<times> rule_stat) list \<Rightarrow> hist_entry list \<Rightarrow> bool" where
  "stats_agree acc seen =
     (distinct (map fst acc)
      \<and> set (map fst acc) = {k. Some k \<in> h_rule_id ` set seen}
      \<and> (\<forall>k st. map_of acc k = Some st \<longrightarrow>
            rs_total_executions st = executions_of seen k
            \<and> rs_failure_count st = failures_of seen k))"

text \<open>
  The invariant of the loop that fills \<open>daily_stats\<close>: one entry for each date seen so
  far, holding the number of the entries of that date and the sum of their pass rates.
\<close>

definition daily_agree :: "(string \<times> day_stat) list \<Rightarrow> hist_entry list \<Rightarrow> bool" where
  "daily_agree acc seen =
     (distinct (map fst acc)
      \<and> set (map fst acc) = date_str_of ` set seen
      \<and> (\<forall>k st. map_of acc k = Some st \<longrightarrow>
            ds_executions st = length (filter (\<lambda>r. date_str_of r = k) seen)
            \<and> ds_total_pass_rate st = sum_list (map pass_rate_or_zero (filter (\<lambda>r. date_str_of r = k) seen))))"

section \<open>Example inputs\<close>

text \<open>The rule types whose result is a count of failing rows.\<close>

definition counting_types :: "string list" where
  "counting_types = [''value_range'', ''value_template'', ''data_continuity'', ''cross_table_comparison'']"

definition demo_cfg :: "string \<rightharpoonup> pyval" where
  "demo_cfg = [''table'' \<mapsto> PStr ''readings'']"

text \<open>
  The rule of the spec's end-to-end scenario, and a database in which every one of the
  100 non-null rows is in range: the count query answers 100, the validation query
  returns no row.
\<close>

definition range_rule :: Rule where
  "range_rule =
     \<lparr> rid = ''r1'', name = ''temp_range'', description = [], rule_type = ''value_range'',
       config = \<lparr> table = ''readings'', column = Some ''temp'', cfg_rule_type = ''value_range'',
                  parameters = [''table'' \<mapsto> PStr ''readings'', ''column'' \<mapsto> PStr ''temp'',
                                ''min_value'' \<mapsto> PInt (- 10), ''max_value'' \<mapsto> PInt 50] \<rparr>,
       status = ''active'', created_at = 0, updated_at = 0, last_run = None, tags = [] \<rparr>"

definition all_pass_env :: env where
  "all_pass_env =
     \<lparr> execute_query = (\<lambda>db sql. if take 12 sql = ''SELECT COUNT''
                                   then Inr [[(''total_count'', CInt 100)]] else Inr []),
       connection_names = [''db''],
       save_rules = (\<lambda>_. None),
       save_results = (\<lambda>_. None),
       clock = (\<lambda>n. real n),
       isoformat = (\<lambda>t. ''2024-01-01T00:00:00'') \<rparr>"

definition one_rule_world :: world where
  "one_rule_world = \<lparr> rules = [(''r1'', range_rule)], history = [], ticks = 0 \<rparr>"

text \<open>
  A statistical comparison whose aggregates agree, run while the rules file cannot be
  written; and the range rule run against a database without its table.
\<close>

definition stat_rule :: Rule where
  "stat_rule =
     \<lparr> rid = ''s1'', name = ''totals_match'', description = [], rule_type = ''statistical_comparison'',
       config = \<lparr> table = ''orders'', column = Some ''amount'', cfg_rule_type = ''statistical_comparison'',
                  parameters = [''table'' \<mapsto> PStr ''orders'', ''column'' \<mapsto> PStr ''amount'',
                                ''operation'' \<mapsto> PStr ''sum'', ''compare_table'' \<mapsto> PStr ''payments'',
                                ''compare_column'' \<mapsto> PStr ''amount''] \<rparr>,
       status = ''active'', created_at = 0, updated_at = 0, last_run = None, tags = [] \<rparr>"

definition stat_world :: world where
  "stat_world = \<lparr> rules = [(''s1'', stat_rule)], history = [], ticks = 0 \<rparr>"

definition rules_file_full_env :: env where
  "rules_file_full_env =
     \<lparr> execute_query = (\<lambda>db sql. if take 8 sql = ''SELECT 1''
                                   then Inr [[(''total_count'', CInt 1)]]
                                   else Inr [[(''value1'', CInt 5), (''value2'', CInt 5),
                                              (''difference'', CInt 0), (''passed'', CInt 1)]]),
       connection_names = [''db''],
       save_rules = (\<lambda>_. Some (OSError ''No space left on device'')),
       save_results = (\<lambda>_. None),
       clock = (\<lambda>n. real n),
       isoformat = (\<lambda>t. ''2024-01-01T00:00:00'') \<rparr>"

definition query_fails_env :: env where
  "query_fails_env =
     \<lparr> execute_query = (\<lambda>db sql. if take 12 sql = ''SELECT COUNT''
                                   then Inr [[(''total_count'', CInt 100)]]
                                   else Inl (QueryError ''no such table: readings'')),
       connection_names = [''db''],
       save_rules = (\<lambda>_. None),
       save_results = (\<lambda>_. None),
       clock = (\<lambda>n. real n),
       isoformat = (\<lambda>t. ''2024-01-01T00:00:00'') \<rparr>"

text \<open>
  Two active rules, and a results file that takes one entry and cannot be written
  after that: the second execution of a batch raises out of \<open>execute_rule\<close>.
\<close>

definition two_rule_world :: world where
  "two_rule_world = \<lparr> rules = [(''r1'', range_rule), (''s1'', stat_rule)], history = [], ticks = 0 \<rparr>"

definition results_file_full_env :: env where
  "results_file_full_env =
     \<lparr> execute_query = (\<lambda>db sql. if take 12 sql = ''SELECT COUNT''
                                   then Inr [[(''total_count'', CInt 100)]]
                                   else if take 8 sql = ''SELECT 1''
                                   then Inr [[(''total_count'', CInt 1)]]
                                   else if take 4 sql = ''WITH''
                                   then Inr [[(''value1'', CInt 5), (''value2'', CInt 5),
                                              (''difference'', CInt 0), (''passed'', CInt 1)]]
                                   else Inr [[(''id'', CInt 7), (''temp'', CInt 99)]]),
       connection_names = [''db''],
       save_rules = (\<lambda>_. None),
       save_results = (\<lambda>h. if length h > 1 then Some (OSError ''No space left on device'') else None),
       clock = (\<lambda>n. real n),
       isoformat = (\<lambda>t. ''2024-01-01T00:00:00'') \<rparr>"

text \<open>
  A reading of the timestamps of January 2024, by their date: 2024-01-01 is day 738886,
  so 738885 days after the smallest datetime. A history of one rule over two days given
  out of order, and one over eight days: 100 on the first day, 50 on the seven days
  after it.
\<close>

definition january_2024 :: "string \<Rightarrow> real option" where
  "january_2024 s =
     (if length s \<ge> 10 \<and> take 8 s = ''2024-01-''
      then Some (86400 * (738884 + real_of_int (10 * (of_char (s ! 8) - 48) + (of_char (s ! 9) - 48))))
      else None)"

definition mid_january :: real where
  "mid_january = 86400 * 738899"

definition day_entry :: "string \<Rightarrow> real \<Rightarrow> hist_entry" where
  "day_entry dd p =
     \<lparr> h_timestamp = Some (JStr (''2024-01-'' @ dd @ ''T12:00:00'')), h_rule_id = Some (JStr ''r1''),
       h_rule_name = Some (JStr ''temp_range''), h_pass_rate = Some (JNum p),
       h_passed = Some (JBool (p \<ge> 100)), h_total_records = Some (JNum 100) \<rparr>"

definition two_day_history :: "hist_entry list" where
  "two_day_history = [day_entry ''02'' 50, day_entry ''01'' 100, day_entry ''02'' 70]"

definition eight_day_history :: "hist_entry list" where
  "eight_day_history =
     [day_entry ''05'' 50, day_entry ''02'' 50, day_entry ''08'' 50, day_entry ''01'' 100,
      day_entry ''03'' 50, day_entry ''07'' 50, day_entry ''04'' 50, day_entry ''06'' 50]"

definition points_of :: "real list \<Rightarrow> trend_point list" where
  "points_of ps = map (\<lambda>p. \<lparr> tp_date = [], tp_pass_rate = p, tp_executions = 1, tp_total_records = 0 \<rparr>) ps"

text \<open>A history of two rules: one execution that passed, two of another rule that failed.\<close>

definition summary_history :: "hist_entry list" where
  "summary_history =
     [day_entry ''01'' 100,
      (day_entry ''02'' 50)\<lparr> h_rule_id := Some (JStr ''r2''), h_rule_name := Some (JStr ''email_shape'') \<rparr>,
      (day_entry ''03'' 90)\<lparr> h_rule_id := Some (JStr ''r2''), h_rule_name := Some (JStr ''email_shape'') \<rparr>]"

text \<open>A cross-table rule on the column total, for two tables and an optional join key.\<close>

definition cross_rule :: "string \<Rightarrow> string \<Rightarrow> pyval option \<Rightarrow> Rule" where
  "cross_rule tbl compare_table join_key =
     \<lparr> rid = ''x1'', name = ''totals_by_key'', description = [], rule_type = ''cross_table_comparison'',
       config = \<lparr> table = tbl, column = Some ''total'', cfg_rule_type = ''cross_table_comparison'',
                  parameters = (\<lambda>k. if k = ''compare_table'' then Some (PStr compare_table)
                                     else if k = ''compare_column'' then Some (PStr ''price'')
                                     else if k = ''join_key'' then join_key
                                     else None) \<rparr>,
       status = ''active'', created_at = 0, updated_at = 0, last_run = None, tags = [] \<rparr>"

text \<open>A table of readings with the temperatures -10, 50, 51, NULL, -11 and 50.5.\<close>

definition readings_db :: "string \<Rightarrow> sql_row list" where
  "readings_db t =
     (if t = ''readings''
      then map (\<lambda>v c. if c = ''temp'' then v else None)
             [Some (VInt (- 10)), Some (VInt 50), Some (VInt 51), None, Some (VInt (- 11)),
              Some (VReal (101 / 2))]
      else [])"

text \<open>
  A comparison of two counts, 150 rows against 100, with the default threshold: the row
  of the two aggregates, and a database that answers the validation query with the row
  the query computes from them.
\<close>

definition count_rule :: Rule where
  "count_rule =
     \<lparr> rid = ''c1'', name = ''row_counts_match'', description = [], rule_type = ''statistical_comparison'',
       config = \<lparr> table = ''orders'', column = Some ''id'', cfg_rule_type = ''statistical_comparison'',
                  parameters = [''table'' \<mapsto> PStr ''orders'', ''column'' \<mapsto> PStr ''id'',
                                ''operation'' \<mapsto> PStr ''count'', ''compare_table'' \<mapsto> PStr ''payments'',
                                ''compare_column'' \<mapsto> PStr ''id''] \<rparr>,
       status = ''active'', created_at = 0, updated_at = 0, last_run = None, tags = [] \<rparr>"

definition aggregates_row :: "int \<Rightarrow> int \<Rightarrow> sql_row" where
  "aggregates_row a b =
     (\<lambda>c. if c = ''stats1.value1'' then Some (VInt a)
          else if c = ''stats2.value2'' then Some (VInt b) else None)"

definition comparison_row :: "int \<Rightarrow> int \<Rightarrow> row" where
  "comparison_row a b =
     [(''value1'', CInt a), (''value2'', CInt b), (''difference'', CInt \<bar>a - b\<bar>),
      (''passed'', cell_of (eval_expr (aggregates_row a b) (pass_flag ''0.05'')))]"

definition counts_env :: "int \<Rightarrow> int \<Rightarrow> env" where
  "counts_env a b =
     \<lparr> execute_query = (\<lambda>db sql. if take 8 sql = ''SELECT 1''
                                   then Inr [[(''total_count'', CInt 1)]]
                                   else Inr [comparison_row a b]),
       connection_names = [''db''],
       save_rules = (\<lambda>_. None),
       save_results = (\<lambda>_. None),
       clock = (\<lambda>n. real n),
       isoformat = (\<lambda>t. ''2024-01-01T00:00:00'') \<rparr>"

definition count_world :: world where
  "count_world = \<lparr> rules = [(''c1'', count_rule)], history = [], ticks = 0 \<rparr>"

section \<open>Sealed results\<close>

text \<open>
  C2. After \<open>finish\<close>: with a positive total the pass rate is
  passed_records / total_records * 100 and the result passes exactly when that rate is at
  least 100; with a total of zero the pass rate is 0.0 and the result does not pass.
\<close>

theorem finish_pass_rate:
  "(total_records r > 0 \<longrightarrow>
      pass_rate (finish t r) = real_of_int (passed_records r) / real_of_int (total_records r) * 100
      \<and> passed (finish t r) = (pass_rate (finish t r) \<ge> 100))
   \<and> (total_records r = 0 \<longrightarrow> pass_rate (finish t r) = 0 \<and> passed (finish t r) = False)"
  by (simp add: finish_def Let_def)

theorem finish_pass_rate_witness:
  "pass_rate (finish 2 ((RuleExecutionResult_init ''r'' ''1'' 1)
       \<lparr> total_records := 100, passed_records := 97, failed_records := 3 \<rparr>)) = 97
   \<and> \<not> passed (finish 2 ((RuleExecutionResult_init ''r'' ''1'' 1)
       \<lparr> total_records := 100, passed_records := 97, failed_records := 3 \<rparr>))
   \<and> pass_rate (finish 2 (RuleExecutionResult_init ''r'' ''1'' 1)) = 0
   \<and> \<not> passed (finish 2 (RuleExecutionResult_init ''r'' ''1'' 1))"
  using finish_pass_rate [of "(RuleExecutionResult_init ''r'' ''1'' 1)
       \<lparr> total_records := 100, passed_records := 97, failed_records := 3 \<rparr>" 2]
        finish_pass_rate [of "RuleExecutionResult_init ''r'' ''1'' 1" 2]
  by (simp add: RuleExecutionResult_init_def)

section \<open>Row-counting rules\<close>

lemma finish_fields:
  "rule_name (finish t r) = rule_name r" "rule_id (finish t r) = rule_id r"
  "total_records (finish t r) = total_records r" "passed_records (finish t r) = passed_records r"
  "failed_records (finish t r) = failed_records r" "error (finish t r) = error r"
  "failed_samples (finish t r) = failed_samples r"
  by (simp_all add: finish_def Let_def)

lemma finish_zero_passed:
  "passed_records r = 0 \<Longrightarrow> pass_rate (finish t r) = 0 \<and> \<not> passed (finish t r)"
  by (simp add: finish_def Let_def)

lemma process_no_rows:
  "rule_type rule \<in> set counting_types \<Longrightarrow> process_rule_result rule [] r = Inr r"
  by (auto simp: counting_types_def process_rule_result_def process_value_range_result_def
      process_value_template_result_def process_data_continuity_result_def
      process_cross_table_comparison_result_def)

text \<open>
  C1. The claim is that passed_records + failed_records = total_records also when the
  validation query returns no failing row. The code does otherwise: each of the four
  \<open>_process_*_result\<close> functions assigns the counts only under \<open>if query_result\<close>, so
  with no failing row both counts stay 0 whatever the total is, and the sealed result
  has pass rate 0.0 and does not pass. For a count of n the sum 0 + 0 is n only when
  n = 0.
\<close>

theorem counting_rule_all_rows_pass:
  assumes "get_rule (rules w) rule_id' = Some rule"
    and "rule_type rule \<in> set counting_types"
    and "db \<noteq> []"
    and "generate_validation_sql ''sqlite'' rule = Inr (sql_query, count_query)"
    and "execute_query E db count_query = Inr [[(''total_count'', CInt n)]]"
    and "execute_query E db sql_query = Inr []"
    and "\<forall>rs. save_rules E rs = None"
    and "\<forall>h. save_results E h = None"
  shows "\<exists>d. fst (execute_rule E w rule_id' (Some db)) = Inr d
             \<and> d_error d = None \<and> d_total_records d = n
             \<and> d_passed_records d = 0 \<and> d_failed_records d = 0
             \<and> d_pass_rate d = 0 \<and> \<not> d_passed d"
  using assms
  by (simp add: execute_rule_def pick_database_def execute_rule_try_def total_count_of_def process_no_rows
      read_clock_def update_last_run_def record_execution_result_def to_dict_def
      RuleExecutionResult_init_def finish_fields finish_zero_passed Let_def
      split: option.splits prod.splits)

section \<open>Rule types\<close>

lemma map_of_dict_set: "map_of (dict_set k r rs) k = Some r"
  by (induction rs) auto

text \<open>
  C10. A rule of type boolean_combination can be created and stored (here with a
  configuration that names a table and no column, and a rules file that can be written),
  and for every rule of that type \<open>generate_validation_sql\<close> raises the ValueError of an
  unsupported rule type, whatever the dialect.
\<close>

theorem boolean_combination_creatable_not_compilable:
  "(\<forall>cfg t rs new_id now nm descr tgs.
      cfg ''table'' = Some (PStr t) \<and> cfg ''column'' = None \<longrightarrow>
      (\<exists>rs' rule.
         create_rule (\<lambda>_. None) new_id now rs nm ''boolean_combination'' cfg descr tgs = (Inr new_id, rs')
         \<and> get_rule rs' new_id = Some rule
         \<and> rule_type rule = ''boolean_combination''))
   \<and> (\<forall>dbt rule. rule_type rule = ''boolean_combination'' \<longrightarrow>
         generate_validation_sql dbt rule = Inl (ValueError ''Unsupported rule type: boolean_combination''))"
proof (intro conjI allI impI)
  fix cfg t rs new_id now nm descr tgs
  assume a: "cfg ''table'' = Some (PStr t) \<and> cfg ''column'' = None"
  let ?rule = "\<lparr> rid = new_id, name = nm, description = descr, rule_type = ''boolean_combination'',
                 config = \<lparr> table = t, column = None, cfg_rule_type = ''boolean_combination'', parameters = cfg \<rparr>,
                 status = ''active'', created_at = now,
                 updated_at = now, last_run = None, tags = tgs \<rparr>"
  have c: "create_rule (\<lambda>_. None) new_id now rs nm ''boolean_combination'' cfg descr tgs
           = (Inr new_id, dict_set new_id ?rule rs)"
    using a by (simp add: create_rule_def valid_types_def make_rule_config_def Let_def)
  have g: "get_rule (dict_set new_id ?rule rs) new_id = Some ?rule"
    by (simp add: get_rule_def get_rule_key_def map_of_dict_set)
  show "\<exists>rs' rule.
         create_rule (\<lambda>_. None) new_id now rs nm ''boolean_combination'' cfg descr tgs = (Inr new_id, rs')
         \<and> get_rule rs' new_id = Some rule
         \<and> rule_type rule = ''boolean_combination''"
    using c g by (intro exI[of _ "dict_set new_id ?rule rs"] exI[of _ ?rule]) simp
next
  fix dbt and rule :: Rule
  assume "rule_type rule = ''boolean_combination''"
  then show "generate_validation_sql dbt rule = Inl (ValueError ''Unsupported rule type: boolean_combination'')"
    by (simp add: generate_validation_sql_def)
qed

theorem boolean_combination_witness:
  "fst (create_rule (\<lambda>_. None) ''ab12cd34'' 0 [] ''combo'' ''boolean_combination'' demo_cfg '''' []) = Inr ''ab12cd34''
   \<and> (\<exists>rule. get_rule (snd (create_rule (\<lambda>_. None) ''ab12cd34'' 0 [] ''combo'' ''boolean_combination'' demo_cfg '''' [])) ''ab12cd34'' = Some rule
        \<and> generate_validation_sql ''sqlite'' rule = Inl (ValueError ''Unsupported rule type: boolean_combination''))"
proof -
  have h: "demo_cfg ''table'' = Some (PStr ''readings'') \<and> demo_cfg ''column'' = None"
    by (simp add: demo_cfg_def)
  from boolean_combination_creatable_not_compilable h
  obtain rs' rule where
    "create_rule (\<lambda>_. None) ''ab12cd34'' 0 [] ''combo'' ''boolean_combination'' demo_cfg '''' [] = (Inr ''ab12cd34'', rs')"
    "get_rule rs' ''ab12cd34'' = Some rule" "rule_type rule = ''boolean_combination''"
    by blast
  moreover have "generate_validation_sql ''sqlite'' rule = Inl (ValueError ''Unsupported rule type: boolean_combination'')"
    using boolean_combination_creatable_not_compilable calculation(3) by blast
  ultimately show ?thesis by auto
qed

theorem counting_rule_all_rows_pass_witness:
  "\<exists>d. fst (execute_rule all_pass_env one_rule_world ''r1'' (Some ''db'')) = Inr d
       \<and> d_total_records d = 100 \<and> d_passed_records d = 0 \<and> d_failed_records d = 0
       \<and> d_passed_records d + d_failed_records d \<noteq> d_total_records d
       \<and> d_pass_rate d = 0 \<and> \<not> d_passed d"
proof -
  let ?vq = "''SELECT *\<newline>            FROM readings\<newline>            WHERE temp IS NOT NULL \<newline>            AND (temp < -10 OR temp > 50)\<newline>            LIMIT 1000''"
  let ?cq = "''SELECT COUNT('' @ ''*) as total_count\<newline>            FROM readings\<newline>            WHERE temp IS NOT NULL''"
  have g: "generate_validation_sql ''sqlite'' range_rule = Inr (?vq, ?cq)"
    by code_simp
  have r: "get_rule (rules one_rule_world) ''r1'' = Some range_rule"
    by (simp add: one_rule_world_def get_rule_def get_rule_key_def)
  have t: "rule_type range_rule \<in> set counting_types"
    by (simp add: range_rule_def counting_types_def)
  have c: "execute_query all_pass_env ''db'' ?cq = Inr [[(''total_count'', CInt 100)]]"
    by (simp add: all_pass_env_def)
  have v: "execute_query all_pass_env ''db'' ?vq = Inr []"
    by (simp add: all_pass_env_def)
  have s: "\<forall>rs. save_rules all_pass_env rs = None" "\<forall>h. save_results all_pass_env h = None"
    by (simp_all add: all_pass_env_def)
  from counting_rule_all_rows_pass [OF r t _ g c v s]
  show ?thesis by auto
qed

section \<open>Errors inside an execution\<close>

text \<open>
  An execution in which the write of the rules file in \<open>update_last_run\<close> raises
  after the result has been processed: the exception is caught and recorded, and the
  result is sealed from the counts, here with a pass rate of 100 and passed set.
\<close>

theorem error_set_yet_passed:
  "fst (execute_rule rules_file_full_env stat_world ''s1'' None) =
     Inr \<lparr> d_rule_name = ''totals_match'', d_rule_id = ''s1'', d_passed = True,
           d_total_records = 1, d_passed_records = 1, d_failed_records = 0,
           d_pass_rate = 100, d_execution_time = 2,
           d_error = Some ''No space left on device'', d_failed_samples = [],
           d_timestamp = None \<rparr>"
  by code_simp

lemma try_error_keeps_zero:
  assumes "\<forall>rs. save_rules E rs = None"
    and "execute_rule_try E w rule db r0 = (Some e, r1, w1)"
  shows "passed_records r1 = passed_records r0"
  using assms
  by (auto simp: execute_rule_try_def update_last_run_def read_clock_def Let_def
      split: sum.splits prod.splits option.splits)

lemma sealed_zero:
  "passed_records r = 0 \<Longrightarrow>
   d_pass_rate (to_dict (finish t (r\<lparr> error := x \<rparr>))) = 0
   \<and> \<not> d_passed (to_dict (finish t (r\<lparr> error := x \<rparr>)))
   \<and> d_error (to_dict (finish t (r\<lparr> error := x \<rparr>))) = x"
  by (simp add: to_dict_def finish_def Let_def)

lemma execute_rule_unfold:
  assumes "get_rule (rules w) rule_id' = Some rule"
    and "pick_database E database = Inr db"
    and "execute_rule_try E (snd (read_clock E w)) rule db
           (RuleExecutionResult_init (name rule) (rid rule) (fst (read_clock E w))) = (err, r1, w1)"
  shows "fst (execute_rule E w rule_id' database) =
           (let r2 = (case err of None \<Rightarrow> r1 | Some e \<Rightarrow> r1\<lparr> error := Some (exn_str e) \<rparr>);
                r3 = finish (fst (read_clock E w1)) r2
            in case fst (record_execution_result E (snd (read_clock E w1)) (to_dict r3)) of
                 Some e \<Rightarrow> Inl e | None \<Rightarrow> Inr (to_dict r3))"
  using assms
  by (simp add: execute_rule_def Let_def split_beta split: option.splits)

lemma try_stage_error:
  assumes "generate_validation_sql ''sqlite'' rule = Inl e
           \<or> (\<exists>vq cq. generate_validation_sql ''sqlite'' rule = Inr (vq, cq)
                 \<and> (execute_query E db cq = Inl e
                    \<or> (\<exists>rows n. execute_query E db cq = Inr rows \<and> total_count_of rows = Inr n
                          \<and> execute_query E db vq = Inl e)))"
  shows "\<exists>r1. execute_rule_try E w rule db r0 = (Some e, r1, w) \<and> passed_records r1 = passed_records r0"
  using assms
  by (auto simp: execute_rule_try_def Let_def)

lemma record_ok:
  "\<forall>h. save_results E h = None \<Longrightarrow> fst (record_execution_result E w d) = None"
  by (simp add: record_execution_result_def Let_def split: prod.splits)

text \<open>
  C3, as the code has it. When SQL generation, the count query or the validation query
  raises and the results file can be written, \<open>execute_rule\<close> returns a sealed result
  whose error is the description of the exception, with passed false and pass rate 0.0.
  And in every result that \<open>execute_rule\<close> returns while the rules file can be
  written, a set error comes with passed false and pass rate 0.0.
\<close>

theorem execute_rule_error_sealed:
  "(get_rule (rules w) rule_id' = Some rule \<and> pick_database E database = Inr db
      \<and> (generate_validation_sql ''sqlite'' rule = Inl e
          \<or> (\<exists>vq cq. generate_validation_sql ''sqlite'' rule = Inr (vq, cq)
                \<and> (execute_query E db cq = Inl e
                   \<or> (\<exists>rows n. execute_query E db cq = Inr rows \<and> total_count_of rows = Inr n
                         \<and> execute_query E db vq = Inl e))))
      \<and> (\<forall>h. save_results E h = None)
    \<longrightarrow> (\<exists>d. fst (execute_rule E w rule_id' database) = Inr d
             \<and> d_error d = Some (exn_str e) \<and> \<not> d_passed d \<and> d_pass_rate d = 0))
   \<and> ((\<forall>rs. save_rules E rs = None) \<and> fst (execute_rule E w rule_id' database) = Inr d'
        \<and> d_error d' \<noteq> None
    \<longrightarrow> \<not> d_passed d' \<and> d_pass_rate d' = 0)"
  (is "(?P \<longrightarrow> ?Q) \<and> (?R \<longrightarrow> ?S)")
proof (rule conjI; rule impI)
  assume a: ?P
  let ?r0 = "RuleExecutionResult_init (name rule) (rid rule) (fst (read_clock E w))"
  let ?w0 = "snd (read_clock E w)"
  from a try_stage_error [of rule e E db ?w0 ?r0]
  obtain r1 where t: "execute_rule_try E ?w0 rule db ?r0 = (Some e, r1, ?w0)"
    and z: "passed_records r1 = 0"
    by (auto simp: RuleExecutionResult_init_def)
  from a have g: "get_rule (rules w) rule_id' = Some rule" and p: "pick_database E database = Inr db"
    and sv: "\<forall>h. save_results E h = None" by simp_all
  show ?Q
    using execute_rule_unfold [OF g p t] sealed_zero [OF z] record_ok [OF sv]
    by (simp add: Let_def)
next
  assume b: ?R
  then have sr: "\<forall>rs. save_rules E rs = None" and ex: "fst (execute_rule E w rule_id' database) = Inr d'"
    and er: "d_error d' \<noteq> None" by simp_all
  from ex obtain rule where g: "get_rule (rules w) rule_id' = Some rule"
    by (auto simp: execute_rule_def split: option.splits)
  from ex g obtain db where p: "pick_database E database = Inr db"
    by (auto simp: execute_rule_def split: sum.splits)
  let ?r0 = "RuleExecutionResult_init (name rule) (rid rule) (fst (read_clock E w))"
  let ?w0 = "snd (read_clock E w)"
  obtain err r1 w1 where t: "execute_rule_try E ?w0 rule db ?r0 = (err, r1, w1)"
    by (cases "execute_rule_try E ?w0 rule db ?r0") auto
  have init: "error ?r0 = None" "passed_records ?r0 = 0"
    by (simp_all add: RuleExecutionResult_init_def)
  have keep: "error r1 = None"
    using t init
    by (auto simp: execute_rule_try_def process_rule_result_def process_value_range_result_def
        process_value_template_result_def process_data_continuity_result_def
        process_statistical_comparison_result_def process_cross_table_comparison_result_def
        Let_def split: sum.splits prod.splits option.splits if_splits list.splits)
  from execute_rule_unfold [OF g p t] ex
  have d: "d' = to_dict (finish (fst (read_clock E w1))
                 (case err of None \<Rightarrow> r1 | Some e \<Rightarrow> r1\<lparr> error := Some (exn_str e) \<rparr>))"
    by (auto simp: Let_def split: option.splits)
  show ?S
  proof (cases err)
    case None
    with d keep er show ?thesis by (simp add: to_dict_def finish_fields)
  next
    case (Some e)
    with t try_error_keeps_zero [OF sr] init have "passed_records r1 = 0" by fastforce
    from sealed_zero [OF this] d Some show ?thesis by simp
  qed
qed

theorem execute_rule_error_sealed_witness:
  "\<exists>d. fst (execute_rule query_fails_env one_rule_world ''r1'' None) = Inr d
       \<and> d_error d = Some ''no such table: readings'' \<and> \<not> d_passed d \<and> d_pass_rate d = 0"
proof -
  let ?vq = "''SELECT *\<newline>            FROM readings\<newline>            WHERE temp IS NOT NULL \<newline>            AND (temp < -10 OR temp > 50)\<newline>            LIMIT 1000''"
  let ?cq = "''SELECT COUNT('' @ ''*) as total_count\<newline>            FROM readings\<newline>            WHERE temp IS NOT NULL''"
  let ?e = "QueryError ''no such table: readings''"
  have g: "generate_validation_sql ''sqlite'' range_rule = Inr (?vq, ?cq)"
    by code_simp
  have r: "get_rule (rules one_rule_world) ''r1'' = Some range_rule"
    by (simp add: one_rule_world_def get_rule_def get_rule_key_def)
  have p: "pick_database query_fails_env None = Inr ''db''"
    by (simp add: pick_database_def query_fails_env_def)
  have c: "execute_query query_fails_env ''db'' ?cq = Inr [[(''total_count'', CInt 100)]]"
    by (simp add: query_fails_env_def)
  have n: "total_count_of [[(''total_count'', CInt 100)]] = Inr 100"
    by (simp add: total_count_of_def)
  have v: "execute_query query_fails_env ''db'' ?vq = Inl ?e"
    by (simp add: query_fails_env_def)
  have s: "\<forall>h. save_results query_fails_env h = None"
    by (simp add: query_fails_env_def)
  have stage: "generate_validation_sql ''sqlite'' range_rule = Inl ?e
          \<or> (\<exists>vq cq. generate_validation_sql ''sqlite'' range_rule = Inr (vq, cq)
                \<and> (execute_query query_fails_env ''db'' cq = Inl ?e
                   \<or> (\<exists>rows n. execute_query query_fails_env ''db'' cq = Inr rows
                         \<and> total_count_of rows = Inr n
                         \<and> execute_query query_fails_env ''db'' vq = Inl ?e)))"
    using g c n v by blast
  from execute_rule_error_sealed [of one_rule_world "''r1''" range_rule query_fails_env None "''db''" ?e]
    r p stage s
  show ?thesis by auto
qed

section \<open>Batches\<close>

lemma error_result_fields:
  "d_error (fst (error_result E w rule e)) = Some (exn_str e)"
  "\<not> d_passed (fst (error_result E w rule e))"
  "d_rule_id (fst (error_result E w rule e)) = rid rule"
  "d_rule_name (fst (error_result E w rule e)) = name rule"
  by (simp_all add: error_result_def read_clock_def to_dict_def finish_def
      RuleExecutionResult_init_def Let_def)

lemma error_result_fields2:
  "d_pass_rate (fst (error_result E w rule e)) = 0"
  "rules (snd (error_result E w rule e)) = rules w"
  by (simp_all add: error_result_def read_clock_def to_dict_def finish_def
      RuleExecutionResult_init_def Let_def)

lemma run_futures_step:
  "run_futures E database w (rule # rest) =
     (let d = (case fst (execute_rule E w (rid rule) database) of
                 Inr res \<Rightarrow> res
               | Inl e \<Rightarrow> fst (error_result E (snd (execute_rule E w (rid rule) database)) rule e));
          r = run_futures E database (world_after E database w rule) rest
      in (d # fst r, snd r))"
  by (simp add: world_after_def split_beta Let_def split: sum.splits prod.splits)

lemma run_futures_length: "length (fst (run_futures E database w order)) = length order"
  by (induction order arbitrary: w) (simp_all add: split_beta)

lemma run_futures_nth:
  "i < length order \<Longrightarrow>
   rule_outcome E database (world_before E database w order i) (order ! i)
     (fst (run_futures E database w order) ! i)"
proof (induction order arbitrary: w i)
  case Nil
  then show ?case by simp
next
  case (Cons rule rest)
  show ?case
  proof (cases i)
    case 0
    then show ?thesis
      by (simp add: run_futures_step Let_def world_before_def rule_outcome_def error_result_fields
          error_result_fields2 del: run_futures.simps split: sum.splits)
  next
    case (Suc j)
    with Cons.prems have j: "j < length rest" by simp
    from Cons.IH [OF j, of "world_after E database w rule"] Suc show ?thesis
      by (simp add: run_futures_step Let_def world_before_def del: run_futures.simps)
  qed
qed

lemma update_last_run_index:
  "rule_index (snd (update_last_run save now rs i)) = rule_index rs"
  by (simp add: update_last_run_def rule_index_def Let_def split: option.splits)

lemma try_rules:
  "rule_index (rules (snd (snd (execute_rule_try E w rule db r0)))) = rule_index (rules w)"
  by (simp add: execute_rule_try_def read_clock_def Let_def split_beta update_last_run_index
      split: sum.splits)

lemma try_identity:
  "rule_id (fst (snd (execute_rule_try E w rule db r0))) = rule_id r0
   \<and> rule_name (fst (snd (execute_rule_try E w rule db r0))) = rule_name r0"
  by (simp add: execute_rule_try_def read_clock_def Let_def split_beta
      process_rule_result_def process_value_range_result_def
      process_value_template_result_def process_data_continuity_result_def
      process_statistical_comparison_result_def process_cross_table_comparison_result_def
      split: sum.splits list.splits option.splits)

lemma execute_rule_index:
  "rule_index (rules (snd (execute_rule E w i database))) = rule_index (rules w)"
  using try_rules
  by (simp add: execute_rule_def record_execution_result_def read_clock_def Let_def split_beta
      split: option.splits sum.splits)

lemma execute_rule_identity:
  assumes "get_rule (rules w) i = Some rule" and "fst (execute_rule E w i database) = Inr d"
  shows "d_rule_id d = rid rule \<and> d_rule_name d = name rule"
  using assms try_identity
  by (auto simp: execute_rule_def record_execution_result_def read_clock_def Let_def split_beta
      to_dict_def finish_def RuleExecutionResult_init_def
      split: option.splits sum.splits)

lemma world_after_index:
  "rule_index (rules (world_after E database w rule)) = rule_index (rules w)"
  by (simp add: world_after_def error_result_fields2 split_beta execute_rule_index
      split: sum.splits prod.splits)

lemma world_before_index:
  "rule_index (rules (world_before E database w order i)) = rule_index (rules w)"
proof -
  have "rule_index (rules (foldl (world_after E database) w rs)) = rule_index (rules w)" for rs
    by (induction rs arbitrary: w) (simp_all add: world_after_index)
  then show ?thesis by (simp add: world_before_def)
qed

lemma well_keyed_lookup:
  assumes "well_keyed rs" and "rule \<in> snd ` set rs" and "rule_index rs' = rule_index rs"
  shows "\<exists>r'. get_rule rs' (rid rule) = Some r' \<and> rid r' = rid rule \<and> name r' = name rule"
proof -
  from assms(1,2) have "(rid rule, rule) \<in> set rs"
    by (auto simp: well_keyed_def)
  then have "(rid rule, rid rule, name rule) \<in> set (rule_index rs)"
    by (force simp: rule_index_def)
  with assms(3) have "(rid rule, rid rule, name rule) \<in> set (rule_index rs')" by simp
  then obtain kr where kr: "kr \<in> set rs'" "fst kr = rid rule" "rid (snd kr) = rid rule"
    "name (snd kr) = name rule"
    by (auto simp: rule_index_def)
  have f: "map fst (rule_index xs) = map fst xs" for xs
    by (simp add: rule_index_def comp_def)
  have "map fst rs' = map fst (rule_index rs')" by (simp only: f)
  also have "\<dots> = map fst rs" by (simp only: assms(3) f)
  finally have "distinct (map fst rs')" using assms(1) by (simp add: well_keyed_def)
  with kr(1,2) have "map_of rs' (rid rule) = Some (snd kr)"
    by (metis map_of_is_SomeI prod.collapse)
  with kr(3,4) show ?thesis
    by (simp add: get_rule_def get_rule_key_def)
qed

lemma selected_stored: "set (select_rules w tbl tag) \<subseteq> snd ` set (rules w)"
  by (auto simp: select_rules_def get_rules_for_table_def get_rules_by_tag_def)

lemma outcome_identity:
  assumes "well_keyed (rules w0)" and "rule \<in> snd ` set (rules w0)"
    and "rule_index (rules w) = rule_index (rules w0)"
    and "rule_outcome E database w rule d"
  shows "d_rule_id d = rid rule \<and> d_rule_name d = name rule"
proof (cases "fst (execute_rule E w (rid rule) database)")
  case (Inl e)
  with assms(4) show ?thesis by (simp add: rule_outcome_def error_result_fields)
next
  case (Inr res)
  with assms(4) have d: "d = res" by (simp add: rule_outcome_def)
  from well_keyed_lookup [OF assms(1,2,3)] obtain r' where
    r': "get_rule (rules w) (rid rule) = Some r'" "rid r' = rid rule" "name r' = name rule"
    by blast
  from execute_rule_identity [OF r'(1) Inr] d r'(2,3) show ?thesis by simp
qed

text \<open>
  The store stays well keyed under the operations that write it.
\<close>

lemma dict_set_keys: "fst ` set (dict_set k r rs) = insert k (fst ` set rs)"
proof (induction rs)
  case Nil
  show ?case by simp
next
  case (Cons kr rs)
  obtain k' r' where kr: "kr = (k', r')" by (cases kr)
  show ?case
  proof (cases "k' = k")
    case True
    with kr show ?thesis by simp
  next
    case False
    with kr Cons.IH show ?thesis by (simp add: insert_commute)
  qed
qed

lemma dict_set_values: "kr \<in> set (dict_set k r rs) \<Longrightarrow> kr = (k, r) \<or> kr \<in> set rs"
  by (induction rs) (auto split: if_splits)

lemma dict_set_distinct: "distinct (map fst rs) \<Longrightarrow> distinct (map fst (dict_set k r rs))"
proof (induction rs)
  case Nil
  show ?case by simp
next
  case (Cons kr rs)
  obtain k' r' where kr: "kr = (k', r')" by (cases kr)
  from Cons.prems kr have d: "distinct (map fst rs)" and n: "k' \<notin> fst ` set rs" by auto
  show ?case
  proof (cases "k' = k")
    case True
    with kr d n show ?thesis by simp
  next
    case False
    with kr n Cons.IH [OF d] dict_set_keys [of k r rs] show ?thesis by auto
  qed
qed

lemma dict_set_well_keyed:
  "well_keyed rs \<Longrightarrow> rid r = k \<Longrightarrow> well_keyed (dict_set k r rs)"
  unfolding well_keyed_def
  by (auto simp: dict_set_distinct dest!: dict_set_values)

lemma create_rule_well_keyed:
  "well_keyed rs \<Longrightarrow> well_keyed (snd (create_rule save new_id now rs nm rtype cfg descr tgs))"
  by (simp add: create_rule_def Let_def dict_set_well_keyed split: sum.splits option.splits)

lemma update_last_run_well_keyed:
  "well_keyed rs \<Longrightarrow> well_keyed (snd (update_last_run save now rs i))"
proof -
  have m: "map (fst \<circ> (\<lambda>kr. if fst kr = k then (fst kr, (snd kr)\<lparr> last_run := Some now \<rparr>) else kr)) rs
           = map fst rs" for k
    by (induction rs) auto
  assume "well_keyed rs"
  then show ?thesis
    unfolding well_keyed_def update_last_run_def Let_def
    by (auto simp: m split: option.splits)
qed

text \<open>
  C4. A batch over the N selected rules, with a pool of at least one worker and the
  futures completing in any order \<open>sched\<close> (a permutation of the submitted rules),
  returns exactly N dicts, in completion order. The i-th dict is the outcome of the i-th
  completed rule, executed in the world the i earlier executions have left: the dict that
  \<open>execute_rule\<close> returned there, or, when that execution raised, the failed result
  built from the exception, with the rule's id and name, the description of the
  exception as error, passed false and pass rate 0. In a store where every rule is kept
  under its own id, the ids and names of the dicts are those of the rules in completion
  order, so the ids of the results are a permutation of the ids of the selected rules.
\<close>

theorem execute_batch_rules_complete:
  assumes "0 < max_workers"
    and "mset (sched (select_rules w tbl tag)) = mset (select_rules w tbl tag)"
  shows "\<exists>results. fst (execute_batch_rules E w sched tbl tag database max_workers) = Inr results
           \<and> length results = length (select_rules w tbl tag)
           \<and> (\<forall>i<length results.
                 rule_outcome E database
                   (world_before E database w (sched (select_rules w tbl tag)) i)
                   (sched (select_rules w tbl tag) ! i) (results ! i))
           \<and> (well_keyed (rules w) \<longrightarrow>
                 map d_rule_id results = map rid (sched (select_rules w tbl tag))
                 \<and> map d_rule_name results = map name (sched (select_rules w tbl tag))
                 \<and> mset (map d_rule_id results) = mset (map rid (select_rules w tbl tag)))"
proof -
  let ?rs = "select_rules w tbl tag"
  let ?order = "sched ?rs"
  let ?results = "fst (run_futures E database w ?order)"
  have len: "length ?order = length ?rs"
    using assms(2) by (metis size_mset)
  have r: "fst (execute_batch_rules E w sched tbl tag database max_workers) = Inr ?results"
  proof (cases "?rs = []")
    case True
    with assms(2) have "?order = []" by simp
    with True show ?thesis by (simp add: execute_batch_rules_def)
  next
    case False
    with assms(1) show ?thesis by (simp add: execute_batch_rules_def Let_def split_beta)
  qed
  have l: "length ?results = length ?rs"
    by (simp add: run_futures_length len)
  have o: "\<forall>i<length ?results.
             rule_outcome E database (world_before E database w ?order i) (?order ! i) (?results ! i)"
    by (simp add: run_futures_length run_futures_nth)
  have k: "map d_rule_id ?results = map rid ?order \<and> map d_rule_name ?results = map name ?order
           \<and> mset (map d_rule_id ?results) = mset (map rid ?rs)"
    if wk: "well_keyed (rules w)"
  proof -
    have id: "d_rule_id (?results ! i) = rid (?order ! i) \<and> d_rule_name (?results ! i) = name (?order ! i)"
      if i: "i < length ?order" for i
    proof -
      from i have "?order ! i \<in> set ?order" by simp
      also have "set ?order = set ?rs" using assms(2) by (metis set_mset_mset)
      finally have s: "?order ! i \<in> snd ` set (rules w)" using selected_stored by blast
      from i have "rule_outcome E database (world_before E database w ?order i) (?order ! i) (?results ! i)"
        by (rule run_futures_nth)
      from outcome_identity [OF wk s world_before_index this] show ?thesis .
    qed
    have a: "map d_rule_id ?results = map rid ?order"
      by (rule nth_equalityI) (simp_all add: run_futures_length id)
    have b: "map d_rule_name ?results = map name ?order"
      by (rule nth_equalityI) (simp_all add: run_futures_length id)
    have "mset (map rid ?order) = mset (map rid ?rs)"
      using assms(2) by (metis mset_map)
    with a b show ?thesis by simp
  qed
  from r l o k show ?thesis by blast
qed

lemma two_rule_selection:
  "select_rules two_rule_world None None = [range_rule, stat_rule]"
  by (simp add: select_rules_def two_rule_world_def range_rule_def stat_rule_def)

theorem execute_batch_rules_complete_witness:
  "\<exists>d0 d1. fst (execute_batch_rules results_file_full_env two_rule_world rev None None None 4) = Inr [d0, d1]
      \<and> d0 = \<lparr>d_rule_name = ''totals_match'', d_rule_id = ''s1'', d_passed = True,
               d_total_records = 1, d_passed_records = 1, d_failed_records = 0,
               d_pass_rate = 100, d_execution_time = 2, d_error = None,
               d_failed_samples = [], d_timestamp = None\<rparr>
      \<and> d1 = \<lparr>d_rule_name = ''temp_range'', d_rule_id = ''r1'', d_passed = False,
               d_total_records = 0, d_passed_records = 0, d_failed_records = 0,
               d_pass_rate = 0, d_execution_time = 1,
               d_error = Some ''No space left on device'', d_failed_samples = [],
               d_timestamp = None\<rparr>
      \<and> fst (execute_rule results_file_full_env two_rule_world ''s1'' None) = Inr d0
      \<and> rule_outcome results_file_full_env None two_rule_world stat_rule d0
      \<and> fst (execute_rule results_file_full_env
                (world_after results_file_full_env None two_rule_world stat_rule) ''r1'' None)
            = Inl (OSError ''No space left on device'')
      \<and> rule_outcome results_file_full_env None
            (world_after results_file_full_env None two_rule_world stat_rule) range_rule d1
      \<and> mset (map d_rule_id [d0, d1]) = mset [''r1'', ''s1'']"
proof -
  let ?E = results_file_full_env
  let ?D0 = "\<lparr>d_rule_name = ''totals_match'', d_rule_id = ''s1'', d_passed = True,
               d_total_records = 1, d_passed_records = 1, d_failed_records = 0,
               d_pass_rate = 100, d_execution_time = 2, d_error = None,
               d_failed_samples = [], d_timestamp = None\<rparr>"
  let ?D1 = "\<lparr>d_rule_name = ''temp_range'', d_rule_id = ''r1'', d_passed = False,
               d_total_records = 0, d_passed_records = 0, d_failed_records = 0,
               d_pass_rate = 0, d_execution_time = 1,
               d_error = Some ''No space left on device'', d_failed_samples = [],
               d_timestamp = None\<rparr>"
  have m: "mset (rev (select_rules two_rule_world None None)) = mset (select_rules two_rule_world None None)"
    by simp
  have wk: "well_keyed (rules two_rule_world)"
    by (simp add: well_keyed_def two_rule_world_def range_rule_def stat_rule_def)
  from execute_batch_rules_complete [of 4 rev two_rule_world None None ?E None, OF _ m]
  obtain results where
    r: "fst (execute_batch_rules ?E two_rule_world rev None None None 4) = Inr results"
    and o: "\<forall>i<length results.
              rule_outcome ?E None (world_before ?E None two_rule_world (rev (select_rules two_rule_world None None)) i)
                (rev (select_rules two_rule_world None None) ! i) (results ! i)"
    and k: "well_keyed (rules two_rule_world) \<longrightarrow>
              mset (map d_rule_id results) = mset (map rid (select_rules two_rule_world None None))"
    by auto
  have e: "fst (execute_batch_rules ?E two_rule_world rev None None None 4) = Inr [?D0, ?D1]"
    by code_simp
  from r e have res: "results = [?D0, ?D1]" by simp
  from o res have o0: "rule_outcome ?E None two_rule_world stat_rule ?D0"
    by (auto simp: two_rule_selection world_before_def dest: spec [of _ 0])
  from o res have o1: "rule_outcome ?E None (world_after ?E None two_rule_world stat_rule) range_rule ?D1"
    by (auto simp: two_rule_selection world_before_def dest: spec [of _ 1])
  from k wk res have p: "mset (map d_rule_id [?D0, ?D1]) = mset [''r1'', ''s1'']"
    by (simp add: two_rule_selection range_rule_def stat_rule_def)
  have x0: "fst (execute_rule ?E two_rule_world ''s1'' None) = Inr ?D0"
    by code_simp
  have x1: "fst (execute_rule ?E (world_after ?E None two_rule_world stat_rule) ''r1'' None)
              = Inl (OSError ''No space left on device'')"
    by code_simp
  from e o0 o1 p x0 x1 show ?thesis by blast
qed

section \<open>Trend reports\<close>

lemma bump_daily_keys:
  "map fst (bump_daily_stats k p n acc) = (if k \<in> set (map fst acc) then map fst acc else map fst acc @ [k])"
  by (induction acc) force+

lemma bump_daily_other:
  "k' \<noteq> k \<Longrightarrow> map_of (bump_daily_stats k p n acc) k' = map_of acc k'"
  by (induction acc) auto

lemma bump_daily_same:
  "map_of (bump_daily_stats k p n acc) k =
     Some (case map_of acc k of
             None \<Rightarrow> \<lparr> ds_executions = 1, ds_total_pass_rate = 0 + p, ds_total_records = 0 + n \<rparr>
           | Some st \<Rightarrow> st\<lparr> ds_executions := ds_executions st + 1,
                            ds_total_pass_rate := ds_total_pass_rate st + p,
                            ds_total_records := ds_total_records st + n \<rparr>)"
  by (induction acc) auto

lemma daily_agree_bump:
  assumes "daily_agree acc seen"
  shows "daily_agree (bump_daily_stats (date_str_of r) (pass_rate_or_zero r) n acc) (seen @ [r])"
proof -
  let ?k = "date_str_of r"
  let ?acc = "bump_daily_stats ?k (pass_rate_or_zero r) n acc"
  from assms have d: "distinct (map fst acc)"
    and s: "set (map fst acc) = date_str_of ` set seen"
    and c: "\<And>k st. map_of acc k = Some st \<Longrightarrow>
              ds_executions st = length (filter (\<lambda>r. date_str_of r = k) seen)
              \<and> ds_total_pass_rate st = sum_list (map pass_rate_or_zero (filter (\<lambda>r. date_str_of r = k) seen))"
    by (auto simp: daily_agree_def)
  have d': "distinct (map fst ?acc)"
    using d by (simp add: bump_daily_keys)
  have s': "set (map fst ?acc) = date_str_of ` set (seen @ [r])"
    using s by (auto simp: bump_daily_keys)
  have c': "ds_executions st = length (filter (\<lambda>r. date_str_of r = k') (seen @ [r]))
            \<and> ds_total_pass_rate st
                = sum_list (map pass_rate_or_zero (filter (\<lambda>r. date_str_of r = k') (seen @ [r])))"
    if m: "map_of ?acc k' = Some st" for k' st
  proof (cases "k' = ?k")
    case False
    with m have "map_of acc k' = Some st" by (simp add: bump_daily_other)
    from c [OF this] False show ?thesis by simp
  next
    case True
    show ?thesis
    proof (cases "map_of acc ?k")
      case None
      then have "?k \<notin> set (map fst acc)" by (simp add: map_of_eq_None_iff)
      with s have "?k \<notin> date_str_of ` set seen" by simp
      then have z: "filter (\<lambda>x. date_str_of x = ?k) seen = []"
        by (auto simp: filter_empty_conv image_iff)
      from m True None
      have "st = \<lparr> ds_executions = 1, ds_total_pass_rate = 0 + pass_rate_or_zero r, ds_total_records = 0 + n \<rparr>"
        by (simp add: bump_daily_same)
      with z True show ?thesis by simp
    next
      case (Some st0)
      from m True Some
      have "st = st0\<lparr> ds_executions := ds_executions st0 + 1,
                      ds_total_pass_rate := ds_total_pass_rate st0 + pass_rate_or_zero r,
                      ds_total_records := ds_total_records st0 + n \<rparr>"
        by (simp add: bump_daily_same)
      with c [OF Some] True show ?thesis by simp
    qed
  qed
  from d' s' c' show ?thesis unfolding daily_agree_def by blast
qed

lemma trend_entry_numbers:
  assumes "trend_entry r"
  shows "\<exists>n. number_or_zero (h_pass_rate r) = Inr (pass_rate_or_zero r)
             \<and> number_or_zero (h_total_records r) = Inr n"
  using assms
  by (auto simp: trend_entry_def numeric_or_absent_def number_or_zero_def pass_rate_or_zero_def
      number_of_def split: option.splits)

lemma collect_daily_agree:
  assumes "\<forall>r\<in>set rs. trend_entry r" and "daily_agree acc seen"
  shows "\<exists>acc'. collect_daily_stats rs acc = Inr acc' \<and> daily_agree acc' (seen @ rs)"
  using assms
proof (induction rs arbitrary: acc seen)
  case Nil
  then show ?case by simp
next
  case (Cons r rs)
  from Cons.prems(1) have "trend_entry r" by simp
  from trend_entry_numbers [OF this] obtain n where
    p: "number_or_zero (h_pass_rate r) = Inr (pass_rate_or_zero r)"
    and n: "number_or_zero (h_total_records r) = Inr n"
    by blast
  have "daily_agree (bump_daily_stats (date_str_of r) (pass_rate_or_zero r) n acc) (seen @ [r])"
    using Cons.prems(2) by (rule daily_agree_bump)
  from Cons.IH [OF _ this] Cons.prems(1) p n show ?case by simp
qed

lemma sorted_days:
  assumes "daily_agree ds W"
  shows "map fst (sort_key fst ds) = days_of W"
proof -
  from assms have d: "distinct (map fst ds)" and s: "set (map fst ds) = date_str_of ` set W"
    by (simp_all add: daily_agree_def)
  have m: "mset (map fst (sort_key fst ds)) = mset (map fst ds)"
    by (metis mset_map mset_sort)
  have 1: "sorted (map fst (sort_key fst ds))" by (rule sorted_sort_key)
  have 2: "distinct (map fst (sort_key fst ds))"
    using m d by (metis mset_eq_imp_distinct_iff)
  have 3: "set (map fst (sort_key fst ds)) = date_str_of ` set W"
    using m s by (metis mset_eq_setD)
  have 4: "sorted (days_of W)" "distinct (days_of W)" "set (days_of W) = date_str_of ` set W"
    by (simp_all add: days_of_def)
  from 1 2 3 4 show ?thesis
    by (intro sorted_distinct_set_unique) simp_all
qed

lemma day_points:
  assumes "daily_agree ds W"
  shows "map tp_pass_rate (map point_of (sort_key fst ds)) = map (day_mean W) (days_of W)"
proof -
  from assms have d: "distinct (map fst ds)"
    and c: "\<And>k st. map_of ds k = Some st \<Longrightarrow>
              ds_executions st = length (filter (\<lambda>r. date_str_of r = k) W)
              \<and> ds_total_pass_rate st = sum_list (map pass_rate_or_zero (filter (\<lambda>r. date_str_of r = k) W))"
    by (auto simp: daily_agree_def)
  have "tp_pass_rate (point_of kst) = day_mean W (fst kst)" if "kst \<in> set (sort_key fst ds)" for kst
  proof -
    from that have "(fst kst, snd kst) \<in> set ds" by simp
    with d have "map_of ds (fst kst) = Some (snd kst)" by simp
    from c [OF this] show ?thesis by (simp add: point_of_def day_mean_def mean_def)
  qed
  then have "map tp_pass_rate (map point_of (sort_key fst ds)) = map (day_mean W) (map fst (sort_key fst ds))"
    by simp
  with sorted_days [OF assms] show ?thesis by simp
qed

lemma direction_compared:
  assumes "8 \<le> length td"
  shows "direction_of td =
           compared_direction (drop (length td - 7) (map tp_pass_rate td))
             (take (length td - 7) (map tp_pass_rate td))"
proof -
  from assms have "real (min 7 (length td)) = real (length (drop (length td - 7) (map tp_pass_rate td)))"
    and "real (max 1 (length td - 7)) = real (length (take (length td - 7) (map tp_pass_rate td)))"
    by (auto simp: min_def max_def)
  with assms show ?thesis
    by (simp add: direction_of_def compared_direction_def mean_def Let_def drop_map take_map)
qed

lemma direction_insufficient:
  "direction_of td = ''insufficient_data'' \<longleftrightarrow> length td < 2"
  by (simp add: direction_of_def Let_def)

lemma trend_report_window:
  assumes "cutoff_date now days = Inr cutoff"
  shows "generate_trend_report f now h i days =
     (let W = rule_window f cutoff h i
      in if W = []
         then Inr \<lparr> tr_rule_id = i, trend_data = [], average_pass_rate = 0,
                    trend_direction = ''stable'', tr_period_days = None \<rparr>
         else (case collect_daily_stats W [] of
                 Inl e \<Rightarrow> Inl e
               | Inr daily_stats \<Rightarrow>
                  (let td = map point_of (sort_key fst daily_stats);
                       ps = map tp_pass_rate td
                   in Inr \<lparr> tr_rule_id = i, trend_data = td,
                            average_pass_rate = (if ps \<noteq> [] then sum_list ps / real (length ps) else 0),
                            trend_direction = direction_of td, tr_period_days = Some days \<rparr>)))"
  using assms by (simp add: generate_trend_report_def rule_window_def Let_def split: sum.splits)

text \<open>
  C9, as the code has it by design. For a window the clock can reach and entries of the
  rule whose pass rates and record counts are numbers, the report is returned. Its
  daily points are the days on which the entries fall, one point each and in ascending
  order of the date, with the mean pass rate of the day. With no entry in the window
  the direction is stable; it is insufficient_data exactly when there is one daily
  bucket; and from eight buckets on it compares the mean of the seven most recent days
  with the mean of all the days before them: improving when the recent mean is more than
  one point above, declining when it is more than one point below, stable otherwise.
\<close>

theorem trend_direction_classification:
  assumes "cutoff_date now days = Inr cutoff"
    and "W = rule_window f cutoff h i"
    and "\<forall>r\<in>set W. trend_entry r"
  shows "\<exists>rep. generate_trend_report f now h i days = Inr rep
           \<and> map tp_date (trend_data rep) = days_of W
           \<and> map tp_pass_rate (trend_data rep) = map (day_mean W) (days_of W)
           \<and> (W = [] \<longrightarrow> trend_direction rep = ''stable'')
           \<and> (trend_direction rep = ''insufficient_data'' \<longleftrightarrow> length (days_of W) = 1)
           \<and> (8 \<le> length (days_of W) \<longrightarrow>
                trend_direction rep =
                  compared_direction
                    (map (day_mean W) (drop (length (days_of W) - 7) (days_of W)))
                    (map (day_mean W) (take (length (days_of W) - 7) (days_of W))))"
proof (cases "W = []")
  case True
  with assms(2) have "rule_window f cutoff h i = []" by simp
  with True show ?thesis
    by (simp add: trend_report_window [OF assms(1)] days_of_def)
next
  case False
  have "daily_agree [] []" by (simp add: daily_agree_def)
  from collect_daily_agree [OF assms(3) this]
  obtain ds where c: "collect_daily_stats W [] = Inr ds" and a: "daily_agree ds W"
    by auto
  let ?td = "map point_of (sort_key fst ds)"
  let ?ps = "map tp_pass_rate ?td"
  let ?rep = "\<lparr> tr_rule_id = i, trend_data = ?td,
                 average_pass_rate = (if ?ps \<noteq> [] then sum_list ?ps / real (length ?ps) else 0),
                 trend_direction = direction_of ?td, tr_period_days = Some days \<rparr>"
  have r: "generate_trend_report f now h i days = Inr ?rep"
    using False c assms(2) by (simp add: trend_report_window [OF assms(1)] Let_def)
  have dates: "map tp_date ?td = days_of W"
    using sorted_days [OF a] by (simp add: point_of_def comp_def)
  have rates: "?ps = map (day_mean W) (days_of W)"
    using a by (rule day_points)
  from dates have len: "length ?td = length (days_of W)"
    by (metis length_map)
  from False have "set (days_of W) \<noteq> {}"
    by (simp add: days_of_def)
  then have "days_of W \<noteq> []"
    by auto
  then have pos: "0 < length (days_of W)" by simp
  have "direction_of ?td = ''insufficient_data'' \<longleftrightarrow> length ?td < 2"
    by (rule direction_insufficient)
  also have "\<dots> \<longleftrightarrow> length (days_of W) = 1"
    using pos by (simp only: len) arith
  finally have ins: "direction_of ?td = ''insufficient_data'' \<longleftrightarrow> length (days_of W) = 1" .
  have cmp: "direction_of ?td =
               compared_direction
                 (map (day_mean W) (drop (length (days_of W) - 7) (days_of W)))
                 (map (day_mean W) (take (length (days_of W) - 7) (days_of W)))"
    if "8 \<le> length (days_of W)"
  proof -
    from that len have "8 \<le> length ?td" by simp
    from direction_compared [OF this] show ?thesis
      by (simp only: rates len drop_map take_map)
  qed
  obtain rep where g: "generate_trend_report f now h i days = Inr rep"
    and t: "trend_data rep = ?td" and dr: "trend_direction rep = direction_of ?td"
    using r by simp
  show ?thesis
  proof (intro exI [of _ rep] conjI impI)
    show "generate_trend_report f now h i days = Inr rep" by (rule g)
    show "map tp_date (trend_data rep) = days_of W" by (simp only: t dates)
    show "map tp_pass_rate (trend_data rep) = map (day_mean W) (days_of W)" by (simp only: t rates)
    show "trend_direction rep = ''stable''" if "W = []" using that False by simp
    show "trend_direction rep = ''insufficient_data'' \<longleftrightarrow> length (days_of W) = 1"
      by (simp only: dr ins)
    show "trend_direction rep =
            compared_direction
              (map (day_mean W) (drop (length (days_of W) - 7) (days_of W)))
              (map (day_mean W) (take (length (days_of W) - 7) (days_of W)))"
      if "8 \<le> length (days_of W)"
      using cmp [OF that] by (simp only: dr)
  qed
qed

text \<open>
  With no entry in the window there is no daily bucket, fewer than two, and the
  direction is stable, not insufficient_data.
\<close>

theorem no_bucket_is_stable:
  "generate_trend_report (\<lambda>s. None) mid_january [] ''r1'' 30 =
     Inr \<lparr> tr_rule_id = ''r1'', trend_data = [], average_pass_rate = 0,
           trend_direction = ''stable'', tr_period_days = None \<rparr>"
  by (simp add: generate_trend_report_def cutoff_date_def datetime_end_def mid_january_def)

text \<open>
  The examples of the specification, on \<open>direction_of\<close>: seven days at 100 then
  seven at 50 decline, the reverse improves, fourteen equal days are stable.
\<close>

lemma direction_examples:
  "direction_of (points_of [100, 100, 100, 100, 100, 100, 100, 50, 50, 50, 50, 50, 50, 50]) = ''declining''"
  "direction_of (points_of [50, 50, 50, 50, 50, 50, 50, 100, 100, 100, 100, 100, 100, 100]) = ''improving''"
  "direction_of (points_of [90, 90, 90, 90, 90, 90, 90, 90, 90, 90, 90, 90, 90, 90]) = ''stable''"
  "direction_of (points_of [90]) = ''insufficient_data''"
  by (simp_all add: direction_of_def points_of_def Let_def)

text \<open>
  With two to seven daily buckets no earlier point exists: the code divides the empty
  sum by \<open>max(1, 0)\<close> and compares the recent mean with 0, so that equal days come
  out as improving as soon as their rate is above 1. And the report raises on an entry
  of the rule whose pass rate is null, and on a window that reaches back before the
  first year.
\<close>

lemma short_series_compare_with_zero:
  "direction_of (points_of [90, 90, 90]) = ''improving''"
  "direction_of (points_of [90, 80, 70]) = ''improving''"
  by (simp_all add: direction_of_def points_of_def Let_def)

lemma trend_report_raises:
  "generate_trend_report january_2024 mid_january [(day_entry ''02'' 50)\<lparr> h_pass_rate := Some JNull \<rparr>] ''r1'' 30
     = Inl (TypeError ''unsupported operand type(s) for +='')"
  "generate_trend_report january_2024 mid_january [] ''r1'' 1000000
     = Inl (OverflowError ''date value out of range'')"
  by code_simp+

lemma mid_january_cutoff: "cutoff_date mid_january 30 = Inr (86400 * 738869)"
  by (simp add: cutoff_date_def datetime_end_def mid_january_def)

lemma eight_day_window:
  "rule_window january_2024 (86400 * 738869) eight_day_history ''r1'' = eight_day_history"
  by (simp add: rule_window_def eight_day_history_def day_entry_def in_window_def january_2024_def)

lemma eight_days:
  "days_of eight_day_history =
     [''2024-01-01'', ''2024-01-02'', ''2024-01-03'', ''2024-01-04'',
      ''2024-01-05'', ''2024-01-06'', ''2024-01-07'', ''2024-01-08'']"
  by code_simp

lemma eight_day_means:
  "map (day_mean eight_day_history)
     [''2024-01-01'', ''2024-01-02'', ''2024-01-03'', ''2024-01-04'',
      ''2024-01-05'', ''2024-01-06'', ''2024-01-07'', ''2024-01-08'']
   = [100, 50, 50, 50, 50, 50, 50, 50]"
  by (simp add: day_mean_def eight_day_history_def day_entry_def date_str_of_def mean_def
      pass_rate_or_zero_def number_of_def)

theorem trend_direction_classification_witness:
  "(\<exists>rep. generate_trend_report january_2024 mid_january eight_day_history ''r1'' 30 = Inr rep
       \<and> map tp_date (trend_data rep) =
           [''2024-01-01'', ''2024-01-02'', ''2024-01-03'', ''2024-01-04'',
            ''2024-01-05'', ''2024-01-06'', ''2024-01-07'', ''2024-01-08'']
       \<and> map tp_pass_rate (trend_data rep) = [100, 50, 50, 50, 50, 50, 50, 50]
       \<and> trend_direction rep = ''declining'')
   \<and> (\<exists>rep. generate_trend_report january_2024 mid_january [day_entry ''02'' 50, day_entry ''02'' 70] ''r1'' 30
              = Inr rep
       \<and> map tp_date (trend_data rep) = [''2024-01-02'']
       \<and> map tp_pass_rate (trend_data rep) = [60]
       \<and> trend_direction rep = ''insufficient_data'')"
proof -
  have k: "\<forall>r\<in>set eight_day_history. trend_entry r"
    by (simp add: eight_day_history_def day_entry_def trend_entry_def numeric_or_absent_def)
  have cd: "compared_direction [50, 50, 50, 50, 50, 50, 50] [100] = ''declining''"
    by (simp add: compared_direction_def mean_def)
  from trend_direction_classification [OF mid_january_cutoff eight_day_window [symmetric] k]
  obtain rep where g: "generate_trend_report january_2024 mid_january eight_day_history ''r1'' 30 = Inr rep"
    and dt: "map tp_date (trend_data rep) = days_of eight_day_history"
    and pr: "map tp_pass_rate (trend_data rep) = map (day_mean eight_day_history) (days_of eight_day_history)"
    and cmp: "8 \<le> length (days_of eight_day_history) \<longrightarrow>
                trend_direction rep =
                  compared_direction
                    (map (day_mean eight_day_history)
                       (drop (length (days_of eight_day_history) - 7) (days_of eight_day_history)))
                    (map (day_mean eight_day_history)
                       (take (length (days_of eight_day_history) - 7) (days_of eight_day_history)))"
    by blast
  from eight_day_means have ms:
    "map (day_mean eight_day_history)
       [''2024-01-02'', ''2024-01-03'', ''2024-01-04'',
        ''2024-01-05'', ''2024-01-06'', ''2024-01-07'', ''2024-01-08''] = [50, 50, 50, 50, 50, 50, 50]"
    "map (day_mean eight_day_history) [''2024-01-01''] = [100]"
    by simp_all
  from cmp have "trend_direction rep = compared_direction [50, 50, 50, 50, 50, 50, 50] [100]"
    unfolding eight_days by (simp add: ms del: list.map)
  with cd have dir: "trend_direction rep = ''declining''" by simp
  from pr have pr': "map tp_pass_rate (trend_data rep) = [100, 50, 50, 50, 50, 50, 50, 50]"
    unfolding eight_days by (simp only: eight_day_means)
  from dt have dt': "map tp_date (trend_data rep) =
           [''2024-01-01'', ''2024-01-02'', ''2024-01-03'', ''2024-01-04'',
            ''2024-01-05'', ''2024-01-06'', ''2024-01-07'', ''2024-01-08'']"
    by (simp only: eight_days)
  have 1: "\<exists>rep. generate_trend_report january_2024 mid_january eight_day_history ''r1'' 30 = Inr rep
       \<and> map tp_date (trend_data rep) =
           [''2024-01-01'', ''2024-01-02'', ''2024-01-03'', ''2024-01-04'',
            ''2024-01-05'', ''2024-01-06'', ''2024-01-07'', ''2024-01-08'']
       \<and> map tp_pass_rate (trend_data rep) = [100, 50, 50, 50, 50, 50, 50, 50]
       \<and> trend_direction rep = ''declining''"
    by (rule exI [of _ rep]) (simp only: g dt' pr' dir simp_thms)
  let ?W = "[day_entry ''02'' 50, day_entry ''02'' 70]"
  have w2: "?W = rule_window january_2024 (86400 * 738869) ?W ''r1''"
    by (simp add: rule_window_def day_entry_def in_window_def january_2024_def)
  have k2: "\<forall>r\<in>set ?W. trend_entry r"
    by (simp add: day_entry_def trend_entry_def numeric_or_absent_def)
  have d2: "days_of ?W = [''2024-01-02'']"
    by (simp add: days_of_def day_entry_def date_str_of_def)
  have m2: "day_mean ?W ''2024-01-02'' = 60"
    by (simp add: day_mean_def day_entry_def date_str_of_def mean_def pass_rate_or_zero_def number_of_def)
  from trend_direction_classification [OF mid_january_cutoff w2 k2]
  obtain rep2 where g2: "generate_trend_report january_2024 mid_january ?W ''r1'' 30 = Inr rep2"
    and dt2: "map tp_date (trend_data rep2) = days_of ?W"
    and pr2: "map tp_pass_rate (trend_data rep2) = map (day_mean ?W) (days_of ?W)"
    and ins: "trend_direction rep2 = ''insufficient_data'' \<longleftrightarrow> length (days_of ?W) = 1"
    by blast
  from ins have dir2: "trend_direction rep2 = ''insufficient_data''"
    by (simp only: d2) simp
  from pr2 have pr2': "map tp_pass_rate (trend_data rep2) = [60]"
    by (simp only: d2 list.map m2)
  from dt2 have dt2': "map tp_date (trend_data rep2) = [''2024-01-02'']"
    by (simp only: d2)
  have 2: "\<exists>rep. generate_trend_report january_2024 mid_january ?W ''r1'' 30 = Inr rep
       \<and> map tp_date (trend_data rep) = [''2024-01-02'']
       \<and> map tp_pass_rate (trend_data rep) = [60]
       \<and> trend_direction rep = ''insufficient_data''"
    by (rule exI [of _ rep2]) (simp only: g2 dt2' pr2' dir2 simp_thms)
  from 1 2 show ?thesis by (rule conjI)
qed


section \<open>Summary reports\<close>

lemma bump_rule_keys:
  assumes "py_key k = k" and "\<forall>k'\<in>set (map fst acc). py_key k' = k'"
  shows "map fst (bump_rule_stats k nm p failed acc)
           = (if k \<in> set (map fst acc) then map fst acc else map fst acc @ [k])"
  using assms by (induction acc) force+

lemma bump_rule_other:
  assumes "py_key k = k" and "\<forall>k'\<in>set (map fst acc). py_key k' = k'" and "k' \<noteq> k"
  shows "map_of (bump_rule_stats k nm p failed acc) k' = map_of acc k'"
  using assms by (induction acc) auto

lemma bump_rule_same:
  assumes "py_key k = k" and "\<forall>k'\<in>set (map fst acc). py_key k' = k'"
  shows "map_of (bump_rule_stats k nm p failed acc) k =
     Some (case map_of acc k of
             None \<Rightarrow> \<lparr> rs_rule_name = nm, rs_total_executions = 1,
                       rs_total_pass_rate = 0 + p,
                       rs_failure_count = (if failed then 1 else 0) \<rparr>
           | Some st \<Rightarrow> st\<lparr> rs_total_executions := rs_total_executions st + 1,
                            rs_total_pass_rate := rs_total_pass_rate st + p,
                            rs_failure_count := rs_failure_count st + (if failed then 1 else 0) \<rparr>)"
  using assms by (induction acc) auto

lemma stats_agree_bump:
  assumes "stats_agree acc seen" and "h_rule_id r = Some k" and "py_key k = k"
    and "\<forall>k'\<in>set (map fst acc). py_key k' = k'"
  shows "stats_agree (bump_rule_stats k nm p (not_passed r) acc) (seen @ [r])"
proof -
  let ?acc = "bump_rule_stats k nm p (not_passed r) acc"
  note pk = assms(3,4)
  from assms(1) have d: "distinct (map fst acc)"
    and s: "set (map fst acc) = {k. Some k \<in> h_rule_id ` set seen}"
    and c: "\<And>k st. map_of acc k = Some st \<Longrightarrow>
              rs_total_executions st = executions_of seen k \<and> rs_failure_count st = failures_of seen k"
    by (auto simp: stats_agree_def)
  have d': "distinct (map fst ?acc)"
    using d by (simp add: bump_rule_keys [OF pk])
  have s': "set (map fst ?acc) = {k. Some k \<in> h_rule_id ` set (seen @ [r])}"
    using s assms(2) by (auto simp: bump_rule_keys [OF pk])
  have c': "rs_total_executions st = executions_of (seen @ [r]) k'
            \<and> rs_failure_count st = failures_of (seen @ [r]) k'"
    if m: "map_of ?acc k' = Some st" for k' st
  proof (cases "k' = k")
    case False
    with m have "map_of acc k' = Some st" by (simp add: bump_rule_other [OF pk])
    from c [OF this] False assms(2) show ?thesis
      by (simp add: executions_of_def failures_of_def)
  next
    case True
    show ?thesis
    proof (cases "map_of acc k")
      case None
      then have "k \<notin> set (map fst acc)" by (simp add: map_of_eq_None_iff)
      with s have "Some k \<notin> h_rule_id ` set seen" by simp
      then have z: "filter (\<lambda>r. h_rule_id r = Some k) seen = []"
        "filter (\<lambda>r. h_rule_id r = Some k \<and> not_passed r) seen = []"
        by (auto simp: filter_empty_conv image_iff)
      from m True None have "st = \<lparr> rs_rule_name = nm, rs_total_executions = 1,
                       rs_total_pass_rate = 0 + p,
                       rs_failure_count = (if not_passed r then 1 else 0) \<rparr>"
        by (simp add: bump_rule_same [OF pk])
      with z True assms(2) show ?thesis
        by (simp add: executions_of_def failures_of_def)
    next
      case (Some st0)
      from m True Some have "st = st0\<lparr> rs_total_executions := rs_total_executions st0 + 1,
                            rs_total_pass_rate := rs_total_pass_rate st0 + p,
                            rs_failure_count := rs_failure_count st0 + (if not_passed r then 1 else 0) \<rparr>"
        by (simp add: bump_rule_same [OF pk])
      with c [OF Some] True assms(2) show ?thesis
        by (simp add: executions_of_def failures_of_def)
    qed
  qed
  from d' s' c' show ?thesis unfolding stats_agree_def by blast
qed

lemma summary_entry_fields:
  assumes "summary_entry r"
  shows "\<exists>k nm p. h_rule_id r = Some (JStr k) \<and> h_rule_name r = Some nm
                  \<and> number_or_zero (h_pass_rate r) = Inr p"
  using assms
  by (auto simp: summary_entry_def is_string_def numeric_or_absent_def number_or_zero_def
      split: option.splits json.splits)

lemma collect_rule_stats_agree:
  assumes "\<forall>r\<in>set rs. summary_entry r"
    and "stats_agree acc seen"
    and "\<forall>k'\<in>set (map fst acc). py_key k' = k'"
  shows "\<exists>acc'. collect_rule_stats rs acc = Inr acc' \<and> stats_agree acc' (seen @ rs)"
  using assms
proof (induction rs arbitrary: acc seen)
  case Nil
  then show ?case by simp
next
  case (Cons r rs)
  from Cons.prems(1) have "summary_entry r" by simp
  from summary_entry_fields [OF this] obtain k nm p where
    k: "h_rule_id r = Some (JStr k)" and nm: "h_rule_name r = Some nm"
    and p: "number_or_zero (h_pass_rate r) = Inr p"
    by blast
  have pk: "py_key (JStr k) = JStr k" by simp
  let ?acc = "bump_rule_stats (JStr k) nm p (not_passed r) acc"
  have a: "stats_agree ?acc (seen @ [r])"
    using Cons.prems(2) k pk Cons.prems(3) by (rule stats_agree_bump)
  have b: "\<forall>k'\<in>set (map fst ?acc). py_key k' = k'"
    using Cons.prems(3) by (auto simp: bump_rule_keys [OF pk Cons.prems(3)] split: if_splits)
  from Cons.IH [OF _ a b] Cons.prems(1) k nm p show ?case by simp
qed

lemma rule_ids_strings:
  "\<forall>r\<in>set W. summary_entry r \<Longrightarrow> \<exists>ids. rule_ids W = Inr ids"
proof (induction W)
  case Nil
  show ?case by simp
next
  case (Cons r W)
  from Cons.prems have "summary_entry r" by simp
  from summary_entry_fields [OF this] obtain k where k: "h_rule_id r = Some (JStr k)" by blast
  from Cons.IH Cons.prems obtain ids where "rule_ids W = Inr ids" by auto
  with k show ?case by simp
qed

lemma py_sum_numbers:
  "\<forall>v\<in>set vs. json_number v \<noteq> None \<Longrightarrow> py_sum acc vs = Inr (acc + sum_list (map number_of vs))"
  by (induction vs arbitrary: acc) (auto simp: number_of_def)

lemma summary_pass_rates:
  assumes "\<forall>r\<in>set W. summary_entry r"
  shows "\<forall>v\<in>set (List.map_filter h_pass_rate W). json_number v \<noteq> None"
  using assms
  by (auto simp: List.map_filter_def summary_entry_def numeric_or_absent_def)

lemma sorted_descending:
  "sorted_wrt (\<lambda>a b. i_failure_rate a \<ge> i_failure_rate b) (sort_key (\<lambda>i. - i_failure_rate i) xs)"
proof -
  have "sorted (map (\<lambda>i. - i_failure_rate i) (sort_key (\<lambda>i. - i_failure_rate i) xs))"
    by (rule sorted_sort_key)
  then show ?thesis by (simp add: sorted_map)
qed

lemma summary_report_window:
  assumes "cutoff_date now days = Inr cutoff"
    and "\<forall>r\<in>set (summary_window f cutoff h). summary_entry r"
    and "summary_window f cutoff h \<noteq> []" and "days \<noteq> 0"
    and "collect_rule_stats (summary_window f cutoff h) [] = Inr rule_stats"
  shows "\<exists>n. generate_summary_report f now h days =
           Inr \<lparr> overall_score = min 100 (mean_pass_rate (summary_window f cutoff h) * 0.8
                                     + (real (length (summary_window f cutoff h)) / real_of_int (days * 10)) * 0.2),
                 total_rules = n,
                 avg_pass_rate = (if map issue_of rule_stats = [] then mean_pass_rate (summary_window f cutoff h)
                                  else i_avg_pass_rate (last (map issue_of rule_stats))),
                 total_executions = length (summary_window f cutoff h),
                 top_issues = sort_key (\<lambda>i. - i_failure_rate i) (map issue_of rule_stats),
                 period_days = Some days, generated_at = Some now \<rparr>"
proof -
  let ?W = "summary_window f cutoff h"
  from rule_ids_strings [OF assms(2)] obtain ids where i: "rule_ids ?W = Inr ids" by blast
  from py_sum_numbers [OF summary_pass_rates [OF assms(2)], of 0]
  have s: "py_sum 0 (List.map_filter h_pass_rate ?W)
             = Inr (sum_list (map number_of (List.map_filter h_pass_rate ?W)))"
    by simp
  have w: "filter (in_window f cutoff) h = ?W" by (simp add: summary_window_def)
  show ?thesis
    using assms(1,3,4,5) i s
    by (simp add: generate_summary_report_def w mean_pass_rate_def mean_def Let_def)
qed

text \<open>
  C8, as the code has it. For a window the clock can reach: with no entry inside the
  window the report is the all-zero report with an empty issue list. With entries
  inside the window that all carry a rule id that is a string, a rule name and a pass
  rate that is a number where it is present, and a window of days other than 0, the
  report is returned, its overall score is min(100, mean pass rate * 0.8 + (executions /
  (days * 10)) * 0.2) with the mean taken over the entries in the window, and its top
  issues are one per rule, in descending order of the failure rate, which is failed
  executions / executions * 100 of that rule.
\<close>

theorem summary_report_contract:
  assumes "cutoff_date now days = Inr cutoff"
    and "W = summary_window f cutoff h"
  shows "(W = [] \<longrightarrow> generate_summary_report f now h days = Inr empty_summary)
   \<and> (W \<noteq> [] \<and> days \<noteq> 0 \<and> (\<forall>r\<in>set W. summary_entry r)
      \<longrightarrow> (\<exists>rep. generate_summary_report f now h days = Inr rep
             \<and> overall_score rep =
                 min 100 (mean_pass_rate W * 0.8 + (real (length W) / real_of_int (days * 10)) * 0.2)
             \<and> sorted_wrt (\<lambda>a b. i_failure_rate a \<ge> i_failure_rate b) (top_issues rep)
             \<and> distinct (map i_rule_id (top_issues rep))
             \<and> set (map i_rule_id (top_issues rep)) = {k. Some k \<in> h_rule_id ` set W}
             \<and> (\<forall>i\<in>set (top_issues rep).
                   i_failure_rate i =
                     real (failures_of W (i_rule_id i)) / real (executions_of W (i_rule_id i)) * 100)))"
  (is "(?E \<longrightarrow> ?Z) \<and> (?P \<longrightarrow> ?Q)")
proof (rule conjI; rule impI)
  assume ?E
  with assms show ?Z by (simp add: generate_summary_report_def summary_window_def)
next
  assume p: ?P
  from p have ne: "W \<noteq> []" and d0: "days \<noteq> 0" and keys: "\<forall>r\<in>set W. summary_entry r"
    by simp_all
  have "stats_agree [] []" by (simp add: stats_agree_def)
  from collect_rule_stats_agree [OF keys this]
  obtain st where c: "collect_rule_stats W [] = Inr st" and a: "stats_agree st W"
    by auto
  let ?top = "sort_key (\<lambda>i. - i_failure_rate i) (map issue_of st)"
  from summary_report_window [OF assms(1), of f h st] keys ne d0 c assms(2)
  obtain rep where r: "generate_summary_report f now h days = Inr rep"
    and sc: "overall_score rep =
               min 100 (mean_pass_rate W * 0.8 + (real (length W) / real_of_int (days * 10)) * 0.2)"
    and tp: "top_issues rep = ?top"
    by auto
  have ids: "map i_rule_id (map issue_of st) = map fst st"
    by (simp add: issue_of_def comp_def)
  from a have dst: "distinct (map fst st)"
    and sst: "set (map fst st) = {k. Some k \<in> h_rule_id ` set W}"
    and cst: "\<And>k s. map_of st k = Some s \<Longrightarrow>
               rs_total_executions s = executions_of W k \<and> rs_failure_count s = failures_of W k"
    by (auto simp: stats_agree_def)
  have q1: "sorted_wrt (\<lambda>a b. i_failure_rate a \<ge> i_failure_rate b) ?top"
    by (rule sorted_descending)
  have m: "mset (map i_rule_id ?top) = mset (map fst st)"
    using ids by (metis mset_map mset_sort)
  have q2: "distinct (map i_rule_id ?top)"
    using m dst by (metis mset_eq_imp_distinct_iff)
  have q3: "set (map i_rule_id ?top) = {k. Some k \<in> h_rule_id ` set W}"
    using m sst by (metis mset_eq_setD)
  have q4: "\<forall>i\<in>set ?top. i_failure_rate i =
               real (failures_of W (i_rule_id i)) / real (executions_of W (i_rule_id i)) * 100"
  proof
    fix i assume "i \<in> set ?top"
    then have "i \<in> set (map issue_of st)" by simp
    then obtain k s where ks: "(k, s) \<in> set st" and i: "i = issue_of (k, s)" by auto
    from ks dst have "map_of st k = Some s" by simp
    from cst [OF this] i show "i_failure_rate i =
               real (failures_of W (i_rule_id i)) / real (executions_of W (i_rule_id i)) * 100"
      by (simp add: issue_of_def)
  qed
  show ?Q
    using r sc q1 q2 q3 q4 by (intro exI [of _ rep]) (simp only: tp simp_thms)
qed

text \<open>
  The report raises on an entry inside the window that has no rule id, on a window of 0
  days that holds an entry, on a window of a million days, which reaches back before the
  first year, and on an entry inside the window whose pass rate is null.
\<close>

theorem summary_report_raises:
  "generate_summary_report january_2024 mid_january [(day_entry ''02'' 50)\<lparr> h_rule_id := None \<rparr>] 30
     = Inl (KeyError ''rule_id'')
   \<and> generate_summary_report january_2024 mid_january [day_entry ''20'' 50] 0
     = Inl (ZeroDivisionError ''division by zero'')
   \<and> generate_summary_report january_2024 mid_january [] 1000000
     = Inl (OverflowError ''date value out of range'')
   \<and> generate_summary_report january_2024 mid_january [(day_entry ''02'' 50)\<lparr> h_pass_rate := Some JNull \<rparr>] 30
     = Inl (TypeError ''unsupported operand type(s) for +'')"
  by code_simp

text \<open>The entries that \<open>record_execution_result\<close> writes have the shape both reports ask for.\<close>

lemma recorded_entry_shape: "summary_entry (entry_of d)" "trend_entry (entry_of d)"
  by (simp_all add: entry_of_def summary_entry_def trend_entry_def is_string_def numeric_or_absent_def)

theorem summary_report_contract_witness:
  "generate_summary_report january_2024 mid_january [] 30 = Inr empty_summary
   \<and> (\<exists>rep. generate_summary_report january_2024 mid_january summary_history 30 = Inr rep
          \<and> overall_score rep = 64.002
          \<and> map i_rule_id (top_issues rep) = [JStr ''r2'', JStr ''r1'']
          \<and> map i_failure_rate (top_issues rep) = [100, 0]
          \<and> sorted_wrt (\<lambda>a b. i_failure_rate a \<ge> i_failure_rate b) (top_issues rep))"
proof -
  have e: "[] = summary_window january_2024 (86400 * 738869) []"
    by (simp add: summary_window_def)
  have w: "summary_history = summary_window january_2024 (86400 * 738869) summary_history"
    by (simp add: summary_window_def summary_history_def day_entry_def in_window_def january_2024_def)
  have k: "\<forall>r\<in>set summary_history. summary_entry r"
    by (simp add: summary_history_def day_entry_def summary_entry_def is_string_def numeric_or_absent_def)
  have n: "summary_history \<noteq> []" by (simp add: summary_history_def)
  have v: "generate_summary_report january_2024 mid_january summary_history 30 =
     Inr \<lparr> overall_score = 64.002, total_rules = 2, avg_pass_rate = 70, total_executions = 3,
           top_issues =
             [\<lparr> i_rule_name = JStr ''email_shape'', i_rule_id = JStr ''r2'', i_avg_pass_rate = 70,
                 i_failure_rate = 100, i_executions = 2 \<rparr>,
              \<lparr> i_rule_name = JStr ''temp_range'', i_rule_id = JStr ''r1'', i_avg_pass_rate = 100,
                 i_failure_rate = 0, i_executions = 1 \<rparr>],
           period_days = Some 30, generated_at = Some mid_january \<rparr>"
    by code_simp
  from summary_report_contract [OF mid_january_cutoff e]
  have a: "generate_summary_report january_2024 mid_january [] 30 = Inr empty_summary" by simp
  from summary_report_contract [OF mid_january_cutoff w] k n
  obtain rep where r: "generate_summary_report january_2024 mid_january summary_history 30 = Inr rep"
    and s: "sorted_wrt (\<lambda>a b. i_failure_rate a \<ge> i_failure_rate b) (top_issues rep)"
    by auto
  from r v have "rep = \<lparr> overall_score = 64.002, total_rules = 2, avg_pass_rate = 70, total_executions = 3,
           top_issues =
             [\<lparr> i_rule_name = JStr ''email_shape'', i_rule_id = JStr ''r2'', i_avg_pass_rate = 70,
                 i_failure_rate = 100, i_executions = 2 \<rparr>,
              \<lparr> i_rule_name = JStr ''temp_range'', i_rule_id = JStr ''r1'', i_avg_pass_rate = 100,
                 i_failure_rate = 0, i_executions = 1 \<rparr>],
           period_days = Some 30, generated_at = Some mid_january \<rparr>" by simp
  with a r s show ?thesis by simp
qed


section \<open>The queries of a value-range rule\<close>

lemma sql_lex_append:
  "\<not> is_word_char c \<Longrightarrow> sql_lex w (xs @ c # ys) = sql_lex w xs @ sql_lex [] (c # ys)"
  by (induction xs arbitrary: w) auto

lemma space_not_word: "is_space c \<Longrightarrow> \<not> is_word_char c"
  unfolding is_space_def is_word_char_def by auto

lemma sql_lex_only_spaces:
  "\<forall>c\<in>set ws. is_space c \<Longrightarrow> sql_lex w ws = sql_lex w []"
proof (induction ws arbitrary: w)
  case Nil
  show ?case by simp
next
  case (Cons a ws)
  from Cons.prems have a: "is_space a" and r: "\<forall>c\<in>set ws. is_space c" by simp_all
  from a have n: "\<not> is_word_char a" by (rule space_not_word)
  from Cons.IH [OF r, of "[]"] a n show ?case by simp
qed

lemma sql_lex_spaces:
  "\<forall>c\<in>set ws. is_space c \<Longrightarrow> sql_lex w (xs @ ws) = sql_lex w xs"
proof (induction xs arbitrary: w)
  case Nil
  then show ?case by (simp add: sql_lex_only_spaces)
next
  case (Cons a xs)
  from Cons.IH [OF Cons.prems] show ?case by simp
qed

lemma sql_lex_leading:
  "sql_lex [] (dropWhile is_space xs) = sql_lex [] xs"
proof (induction xs)
  case Nil
  show ?case by simp
next
  case (Cons a xs)
  show ?case
  proof (cases "is_space a")
    case True
    with space_not_word [OF True] Cons show ?thesis by simp
  next
    case False
    then show ?thesis by simp
  qed
qed

lemma sql_tokens_strip: "sql_tokens (py_strip s) = sql_tokens s"
proof -
  let ?t = "dropWhile is_space s"
  let ?core = "rev (dropWhile is_space (rev ?t))"
  let ?tail = "rev (takeWhile is_space (rev ?t))"
  have "rev (takeWhile is_space (rev ?t) @ dropWhile is_space (rev ?t)) = rev (rev ?t)"
    by (simp only: takeWhile_dropWhile_id)
  then have eq: "?core @ ?tail = ?t"
    by (simp only: rev_append rev_rev_ident)
  have sp: "\<forall>c\<in>set ?tail. is_space c"
    by (auto dest: set_takeWhileD)
  have "sql_lex [] (?core @ ?tail) = sql_lex [] ?core"
    using sp by (rule sql_lex_spaces)
  then have "sql_lex [] ?t = sql_lex [] ?core"
    by (simp only: eq)
  then have "sql_lex [] ?core = sql_lex [] s"
    by (simp only: sql_lex_leading)
  then show ?thesis
    by (simp only: sql_tokens_def py_strip_def)
qed

lemma nw: "\<not> is_word_char (CHR ''\<newline>'')" "\<not> is_word_char (CHR '' '')"
  "\<not> is_word_char (CHR ''('')" "\<not> is_word_char (CHR '')'')" "\<not> is_word_char (CHR '','')"
  by (simp_all add: is_word_char_def)

lemma vr_tokens:
  "sql_tokens (value_range_validation_sql tbl col lo hi) =
     [''SELECT'', ''*'', ''FROM''] @ sql_tokens tbl @ [''WHERE''] @ sql_tokens col @ [''IS'', ''NOT'', ''NULL'', ''AND'', ''(''] @
     sql_tokens col @ [''<''] @ sql_tokens lo @ [''OR''] @ sql_tokens col @ [''>''] @ sql_tokens hi @ ['')'', ''LIMIT'', ''1000'']"
  by (simp add: value_range_validation_sql_def sql_tokens_def sql_lex_append nw is_word_char_def is_space_def)

lemma digits_1000: "digits 1000 = ''1000''"
  by code_simp

lemma nn_tokens:
  "sql_tokens (not_null_count_sql tbl col) =
     [''SELECT'', ''COUNT'', ''('', ''*'', '')'', ''as'', ''total_count'', ''FROM''] @ sql_tokens tbl
     @ [''WHERE''] @ sql_tokens col @ [''IS'', ''NOT'', ''NULL'']"
  by (simp add: not_null_count_sql_def sql_tokens_def sql_lex_append nw is_word_char_def is_space_def)

lemma unsigned_integer_number:
  "CHR ''.'' \<notin> set s \<Longrightarrow> unsigned_number s = map_option real (unsigned_integer s)"
proof -
  assume n: "CHR ''.'' \<notin> set s"
  then have t: "takeWhile (\<lambda>c. c \<noteq> CHR ''.'') s = s" and d: "dropWhile (\<lambda>c. c \<noteq> CHR ''.'') s = []"
    by (auto simp: takeWhile_eq_all_conv)
  show ?thesis
    by (simp add: unsigned_number_def unsigned_integer_def t d Let_def split: option.splits)
qed

lemma sql_literal_number: "map_option num_of (sql_literal s) = sql_number s"
proof (cases "CHR ''.'' \<in> set s")
  case True
  then show ?thesis by (simp add: sql_literal_def option.map_comp comp_def option.map_ident)
next
  case False
  show ?thesis
  proof (cases s)
    case Nil
    then show ?thesis by (simp add: sql_literal_def sql_integer_def sql_number_def)
  next
    case (Cons c cs)
    from False Cons have "CHR ''.'' \<notin> set cs" by simp
    from unsigned_integer_number [OF this] unsigned_integer_number [OF False] False Cons
    show ?thesis
      by (simp add: sql_literal_def sql_integer_def sql_number_def option.map_comp comp_def)
  qed
qed

lemma sql_literal_value: "sql_number s = Some x \<Longrightarrow> \<exists>v. sql_literal s = Some v \<and> num_of v = x"
  using sql_literal_number [of s] by (cases "sql_literal s") auto

lemma value_range_selected:
  assumes "sql_number lo = Some a" and "sql_number hi = Some b"
  shows "eval_cond r (Conj (IsNotNull (Col col)) (Disj (Less (Col col) (Lit lo)) (Greater (Col col) (Lit hi)))) = Some True
         \<longleftrightarrow> (\<exists>v. r col = Some v \<and> (num_of v < a \<or> num_of v > b))"
proof -
  from sql_literal_value [OF assms(1)] obtain va where a: "sql_literal lo = Some va" "num_of va = a"
    by blast
  from sql_literal_value [OF assms(2)] obtain vb where b: "sql_literal hi = Some vb" "num_of vb = b"
    by blast
  from a b show ?thesis
    by (cases "r col") (auto simp: kleene_and_def kleene_or_def)
qed

text \<open>
  C5. For a value-range rule on a column, with bounds that print as the numbers lo and
  hi: the validation query is, token for token, SELECT * FROM the table WHERE the column
  IS NOT NULL AND (column < min OR column > max) LIMIT 1000, and the count query is
  SELECT COUNT(*) as total_count FROM the table WHERE the column IS NOT NULL. The
  validation query returns the first 1000 of the rows whose value is not NULL and is
  less than lo or greater than hi; the count query counts the rows whose value is not
  NULL. No returned row has a NULL value, and with lo at most hi no returned row has the
  value lo or the value hi. The values of the column are integers or real numbers and
  compare by their numbers.
\<close>

theorem value_range_queries:
  assumes "rule_type rule = ''value_range''"
    and "column (config rule) = Some col"
    and "parameters (config rule) ''min_value'' = Some min_val"
    and "parameters (config rule) ''max_value'' = Some max_val"
    and "sql_number (py_str min_val) = Some lo"
    and "sql_number (py_str max_val) = Some hi"
    and "failures = value_range_failures (table (config rule)) col (py_str min_val) (py_str max_val)"
    and "counted = not_null_count (table (config rule)) col"
  shows "\<exists>vq cq. generate_validation_sql database_type rule = Inr (vq, cq)
           \<and> sql_tokens vq = query_tokens failures
           \<and> sql_tokens cq = query_tokens counted
           \<and> run_rows db failures =
               take 1000 (filter (\<lambda>r. \<exists>v. r col = Some v \<and> (num_of v < lo \<or> hi < num_of v))
                            (db (table (config rule))))
           \<and> run_count db counted = length (filter (\<lambda>r. r col \<noteq> None) (db (table (config rule))))
           \<and> (\<forall>r\<in>set (run_rows db failures). r col \<noteq> None)
           \<and> (lo \<le> hi \<longrightarrow>
                (\<forall>r\<in>set (run_rows db failures). \<forall>v. r col = Some v \<longrightarrow> num_of v \<noteq> lo \<and> num_of v \<noteq> hi))"
proof -
  let ?t = "table (config rule)"
  let ?vq = "py_strip (value_range_validation_sql ?t col (py_str min_val) (py_str max_val))"
  let ?cq = "py_strip (not_null_count_sql ?t col)"
  have g: "generate_validation_sql database_type rule = Inr (?vq, ?cq)"
    using assms(1-4)
    by (simp add: generate_validation_sql_def generate_value_range_sql_def param_def Let_def)
  have tv: "sql_tokens ?vq = query_tokens failures"
    by (simp add: sql_tokens_strip vr_tokens assms(7) value_range_failures_def digits_1000)
  have tc: "sql_tokens ?cq = query_tokens counted"
    by (simp add: sql_tokens_strip nn_tokens assms(8) not_null_count_def)
  have sel: "selected (Conj (IsNotNull (Col col))
                (Disj (Less (Col col) (Lit (py_str min_val))) (Greater (Col col) (Lit (py_str max_val))))) rows
             = filter (\<lambda>r. \<exists>v. r col = Some v \<and> (num_of v < lo \<or> hi < num_of v)) rows" for rows
    unfolding selected_def
    by (rule filter_cong [OF refl]) (simp only: value_range_selected [OF assms(5) assms(6)])
  have rr: "run_rows db failures =
              take 1000 (filter (\<lambda>r. \<exists>v. r col = Some v \<and> (num_of v < lo \<or> hi < num_of v)) (db ?t))"
    by (simp add: assms(7) value_range_failures_def sel)
  have rc: "run_count db counted = length (filter (\<lambda>r. r col \<noteq> None) (db ?t))"
    by (simp add: assms(8) not_null_count_def selected_def)
  have nn: "\<forall>r\<in>set (run_rows db failures). r col \<noteq> None"
    unfolding rr by (auto dest!: in_set_takeD)
  have bd: "lo \<le> hi \<longrightarrow>
              (\<forall>r\<in>set (run_rows db failures). \<forall>v. r col = Some v \<longrightarrow> num_of v \<noteq> lo \<and> num_of v \<noteq> hi)"
    unfolding rr by (auto dest!: in_set_takeD)
  from g tv tc rr rc nn bd show ?thesis by blast
qed

theorem value_range_queries_witness:
  "(\<exists>vq cq. generate_validation_sql ''sqlite'' range_rule = Inr (vq, cq)
       \<and> sql_tokens vq = [''SELECT'', ''*'', ''FROM'', ''readings'', ''WHERE'', ''temp'', ''IS'', ''NOT'', ''NULL'',
                           ''AND'', ''('', ''temp'', ''<'', ''-'', ''10'', ''OR'', ''temp'', ''>'', ''50'', '')'',
                           ''LIMIT'', ''1000'']
       \<and> sql_tokens cq = [''SELECT'', ''COUNT'', ''('', ''*'', '')'', ''as'', ''total_count'', ''FROM'',
                           ''readings'', ''WHERE'', ''temp'', ''IS'', ''NOT'', ''NULL''])
   \<and> map (\<lambda>r. r ''temp'') (run_rows readings_db (value_range_failures ''readings'' ''temp'' ''-10'' ''50''))
       = [Some (VInt 51), Some (VInt (- 11)), Some (VReal (101 / 2))]
   \<and> run_count readings_db (not_null_count ''readings'' ''temp'') = 5"
proof -
  have p: "py_str (PInt (- 10)) = ''-10''" "py_str (PInt 50) = ''50''"
    by code_simp+
  have n: "sql_number ''-10'' = Some (- 10)" "sql_number ''50'' = Some 50"
    by (simp_all add: sql_number_def unsigned_number_def digit_of_def)
  have q: "query_tokens (value_range_failures ''readings'' ''temp'' ''-10'' ''50'') =
             [''SELECT'', ''*'', ''FROM'', ''readings'', ''WHERE'', ''temp'', ''IS'', ''NOT'', ''NULL'',
              ''AND'', ''('', ''temp'', ''<'', ''-'', ''10'', ''OR'', ''temp'', ''>'', ''50'', '')'',
              ''LIMIT'', ''1000'']"
    "query_tokens (not_null_count ''readings'' ''temp'') =
             [''SELECT'', ''COUNT'', ''('', ''*'', '')'', ''as'', ''total_count'', ''FROM'',
              ''readings'', ''WHERE'', ''temp'', ''IS'', ''NOT'', ''NULL'']"
    by code_simp+
  have r: "rule_type range_rule = ''value_range''" "column (config range_rule) = Some ''temp''"
    "parameters (config range_rule) ''min_value'' = Some (PInt (- 10))"
    "parameters (config range_rule) ''max_value'' = Some (PInt 50)"
    "table (config range_rule) = ''readings''"
    by (simp_all add: range_rule_def)
  from value_range_queries [of range_rule "''temp''" "PInt (- 10)" "PInt 50" "- 10" 50
        "value_range_failures ''readings'' ''temp'' ''-10'' ''50''"
        "not_null_count ''readings'' ''temp''" "''sqlite''" readings_db]
    r p n q
  show ?thesis by (auto simp: readings_db_def)
qed

section \<open>Join keys of cross-table rules\<close>

lemma alias_word:
  "sql_tokens (''t1.'' @ k) = sql_lex ''t1.'' k" "sql_tokens (''t2.'' @ k) = sql_lex ''t2.'' k"
  by (simp_all add: sql_tokens_def is_word_char_def)

lemma ct_tokens:
  "sql_tokens (cross_table_validation_sql tbl col operation compare_table compare_column k1 k2) =
     cross_table_tokens operation tbl col k1 compare_table compare_column k2"
  unfolding alias_word cross_table_tokens_def grouped_aggregate_tokens_def
  by (simp add: cross_table_validation_sql_def
      sql_tokens_def sql_lex_append nw is_word_char_def is_space_def)

lemma cc_tokens:
  "sql_tokens (cross_table_count_sql tbl col k1) = cross_table_count_tokens tbl col k1"
  unfolding cross_table_count_tokens_def
  by (simp add: cross_table_count_sql_def sql_tokens_def sql_lex_append nw is_word_char_def is_space_def)

text \<open>
  C7. For a cross-table rule the two keys of the generated SQL depend on the two table
  names and the \<open>join_key\<close> parameter only: id on the subject side and order_id on the
  comparison side for orders against order_items, order_id and id for order_items
  against orders, and for every other pair of tables the \<open>join_key\<close> parameter (id when
  it is absent) on both sides. In the text of the validation query, token for token, the
  subject key is the key selected and grouped by in the aggregate over the rule's table,
  the column behind t1 in the select list and on the left of the join condition; the
  comparison key is the key selected and grouped by in the aggregate over the comparison
  table and the column behind t2 on the right of the join condition. The count query
  counts the distinct values of the subject key in the rule's table.
\<close>

theorem cross_table_join_keys:
  assumes "rule_type rule = ''cross_table_comparison''"
    and "parameters (config rule) ''compare_table'' = Some compare_table"
    and "parameters (config rule) ''compare_column'' = Some compare_column"
    and "join_key = py_str (param_get (parameters (config rule)) ''join_key'' (PStr ''id''))"
    and "operation = py_str (param_get (parameters (config rule)) ''operation'' (PStr ''SUM''))"
    and "keys = (if table (config rule) = ''orders'' \<and> compare_table = PStr ''order_items''
                   then (''id'', ''order_id'')
                 else if table (config rule) = ''order_items'' \<and> compare_table = PStr ''orders''
                   then (''order_id'', ''id'')
                 else (join_key, join_key))"
  shows "\<exists>vq cq. generate_validation_sql database_type rule = Inr (vq, cq)
           \<and> sql_tokens vq =
               cross_table_tokens operation
                 (table (config rule)) (str_opt (column (config rule))) (fst keys)
                 (py_str compare_table) (py_str compare_column) (snd keys)
           \<and> sql_tokens cq =
               cross_table_count_tokens (table (config rule)) (str_opt (column (config rule))) (fst keys)"
  using assms
  by (simp add: generate_validation_sql_def generate_cross_table_comparison_sql_def
      cross_table_keys_def param_def Let_def sql_tokens_strip ct_tokens cc_tokens)

theorem cross_table_join_keys_witness:
  "(\<exists>vq cq. generate_validation_sql ''sqlite'' (cross_rule ''orders'' ''order_items'' (Some (PStr ''customer_id'')))
              = Inr (vq, cq)
       \<and> sql_tokens vq =
           [''WITH'', ''table1_agg'', ''AS'', ''('',
              ''SELECT'', ''id'', '','', ''SUM'', ''('', ''total'', '')'', ''as'', ''agg_value1'',
              ''FROM'', ''orders'', ''WHERE'', ''total'', ''IS'', ''NOT'', ''NULL'', ''GROUP'', ''BY'', ''id'',
            '')'', '','', ''table2_agg'', ''AS'', ''('',
              ''SELECT'', ''order_id'', '','', ''SUM'', ''('', ''price'', '')'', ''as'', ''agg_value2'',
              ''FROM'', ''order_items'', ''WHERE'', ''price'', ''IS'', ''NOT'', ''NULL'',
              ''GROUP'', ''BY'', ''order_id'',
            '')'', ''SELECT'', ''t1.id'', ''as'', ''join_id'', '','', ''t1.agg_value1'', '','', ''t2.agg_value2'', '','',
            ''ABS'', ''('', ''t1.agg_value1'', ''-'', ''COALESCE'', ''('', ''t2.agg_value2'', '','', ''0'', '')'',
            '')'', ''as'', ''difference'', ''FROM'', ''table1_agg'', ''t1'',
            ''LEFT'', ''JOIN'', ''table2_agg'', ''t2'', ''ON'', ''t1.id'', ''='', ''t2.order_id'',
            ''WHERE'', ''t1.agg_value1'', ''!'', ''='', ''COALESCE'', ''('', ''t2.agg_value2'', '','', ''0'', '')'',
            ''LIMIT'', ''1000'']
       \<and> sql_tokens cq =
           [''SELECT'', ''COUNT'', ''('', ''DISTINCT'', ''id'', '')'', ''as'', ''total_count'',
            ''FROM'', ''orders'', ''WHERE'', ''total'', ''IS'', ''NOT'', ''NULL''])
   \<and> (\<exists>vq cq. generate_validation_sql ''sqlite'' (cross_rule ''order_items'' ''orders'' None) = Inr (vq, cq)
       \<and> sql_tokens vq =
           cross_table_tokens ''SUM'' ''order_items'' ''total'' ''order_id'' ''orders'' ''price'' ''id''
       \<and> sql_tokens cq =
           [''SELECT'', ''COUNT'', ''('', ''DISTINCT'', ''order_id'', '')'', ''as'', ''total_count'',
            ''FROM'', ''order_items'', ''WHERE'', ''total'', ''IS'', ''NOT'', ''NULL''])
   \<and> (\<exists>vq cq. generate_validation_sql ''sqlite'' (cross_rule ''invoices'' ''payments'' (Some (PStr ''customer_id'')))
              = Inr (vq, cq)
       \<and> sql_tokens vq =
           [''WITH'', ''table1_agg'', ''AS'', ''('',
              ''SELECT'', ''customer_id'', '','', ''SUM'', ''('', ''total'', '')'', ''as'', ''agg_value1'',
              ''FROM'', ''invoices'', ''WHERE'', ''total'', ''IS'', ''NOT'', ''NULL'',
              ''GROUP'', ''BY'', ''customer_id'',
            '')'', '','', ''table2_agg'', ''AS'', ''('',
              ''SELECT'', ''customer_id'', '','', ''SUM'', ''('', ''price'', '')'', ''as'', ''agg_value2'',
              ''FROM'', ''payments'', ''WHERE'', ''price'', ''IS'', ''NOT'', ''NULL'',
              ''GROUP'', ''BY'', ''customer_id'',
            '')'', ''SELECT'', ''t1.customer_id'', ''as'', ''join_id'', '','', ''t1.agg_value1'', '','',
            ''t2.agg_value2'', '','',
            ''ABS'', ''('', ''t1.agg_value1'', ''-'', ''COALESCE'', ''('', ''t2.agg_value2'', '','', ''0'', '')'',
            '')'', ''as'', ''difference'', ''FROM'', ''table1_agg'', ''t1'',
            ''LEFT'', ''JOIN'', ''table2_agg'', ''t2'', ''ON'', ''t1.customer_id'', ''='', ''t2.customer_id'',
            ''WHERE'', ''t1.agg_value1'', ''!'', ''='', ''COALESCE'', ''('', ''t2.agg_value2'', '','', ''0'', '')'',
            ''LIMIT'', ''1000'']
       \<and> sql_tokens cq =
           [''SELECT'', ''COUNT'', ''('', ''DISTINCT'', ''customer_id'', '')'', ''as'', ''total_count'',
            ''FROM'', ''invoices'', ''WHERE'', ''total'', ''IS'', ''NOT'', ''NULL''])
   \<and> (\<exists>vq cq. generate_validation_sql ''sqlite'' (cross_rule ''invoices'' ''payments'' None) = Inr (vq, cq)
       \<and> sql_tokens vq =
           cross_table_tokens ''SUM'' ''invoices'' ''total'' ''id'' ''payments'' ''price'' ''id''
       \<and> sql_tokens cq =
           [''SELECT'', ''COUNT'', ''('', ''DISTINCT'', ''id'', '')'', ''as'', ''total_count'',
            ''FROM'', ''invoices'', ''WHERE'', ''total'', ''IS'', ''NOT'', ''NULL''])"
proof -
  have t: "cross_table_tokens ''SUM'' ''orders'' ''total'' ''id'' ''order_items'' ''price'' ''order_id'' =
           [''WITH'', ''table1_agg'', ''AS'', ''('',
              ''SELECT'', ''id'', '','', ''SUM'', ''('', ''total'', '')'', ''as'', ''agg_value1'',
              ''FROM'', ''orders'', ''WHERE'', ''total'', ''IS'', ''NOT'', ''NULL'', ''GROUP'', ''BY'', ''id'',
            '')'', '','', ''table2_agg'', ''AS'', ''('',
              ''SELECT'', ''order_id'', '','', ''SUM'', ''('', ''price'', '')'', ''as'', ''agg_value2'',
              ''FROM'', ''order_items'', ''WHERE'', ''price'', ''IS'', ''NOT'', ''NULL'',
              ''GROUP'', ''BY'', ''order_id'',
            '')'', ''SELECT'', ''t1.id'', ''as'', ''join_id'', '','', ''t1.agg_value1'', '','', ''t2.agg_value2'', '','',
            ''ABS'', ''('', ''t1.agg_value1'', ''-'', ''COALESCE'', ''('', ''t2.agg_value2'', '','', ''0'', '')'',
            '')'', ''as'', ''difference'', ''FROM'', ''table1_agg'', ''t1'',
            ''LEFT'', ''JOIN'', ''table2_agg'', ''t2'', ''ON'', ''t1.id'', ''='', ''t2.order_id'',
            ''WHERE'', ''t1.agg_value1'', ''!'', ''='', ''COALESCE'', ''('', ''t2.agg_value2'', '','', ''0'', '')'',
            ''LIMIT'', ''1000'']"
    "cross_table_tokens ''SUM'' ''invoices'' ''total'' ''customer_id'' ''payments'' ''price'' ''customer_id'' =
           [''WITH'', ''table1_agg'', ''AS'', ''('',
              ''SELECT'', ''customer_id'', '','', ''SUM'', ''('', ''total'', '')'', ''as'', ''agg_value1'',
              ''FROM'', ''invoices'', ''WHERE'', ''total'', ''IS'', ''NOT'', ''NULL'',
              ''GROUP'', ''BY'', ''customer_id'',
            '')'', '','', ''table2_agg'', ''AS'', ''('',
              ''SELECT'', ''customer_id'', '','', ''SUM'', ''('', ''price'', '')'', ''as'', ''agg_value2'',
              ''FROM'', ''payments'', ''WHERE'', ''price'', ''IS'', ''NOT'', ''NULL'',
              ''GROUP'', ''BY'', ''customer_id'',
            '')'', ''SELECT'', ''t1.customer_id'', ''as'', ''join_id'', '','', ''t1.agg_value1'', '','',
            ''t2.agg_value2'', '','',
            ''ABS'', ''('', ''t1.agg_value1'', ''-'', ''COALESCE'', ''('', ''t2.agg_value2'', '','', ''0'', '')'',
            '')'', ''as'', ''difference'', ''FROM'', ''table1_agg'', ''t1'',
            ''LEFT'', ''JOIN'', ''table2_agg'', ''t2'', ''ON'', ''t1.customer_id'', ''='', ''t2.customer_id'',
            ''WHERE'', ''t1.agg_value1'', ''!'', ''='', ''COALESCE'', ''('', ''t2.agg_value2'', '','', ''0'', '')'',
            ''LIMIT'', ''1000'']"
    by code_simp+
  have c: "cross_table_count_tokens ''orders'' ''total'' ''id'' =
             [''SELECT'', ''COUNT'', ''('', ''DISTINCT'', ''id'', '')'', ''as'', ''total_count'',
              ''FROM'', ''orders'', ''WHERE'', ''total'', ''IS'', ''NOT'', ''NULL'']"
    "cross_table_count_tokens ''order_items'' ''total'' ''order_id'' =
             [''SELECT'', ''COUNT'', ''('', ''DISTINCT'', ''order_id'', '')'', ''as'', ''total_count'',
              ''FROM'', ''order_items'', ''WHERE'', ''total'', ''IS'', ''NOT'', ''NULL'']"
    "cross_table_count_tokens ''invoices'' ''total'' ''customer_id'' =
             [''SELECT'', ''COUNT'', ''('', ''DISTINCT'', ''customer_id'', '')'', ''as'', ''total_count'',
              ''FROM'', ''invoices'', ''WHERE'', ''total'', ''IS'', ''NOT'', ''NULL'']"
    "cross_table_count_tokens ''invoices'' ''total'' ''id'' =
             [''SELECT'', ''COUNT'', ''('', ''DISTINCT'', ''id'', '')'', ''as'', ''total_count'',
              ''FROM'', ''invoices'', ''WHERE'', ''total'', ''IS'', ''NOT'', ''NULL'']"
    by code_simp+
  from cross_table_join_keys [of "cross_rule ''orders'' ''order_items'' (Some (PStr ''customer_id''))"
            "PStr ''order_items''" "PStr ''price''" "''customer_id''" "''SUM''" "(''id'', ''order_id'')" "''sqlite''"]
  have 1: "\<exists>vq cq. generate_validation_sql ''sqlite'' (cross_rule ''orders'' ''order_items'' (Some (PStr ''customer_id'')))
              = Inr (vq, cq)
       \<and> sql_tokens vq = cross_table_tokens ''SUM'' ''orders'' ''total'' ''id'' ''order_items'' ''price'' ''order_id''
       \<and> sql_tokens cq = cross_table_count_tokens ''orders'' ''total'' ''id''"
    by (simp add: cross_rule_def param_get_def)
  from cross_table_join_keys [of "cross_rule ''order_items'' ''orders'' None"
            "PStr ''orders''" "PStr ''price''" "''id''" "''SUM''" "(''order_id'', ''id'')" "''sqlite''"]
  have 2: "\<exists>vq cq. generate_validation_sql ''sqlite'' (cross_rule ''order_items'' ''orders'' None) = Inr (vq, cq)
       \<and> sql_tokens vq = cross_table_tokens ''SUM'' ''order_items'' ''total'' ''order_id'' ''orders'' ''price'' ''id''
       \<and> sql_tokens cq = cross_table_count_tokens ''order_items'' ''total'' ''order_id''"
    by (simp add: cross_rule_def param_get_def)
  from cross_table_join_keys [of "cross_rule ''invoices'' ''payments'' (Some (PStr ''customer_id''))"
            "PStr ''payments''" "PStr ''price''" "''customer_id''" "''SUM''" "(''customer_id'', ''customer_id'')" "''sqlite''"]
  have 3: "\<exists>vq cq. generate_validation_sql ''sqlite'' (cross_rule ''invoices'' ''payments'' (Some (PStr ''customer_id'')))
              = Inr (vq, cq)
       \<and> sql_tokens vq = cross_table_tokens ''SUM'' ''invoices'' ''total'' ''customer_id'' ''payments'' ''price'' ''customer_id''
       \<and> sql_tokens cq = cross_table_count_tokens ''invoices'' ''total'' ''customer_id''"
    by (simp add: cross_rule_def param_get_def)
  from cross_table_join_keys [of "cross_rule ''invoices'' ''payments'' None"
            "PStr ''payments''" "PStr ''price''" "''id''" "''SUM''" "(''id'', ''id'')" "''sqlite''"]
  have 4: "\<exists>vq cq. generate_validation_sql ''sqlite'' (cross_rule ''invoices'' ''payments'' None) = Inr (vq, cq)
       \<and> sql_tokens vq = cross_table_tokens ''SUM'' ''invoices'' ''total'' ''id'' ''payments'' ''price'' ''id''
       \<and> sql_tokens cq = cross_table_count_tokens ''invoices'' ''total'' ''id''"
    by (simp add: cross_rule_def param_get_def)
  from 1 2 3 4 show ?thesis
    unfolding t c by (intro conjI)
qed

section \<open>The pass flag of a statistical comparison\<close>

lemma small_literals: "sql_literal ''0'' = Some (VInt 0)" "sql_literal ''1'' = Some (VInt 1)"
  by (simp_all add: sql_literal_def sql_integer_def unsigned_integer_def digit_of_def)

lemma sc_tokens:
  "sql_tokens (statistical_comparison_validation_sql tbl col operation compare_table compare_column threshold) =
     aggregates_tokens tbl col operation compare_table compare_column
     @ expr_tokens (pass_flag threshold) @ [''as'', ''passed'', ''FROM'', ''stats1'', '','', ''stats2'']"
  by (simp add: statistical_comparison_validation_sql_def aggregates_tokens_def pass_flag_def
      sql_tokens_def sql_lex_append nw is_word_char_def is_space_def)

lemma one_tokens: "sql_tokens one_count_sql = [''SELECT'', ''1'', ''as'', ''total_count'']"
  by (simp add: one_count_sql_def sql_tokens_def is_word_char_def is_space_def)

lemma ratio_value:
  "num_of b \<noteq> 0 \<Longrightarrow>
   \<exists>q. combine_values sql_divide (map_option sql_abs (combine_values sql_minus (Some a) (Some b))) (Some b) = Some q
       \<and> num_of q = computed_ratio a b"
  by (cases a; cases b) simp_all

lemma pass_flag_value:
  assumes "sql_number threshold = Some th"
  shows "eval_expr r (pass_flag threshold) =
           Some (VInt (if \<exists>a b. r ''stats1.value1'' = Some a \<and> r ''stats2.value2'' = Some b
                              \<and> ((num_of b = 0 \<and> num_of a = 0)
                                  \<or> (num_of b \<noteq> 0 \<and> computed_ratio a b \<le> th))
                       then 1 else 0))"
proof -
  from sql_literal_value [OF assms] obtain vt where t: "sql_literal threshold = Some vt" "num_of vt = th"
    by blast
  show ?thesis
  proof (cases "r ''stats2.value2''")
    case None
    then show ?thesis by (simp add: pass_flag_def small_literals t)
  next
    case b: (Some b)
    show ?thesis
    proof (cases "r ''stats1.value1''")
      case None
      with b show ?thesis by (simp add: pass_flag_def small_literals t)
    next
      case a: (Some a)
      show ?thesis
      proof (cases "num_of b = 0")
        case True
        with a b show ?thesis by (simp add: pass_flag_def small_literals t)
      next
        case False
        from ratio_value [OF False, of a] obtain q where
          q: "combine_values sql_divide (map_option sql_abs (combine_values sql_minus (Some a) (Some b))) (Some b)
                = Some q"
          "num_of q = computed_ratio a b"
          by blast
        from a b False q t show ?thesis
          by (simp add: pass_flag_def small_literals)
      qed
    qed
  qed
qed

lemma small_quotient:
  assumes "b \<noteq> 0" and "\<bar>a - b\<bar> < \<bar>b\<bar>"
  shows "trunc_div \<bar>a - b\<bar> b = 0"
  using assms by (simp add: trunc_div_def div_pos_pos_trivial)

lemma statistical_execution:
  assumes "get_rule (rules w) rule_id' = Some rule"
    and "rule_type rule = ''statistical_comparison''"
    and "pick_database E database = Inr db"
    and "generate_validation_sql ''sqlite'' rule = Inr (sql_query, count_query)"
    and "execute_query E db count_query = Inr count_rows"
    and "total_count_of count_rows = Inr n"
    and "0 < n"
    and "execute_query E db sql_query = Inr (comparison_result # others)"
    and "map_of comparison_result ''passed'' = Some flag"
    and "\<forall>rs. save_rules E rs = None"
    and "\<forall>h. save_results E h = None"
  shows "\<exists>d. fst (execute_rule E w rule_id' database) = Inr d
             \<and> d_error d = None \<and> d_total_records d = n
             \<and> d_passed_records d = (if truthy flag then n else 0)
             \<and> d_failed_records d = (if truthy flag then 0 else n)
             \<and> d_passed d = truthy flag"
  using assms
  by (simp add: execute_rule_def execute_rule_try_def process_rule_result_def
      process_statistical_comparison_result_def
      read_clock_def update_last_run_def record_execution_result_def to_dict_def
      RuleExecutionResult_init_def finish_def Let_def
      split: option.splits prod.splits)

text \<open>
  C6, as the code has it. For a statistical comparison with its operation, comparison
  table and comparison column, and a threshold (0.05 when absent) that prints as the
  number th: the validation query ends its select list with the pass flag, CASE WHEN
  value2 = 0 THEN (CASE WHEN value1 = 0 THEN 1 ELSE 0 END) ELSE (CASE WHEN
  ABS(value1 - value2) / value2 <= threshold THEN 1 ELSE 0 END) END as passed, and the
  count query is SELECT 1 as total_count. The flag is 1 when both aggregates are zero,
  or when the comparison aggregate is not zero and the quotient the query computes is at
  most th, and 0 otherwise (also when an aggregate is NULL). When one of the aggregates
  is a real number, that quotient is the relative difference |a - b| / b. When both are
  integers it is the integer quotient: for a threshold that is not negative the flag is 1
  as soon as |a - b| is less than |b|, whatever the relative difference. When the count
  query gives a positive count n and the first row of the validation result holds the
  flag, the sealed result has passed_records n and failed_records 0 for a true flag,
  passed_records 0 and failed_records n otherwise, and passed is the truth of the flag.
\<close>

theorem statistical_comparison_flag:
  assumes "rule_type rule = ''statistical_comparison''"
    and "parameters (config rule) ''operation'' = Some (PStr operation)"
    and "parameters (config rule) ''compare_table'' = Some compare_table"
    and "parameters (config rule) ''compare_column'' = Some compare_column"
    and "threshold = py_str (param_get (parameters (config rule)) ''threshold'' (PFloat ''0.05''))"
    and "sql_number threshold = Some th"
  shows "(\<exists>vq cq. generate_validation_sql database_type rule = Inr (vq, cq)
            \<and> sql_tokens vq =
                aggregates_tokens (table (config rule)) (str_opt (column (config rule))) (upper operation)
                  (py_str compare_table) (py_str compare_column)
                @ expr_tokens (pass_flag threshold)
                @ [''as'', ''passed'', ''FROM'', ''stats1'', '','', ''stats2'']
            \<and> sql_tokens cq = [''SELECT'', ''1'', ''as'', ''total_count''])
         \<and> eval_expr r (pass_flag threshold) =
             Some (VInt (if \<exists>a b. r ''stats1.value1'' = Some a \<and> r ''stats2.value2'' = Some b
                                \<and> ((num_of b = 0 \<and> num_of a = 0)
                                    \<or> (num_of b \<noteq> 0 \<and> computed_ratio a b \<le> th))
                         then 1 else 0))
         \<and> (r ''stats1.value1'' = Some a \<and> r ''stats2.value2'' = Some b
              \<and> ((\<exists>x. a = VReal x) \<or> (\<exists>y. b = VReal y))
            \<longrightarrow> eval_expr r (pass_flag threshold) =
                  Some (VInt (if (num_of b = 0 \<and> num_of a = 0)
                                 \<or> (num_of b \<noteq> 0 \<and> relative_difference a b \<le> th)
                              then 1 else 0)))
         \<and> (r ''stats1.value1'' = Some (VInt i) \<and> r ''stats2.value2'' = Some (VInt j)
              \<and> j \<noteq> 0 \<and> \<bar>i - j\<bar> < \<bar>j\<bar> \<and> 0 \<le> th
            \<longrightarrow> eval_expr r (pass_flag threshold) = Some (VInt 1))
         \<and> (get_rule (rules w) rule_id' = Some rule \<and> pick_database E database = Inr db
              \<and> (\<exists>vq cq count_rows.
                     generate_validation_sql ''sqlite'' rule = Inr (vq, cq)
                     \<and> execute_query E db cq = Inr count_rows \<and> total_count_of count_rows = Inr n
                     \<and> execute_query E db vq = Inr (comparison_result # others))
              \<and> 0 < n \<and> map_of comparison_result ''passed'' = Some flag
              \<and> (\<forall>rs. save_rules E rs = None) \<and> (\<forall>h. save_results E h = None)
            \<longrightarrow> (\<exists>d. fst (execute_rule E w rule_id' database) = Inr d
                     \<and> d_error d = None \<and> d_total_records d = n
                     \<and> d_passed_records d = (if truthy flag then n else 0)
                     \<and> d_failed_records d = (if truthy flag then 0 else n)
                     \<and> d_passed d = truthy flag))"
  (is "?G \<and> ?V \<and> (?HR \<longrightarrow> ?XR) \<and> (?HI \<longrightarrow> ?XI) \<and> (?H \<longrightarrow> ?X)")
proof (intro conjI)
  show ?G
    using assms(1-5)
    by (simp add: generate_validation_sql_def generate_statistical_comparison_sql_def param_def
        upper_of_def Let_def sql_tokens_strip sc_tokens one_tokens)
  show v: ?V
    using assms(6) by (rule pass_flag_value)
  show "?HR \<longrightarrow> ?XR"
  proof
    assume h: ?HR
    then have "computed_ratio a b = relative_difference a b"
      by (cases a; cases b) (auto simp: relative_difference_def)
    with h v show ?XR by simp
  qed
  show "?HI \<longrightarrow> ?XI"
  proof
    assume h: ?HI
    then have "trunc_div \<bar>i - j\<bar> j = 0" by (simp add: small_quotient)
    with h v show ?XI by simp
  qed
  show "?H \<longrightarrow> ?X"
  proof
    assume h: ?H
    then obtain vq cq count_rows where
      g: "generate_validation_sql ''sqlite'' rule = Inr (vq, cq)"
      and c: "execute_query E db cq = Inr count_rows" and t: "total_count_of count_rows = Inr n"
      and v: "execute_query E db vq = Inr (comparison_result # others)"
      by blast
    from h have r: "get_rule (rules w) rule_id' = Some rule" and p: "pick_database E database = Inr db"
      and n: "0 < n" and f: "map_of comparison_result ''passed'' = Some flag"
      and s1: "\<forall>rs. save_rules E rs = None" and s2: "\<forall>h. save_results E h = None"
      by simp_all
    from statistical_execution [OF r assms(1) p g c t n v f s1 s2] show ?X .
  qed
qed

text \<open>
  The comparison of 150 rows against 100 with the threshold 0.05: the relative
  difference is one half, yet the flag is 1 and the rule is sealed as passed. With 250
  rows against 100 the integer quotient is 2, and with the aggregates 150.0 and 100.0
  the quotient is the relative difference: the flag is 0.
\<close>

theorem statistical_comparison_flag_witness:
  "eval_expr (aggregates_row 150 100) (pass_flag ''0.05'') = Some (VInt 1)
   \<and> relative_difference (VInt 150) (VInt 100) = 1 / 2
   \<and> sql_number ''0.05'' = Some (1 / 20)
   \<and> eval_expr (aggregates_row 250 100) (pass_flag ''0.05'') = Some (VInt 0)
   \<and> eval_expr (\<lambda>c. if c = ''stats1.value1'' then Some (VReal 150)
                     else if c = ''stats2.value2'' then Some (VReal 100) else None)
        (pass_flag ''0.05'') = Some (VInt 0)
   \<and> (\<exists>d. fst (execute_rule (counts_env 150 100) count_world ''c1'' None) = Inr d
          \<and> d_error d = None \<and> d_passed d
          \<and> d_total_records d = 1 \<and> d_passed_records d = 1 \<and> d_failed_records d = 0)
   \<and> (\<exists>d. fst (execute_rule (counts_env 250 100) count_world ''c1'' None) = Inr d
          \<and> d_error d = None \<and> \<not> d_passed d
          \<and> d_total_records d = 1 \<and> d_passed_records d = 0 \<and> d_failed_records d = 1)"
proof -
  let ?real_row = "\<lambda>c. if c = ''stats1.value1'' then Some (VReal 150)
                       else if c = ''stats2.value2'' then Some (VReal 100) else None"
  have th: "sql_number ''0.05'' = Some (1 / 20)"
    by (simp add: sql_number_def unsigned_number_def digit_of_def)
  have a: "rule_type count_rule = ''statistical_comparison''"
    "parameters (config count_rule) ''operation'' = Some (PStr ''count'')"
    "parameters (config count_rule) ''compare_table'' = Some (PStr ''payments'')"
    "parameters (config count_rule) ''compare_column'' = Some (PStr ''id'')"
    "''0.05'' = py_str (param_get (parameters (config count_rule)) ''threshold'' (PFloat ''0.05''))"
    by (simp_all add: count_rule_def param_get_def)
  note T = statistical_comparison_flag [OF a th]
  have e1: "eval_expr (aggregates_row 150 100) (pass_flag ''0.05'') = Some (VInt 1)"
    using T [where r = "aggregates_row 150 100" and i = 150 and j = 100,
               THEN conjunct2, THEN conjunct2, THEN conjunct2, THEN conjunct1]
    by (simp add: aggregates_row_def)
  have e2: "eval_expr (aggregates_row 250 100) (pass_flag ''0.05'') = Some (VInt 0)"
    using T [where r = "aggregates_row 250 100", THEN conjunct2, THEN conjunct1]
    by (simp add: aggregates_row_def trunc_div_def)
  have e3: "eval_expr ?real_row (pass_flag ''0.05'') = Some (VInt 0)"
    using T [where r = ?real_row and a = "VReal 150" and b = "VReal 100",
               THEN conjunct2, THEN conjunct2, THEN conjunct1]
    by (simp add: relative_difference_def)
  have rd: "relative_difference (VInt 150) (VInt 100) = 1 / 2"
    by (simp add: relative_difference_def)
  obtain vq cq where g: "generate_validation_sql ''sqlite'' count_rule = Inr (vq, cq)"
    and tn: "take 8 vq \<noteq> ''SELECT 1''" and tc: "take 8 cq = ''SELECT 1''"
  proof -
    have "case generate_validation_sql ''sqlite'' count_rule of
            Inl e \<Rightarrow> False
          | Inr q \<Rightarrow> take 8 (fst q) \<noteq> ''SELECT 1'' \<and> take 8 (snd q) = ''SELECT 1''"
      by code_simp
    then show ?thesis using that by (auto split: sum.splits)
  qed
  have r: "get_rule (rules count_world) ''c1'' = Some count_rule"
    by (simp add: count_world_def get_rule_def get_rule_key_def)
  have n: "total_count_of [[(''total_count'', CInt 1)]] = Inr 1"
    by (simp add: total_count_of_def)
  have x: "\<exists>d. fst (execute_rule (counts_env i j) count_world ''c1'' None) = Inr d
             \<and> d_error d = None \<and> d_total_records d = 1
             \<and> d_passed_records d = (if truthy (cell_of (eval_expr (aggregates_row i j) (pass_flag ''0.05''))) then 1 else 0)
             \<and> d_failed_records d = (if truthy (cell_of (eval_expr (aggregates_row i j) (pass_flag ''0.05''))) then 0 else 1)
             \<and> d_passed d = truthy (cell_of (eval_expr (aggregates_row i j) (pass_flag ''0.05'')))" for i j
  proof -
    have p: "pick_database (counts_env i j) None = Inr ''db''"
      by (simp add: pick_database_def counts_env_def)
    have c: "execute_query (counts_env i j) ''db'' cq = Inr [[(''total_count'', CInt 1)]]"
      using tc by (simp add: counts_env_def)
    have v: "execute_query (counts_env i j) ''db'' vq = Inr (comparison_row i j # [])"
      using tn by (simp add: counts_env_def)
    have s: "(\<forall>rs. save_rules (counts_env i j) rs = None) \<and> (\<forall>h. save_results (counts_env i j) h = None)"
      by (simp add: counts_env_def)
    have f: "map_of (comparison_row i j) ''passed''
               = Some (cell_of (eval_expr (aggregates_row i j) (pass_flag ''0.05'')))"
      by (simp add: comparison_row_def)
    show ?thesis
      using T [where w = count_world and rule_id' = "''c1''" and E = "counts_env i j"
                and database = None and db = "''db''" and n = 1 and comparison_result = "comparison_row i j"
                and others = "[]"
                and flag = "cell_of (eval_expr (aggregates_row i j) (pass_flag ''0.05''))",
               THEN conjunct2, THEN conjunct2, THEN conjunct2, THEN conjunct2]
        r p g c v n s f
      by auto
  qed
  from x [of 150 100] e1
  have x1: "\<exists>d. fst (execute_rule (counts_env 150 100) count_world ''c1'' None) = Inr d
          \<and> d_error d = None \<and> d_passed d
          \<and> d_total_records d = 1 \<and> d_passed_records d = 1 \<and> d_failed_records d = 0"
    by auto
  from x [of 250 100] e2
  have x2: "\<exists>d. fst (execute_rule (counts_env 250 100) count_world ''c1'' None) = Inr d
          \<and> d_error d = None \<and> \<not> d_passed d
          \<and> d_total_records d = 1 \<and> d_passed_records d = 0 \<and> d_failed_records d = 1"
    by auto
  from e1 rd th e2 e3 x1 x2 show ?thesis by blast
qed

section \<open>A row-counting rule never passes\<close>

lemma counting_processed:
  assumes "rule_type rule \<in> set counting_types"
    and "process_rule_result rule query_result r = Inr r'"
    and "passed_records r = 0"
  shows "total_records r' = total_records r
         \<and> (passed_records r' = 0 \<or> passed_records r' < total_records r')"
  using assms
  by (auto simp: counting_types_def process_rule_result_def process_value_range_result_def
      process_value_template_result_def process_data_continuity_result_def
      process_cross_table_comparison_result_def Let_def split: if_splits)

lemma counting_try:
  assumes "rule_type rule \<in> set counting_types"
    and "execute_rule_try E w rule db r0 = (err, r1, w1)"
    and "passed_records r0 = 0"
  shows "passed_records r1 = 0 \<or> passed_records r1 < total_records r1"
proof -
  have *: "passed_records r' = 0 \<or> passed_records r' < total_records r'"
    if "process_rule_result rule q (r0\<lparr> total_records := n \<rparr>) = Inr r'" for q n r'
    using counting_processed [OF assms(1) that] assms(3) by auto
  show ?thesis
    using assms(2,3) *
    by (auto simp: execute_rule_try_def update_last_run_def read_clock_def Let_def
        split: sum.splits prod.splits option.splits)
qed

lemma finish_not_all:
  "passed_records r = 0 \<or> passed_records r < total_records r \<Longrightarrow> \<not> passed (finish t r)"
proof -
  assume a: "passed_records r = 0 \<or> passed_records r < total_records r"
  show "\<not> passed (finish t r)"
  proof (cases "total_records r > 0")
    case False
    then show ?thesis by (simp add: finish_def Let_def)
  next
    case True
    with a have lt: "passed_records r < total_records r" by auto
    then have "real_of_int (passed_records r) < real_of_int (total_records r)" by simp
    with True have "real_of_int (passed_records r) / real_of_int (total_records r) < 1"
      by simp
    then have "real_of_int (passed_records r) / real_of_int (total_records r) * 100 < 1 * 100"
      by (rule mult_strict_right_mono) simp
    with True show ?thesis by (simp add: finish_def Let_def)
  qed
qed

text \<open>
  What the branch on \<open>query_result\<close> amounts to: whatever the database answers, no
  execution of a row-counting rule is sealed as passed. With failing rows the passed
  count is below the total, and without them it stays 0.
\<close>

lemma counting_rule_never_passes:
  assumes "get_rule (rules w) rule_id' = Some rule"
    and "rule_type rule \<in> set counting_types"
    and "fst (execute_rule E w rule_id' database) = Inr d"
  shows "\<not> d_passed d"
proof -
  from assms(1,3) obtain db where p: "pick_database E database = Inr db"
    by (auto simp: execute_rule_def split: sum.splits)
  let ?r0 = "RuleExecutionResult_init (name rule) (rid rule) (fst (read_clock E w))"
  obtain err r1 w1 where t: "execute_rule_try E (snd (read_clock E w)) rule db ?r0 = (err, r1, w1)"
    by (cases "execute_rule_try E (snd (read_clock E w)) rule db ?r0") auto
  have z: "passed_records ?r0 = 0" by (simp add: RuleExecutionResult_init_def)
  from counting_try [OF assms(2) t z]
  have c: "passed_records r1 = 0 \<or> passed_records r1 < total_records r1" .
  from execute_rule_unfold [OF assms(1) p t] assms(3)
  have d: "d = to_dict (finish (fst (read_clock E w1))
                 (case err of None \<Rightarrow> r1 | Some e \<Rightarrow> r1\<lparr> error := Some (exn_str e) \<rparr>))"
    by (auto simp: Let_def split: option.splits)
  have "passed_records (case err of None \<Rightarrow> r1 | Some e \<Rightarrow> r1\<lparr> error := Some (exn_str e) \<rparr>) = 0
        \<or> passed_records (case err of None \<Rightarrow> r1 | Some e \<Rightarrow> r1\<lparr> error := Some (exn_str e) \<rparr>)
            < total_records (case err of None \<Rightarrow> r1 | Some e \<Rightarrow> r1\<lparr> error := Some (exn_str e) \<rparr>)"
    using c by (cases err) auto
  from finish_not_all [OF this] d show ?thesis by (simp add: to_dict_def)
qed

end
